(* ===== verification/Prelude.thy ===== *)
theory Prelude
  imports Main
begin

text \<open>
  Shared vocabulary of the development.  The store module of the repository
  (\<open>src/models/annotations.js\<close>) is a chain of \<open>async\<close> functions: each
  awaits database queries in order, and a rejected query rejects the whole chain.
  We model such a chain as a function from the database state to either the
  rejection (\<open>Inl\<close>) or the resolved value with the new state (\<open>Inr\<close>).
  This theory holds that monad (\<open>st_return\<close>, \<open>st_bind\<close>, \<open>st_throw\<close>),
  its simplification rules, the collections of evaluation rules that the
  component theories fill, and a few generic list and option lemmas.
\<close>

named_theorems js_simps "evaluation rules of the JavaScript layer"
named_theorems sql_simps "evaluation rules of the SQL parser and executor"
named_theorems store_simps "evaluation rules of the annotation store"

section \<open>Failures\<close>

text \<open>
  The ways a call of the store can reject, named after the PostgreSQL error
  condition (SQLSTATE in the comment) or the JavaScript exception that the
  program raises.  Connection failures are not generated by the model: the
  facade's theorems are stated for every failure.
\<close>

datatype failure =
    SyntaxError                          \<comment> \<open>42601\<close>
  | InvalidTextRepresentation string string  \<comment> \<open>22P02: type, input text\<close>
  | NumericValueOutOfRange string        \<comment> \<open>22003: type\<close>
  | InvalidDatetimeFormat string         \<comment> \<open>22007: input text\<close>
  | DatetimeFieldOverflow string         \<comment> \<open>22008: input text\<close>
  | UndefinedTable string                \<comment> \<open>42P01\<close>
  | UndefinedColumn string               \<comment> \<open>42703\<close>
  | DatatypeMismatch string              \<comment> \<open>42804: column\<close>
  | UniqueViolation string               \<comment> \<open>23505: constraint columns\<close>
  | InvalidRowCountInLimit               \<comment> \<open>2201W: negative LIMIT\<close>
  | InvalidColumnReference               \<comment> \<open>42P10: ON CONFLICT without a matching constraint\<close>
  | SequenceLimitExceeded                \<comment> \<open>2200H: nextval past the sequence's maximum\<close>
  | ConnectionFailure                    \<comment> \<open>08006, from the pool\<close>
  | ReferenceError string                \<comment> \<open>JavaScript: unbound name\<close>
  | TypeError string                     \<comment> \<open>JavaScript: property of undefined\<close>

section \<open>Decimal digits\<close>

text \<open>
  Decimal text is read and written in three places: JavaScript's
  \<open>Number.prototype.toString\<close>, PostgreSQL's integer and timestamp input, and
  the zero-padded fields of \<open>TO_CHAR\<close>.  Characters are bytes; the digits are
  the bytes 48 to 57.
\<close>

definition is_digit :: "char \<Rightarrow> bool" where
  "is_digit c \<longleftrightarrow> 48 \<le> (of_char c :: nat) \<and> (of_char c :: nat) \<le> 57"

definition digit_val :: "char \<Rightarrow> nat" where
  "digit_val c = of_char c - 48"

definition digit_char :: "nat \<Rightarrow> char" where
  "digit_char d = char_of (48 + d)"

fun nat_digits :: "nat \<Rightarrow> string" where
  "nat_digits n = (if n < 10 then [digit_char n] else nat_digits (n div 10) @ [digit_char (n mod 10)])"

declare nat_digits.simps [simp del]

definition dec_val :: "string \<Rightarrow> nat" where
  "dec_val ds = foldl (\<lambda>a c. 10 * a + digit_val c) 0 ds"

text \<open>\<open>pad_digits w n\<close>: the digits of \<open>n\<close>, with zeros in front up to width \<open>w\<close>.\<close>

definition pad_digits :: "nat \<Rightarrow> nat \<Rightarrow> string" where
  "pad_digits w n = (let ds = nat_digits n in replicate (w - length ds) (CHR ''0'') @ ds)"

section \<open>Asynchronous chains as a state and exception monad\<close>

type_synonym ('e, 's, 'a) st = "'s \<Rightarrow> 'e + ('a \<times> 's)"

definition st_return :: "'a \<Rightarrow> ('e, 's, 'a) st" where
  "st_return a = (\<lambda>s. Inr (a, s))"

definition st_throw :: "'e \<Rightarrow> ('e, 's, 'a) st" where
  "st_throw e = (\<lambda>s. Inl e)"

definition st_bind :: "('e, 's, 'a) st \<Rightarrow> ('a \<Rightarrow> ('e, 's, 'b) st) \<Rightarrow> ('e, 's, 'b) st" where
  "st_bind m f = (\<lambda>s. case m s of Inl e \<Rightarrow> Inl e | Inr (a, s') \<Rightarrow> f a s')"

text \<open>A pure step that may throw, inside a chain.\<close>

definition st_of :: "'e + 'a \<Rightarrow> ('e, 's, 'a) st" where
  "st_of x = (\<lambda>s. case x of Inl e \<Rightarrow> Inl e | Inr a \<Rightarrow> Inr (a, s))"

text \<open>A map over the resolved value (\<open>.then(v => g(v))\<close> with a pure \<open>g\<close>).\<close>

definition st_map :: "('a \<Rightarrow> 'b) \<Rightarrow> ('e, 's, 'a) st \<Rightarrow> ('e, 's, 'b) st" where
  "st_map g m = st_bind m (\<lambda>a. st_return (g a))"

section \<open>Results of pure steps\<close>

text \<open>A pure step that may fail returns \<open>failure + 'a\<close>; \<open>ok_bind\<close> stops at
  the first failure and \<open>ok_map\<close> maps over a list from left to right.\<close>

definition ok_bind :: "'e + 'a \<Rightarrow> ('a \<Rightarrow> 'e + 'b) \<Rightarrow> 'e + 'b" where
  "ok_bind x f = (case x of Inl e \<Rightarrow> Inl e | Inr a \<Rightarrow> f a)"

fun ok_map :: "('a \<Rightarrow> 'e + 'b) \<Rightarrow> 'a list \<Rightarrow> 'e + 'b list" where
  "ok_map f [] = Inr []"
| "ok_map f (x # xs) = ok_bind (f x) (\<lambda>y. ok_bind (ok_map f xs) (\<lambda>ys. Inr (y # ys)))"

section \<open>Lists and options\<close>

text \<open>\<open>Array.prototype.join\<close> on strings.\<close>

fun js_join :: "string \<Rightarrow> string list \<Rightarrow> string" where
  "js_join sep [] = []"
| "js_join sep [x] = x"
| "js_join sep (x # y # zs) = x @ sep @ js_join sep (y # zs)"

text \<open>The position of the first element satisfying \<open>P\<close>.\<close>

fun first_index :: "('a \<Rightarrow> bool) \<Rightarrow> 'a list \<Rightarrow> nat option" where
  "first_index P [] = None"
| "first_index P (x # xs) = (if P x then Some 0 else map_option Suc (first_index P xs))"

section \<open>Shared lemmas\<close>

lemma digit_char_eval [simp]:
  "digit_char 0 = CHR ''0''" "digit_char 1 = CHR ''1''" "digit_char 2 = CHR ''2''"
  "digit_char 3 = CHR ''3''" "digit_char 4 = CHR ''4''" "digit_char 5 = CHR ''5''"
  "digit_char 6 = CHR ''6''" "digit_char 7 = CHR ''7''" "digit_char 8 = CHR ''8''"
  "digit_char 9 = CHR ''9''" "digit_char (Suc 0) = CHR ''1''"
  unfolding digit_char_def by code_simp+

lemma digit_char_is_digit: "d < 10 \<Longrightarrow> is_digit (digit_char d)"
  by (simp add: digit_char_def is_digit_def)

lemma digit_val_digit_char [simp]: "d < 10 \<Longrightarrow> digit_val (digit_char d) = d"
  by (simp add: digit_char_def digit_val_def)

lemma dec_val_snoc [simp]: "dec_val (ds @ [c]) = 10 * dec_val ds + digit_val c"
  by (simp add: dec_val_def)

lemma dec_val_Nil [simp]: "dec_val [] = 0"
  by (simp add: dec_val_def)

lemma dec_val_single [simp]: "dec_val [c] = digit_val c"
  by (simp add: dec_val_def)

lemma nat_digits_not_Nil [simp]: "nat_digits n \<noteq> []"
  by (subst nat_digits.simps) simp

lemma nat_digits_all_digits: "\<forall>c \<in> set (nat_digits n). is_digit c"
proof (induction n rule: nat_digits.induct)
  case (1 n)
  then show ?case
    by (subst nat_digits.simps) (auto simp: digit_char_is_digit)
qed

lemma dec_val_nat_digits [simp]: "dec_val (nat_digits n) = n"
proof (induction n rule: nat_digits.induct)
  case (1 n)
  then show ?case
    by (subst nat_digits.simps) auto
qed

lemma is_digit_digit_val_lt: "is_digit c \<Longrightarrow> digit_val c < 10"
  unfolding is_digit_def digit_val_def by linarith

lemma pad_digits_all_digits: "\<forall>c \<in> set (pad_digits w n). is_digit c"
  using nat_digits_all_digits [of n]
  by (auto simp: pad_digits_def Let_def is_digit_def)

lemma dec_val_replicate_zero_append: "dec_val (replicate k (CHR ''0'') @ ds) = dec_val ds"
proof (induction ds rule: rev_induct)
  case Nil
  then show ?case by (induction k) (simp_all add: dec_val_def digit_val_def)
next
  case (snoc c ds)
  then show ?case by (simp flip: append_assoc)
qed

lemma dec_val_pad_digits [simp]: "dec_val (pad_digits w n) = n"
  by (simp add: pad_digits_def Let_def dec_val_replicate_zero_append)

lemma length_pad_digits: "w \<le> length (pad_digits w n)"
  by (simp add: pad_digits_def Let_def)

lemma length_nat_digits_bound: "n < 10 ^ w \<Longrightarrow> 0 < w \<Longrightarrow> length (nat_digits n) \<le> w"
proof (induction n arbitrary: w rule: nat_digits.induct)
  case (1 n)
  show ?case
  proof (cases "n < 10")
    case True
    then show ?thesis using 1(3) by (subst nat_digits.simps) simp
  next
    case False
    then have w: "2 \<le> w"
      using 1(2) by (cases w; cases "w - 1") auto
    have "n div 10 < 10 ^ (w - 1)"
      using 1(2) w by (cases w) (auto simp: less_mult_imp_div_less mult.commute)
    then have "length (nat_digits (n div 10)) \<le> w - 1"
      using 1(1) False w by simp
    then show ?thesis using False w by (subst nat_digits.simps) simp
  qed
qed

lemma length_pad_digits_exact: "n < 10 ^ w \<Longrightarrow> 0 < w \<Longrightarrow> length (pad_digits w n) = w"
  using length_nat_digits_bound [of n w] by (simp add: pad_digits_def Let_def)

lemma st_return_apply [simp]: "st_return a s = Inr (a, s)"
  by (simp add: st_return_def)

lemma st_throw_apply [simp]: "st_throw e s = Inl e"
  by (simp add: st_throw_def)

lemma st_bind_apply [simp]:
  "st_bind m f s = (case m s of Inl e \<Rightarrow> Inl e | Inr (a, s') \<Rightarrow> f a s')"
  by (simp add: st_bind_def)

lemma st_bind_return_left: "st_bind (st_return a) f = f a"
  by (simp add: fun_eq_iff)

lemma st_bind_return_right: "st_bind m st_return = m"
  by (simp add: fun_eq_iff split: sum.splits)

lemma st_bind_assoc: "st_bind (st_bind m f) g = st_bind m (\<lambda>a. st_bind (f a) g)"
  by (simp add: fun_eq_iff split: sum.splits)

lemma st_bind_Inr:
  "st_bind m f s = Inr r \<longleftrightarrow> (\<exists>a s'. m s = Inr (a, s') \<and> f a s' = Inr r)"
  by (auto split: sum.splits)

lemma st_bind_Inl:
  "st_bind m f s = Inl e \<longleftrightarrow>
     m s = Inl e \<or> (\<exists>a s'. m s = Inr (a, s') \<and> f a s' = Inl e)"
  by (auto split: sum.splits)

lemma st_of_apply [simp]: "st_of (Inl e) s = Inl e" "st_of (Inr a) s = Inr (a, s)"
  by (simp_all add: st_of_def)

lemma st_of_Inr_state: "st_of x s = Inr (v, s') \<Longrightarrow> s' = s"
  by (cases x) simp_all

lemma st_map_apply [simp]:
  "st_map g m s = (case m s of Inl e \<Rightarrow> Inl e | Inr (a, s') \<Rightarrow> Inr (g a, s'))"
  by (auto simp: st_map_def split: sum.splits)

lemma ok_bind_Inl [simp]: "ok_bind (Inl e) f = Inl e"
  by (simp add: ok_bind_def)

lemma ok_bind_Inr [simp]: "ok_bind (Inr a) f = f a"
  by (simp add: ok_bind_def)

lemma ok_bind_eq_Inr: "ok_bind x f = Inr b \<longleftrightarrow> (\<exists>a. x = Inr a \<and> f a = Inr b)"
  by (cases x) auto

lemma ok_map_eq_Inr: "ok_map f xs = Inr ys \<longleftrightarrow> list_all2 (\<lambda>x y. f x = Inr y) xs ys"
proof (induction xs arbitrary: ys)
  case Nil
  then show ?case by auto
next
  case (Cons x xs)
  then show ?case
    by (cases ys) (auto simp: ok_bind_eq_Inr)
qed

lemma ok_map_map_Inr: "(\<And>x. x \<in> set xs \<Longrightarrow> f x = Inr (g x)) \<Longrightarrow> ok_map f xs = Inr (map g xs)"
  by (induction xs) auto

lemma first_index_Some:
  "first_index P xs = Some i \<Longrightarrow> i < length xs \<and> P (xs ! i) \<and> (\<forall>j < i. \<not> P (xs ! j))"
proof (induction xs arbitrary: i)
  case Nil
  then show ?case by simp
next
  case (Cons x xs)
  then show ?case
    by (auto split: if_splits simp: nth_Cons' less_Suc_eq_0_disj)
qed

lemma first_index_None: "first_index P xs = None \<longleftrightarrow> (\<forall>x \<in> set xs. \<not> P x)"
  by (induction xs) auto

lemma filter_empty_iff_not_ex: "filter P xs = [] \<longleftrightarrow> (\<forall>x \<in> set xs. \<not> P x)"
  by (induction xs) auto

lemma map_option_eq_Some_iff: "map_option f x = Some y \<longleftrightarrow> (\<exists>z. x = Some z \<and> f z = y)"
  by (cases x) auto

lemma those_map_Some: "those (map Some xs) = Some xs"
  by (induction xs) auto

text \<open>Search in lists, for the keyed views of tables.\<close>

lemma find_Some_in: "find P xs = Some x \<Longrightarrow> P x \<and> x \<in> set xs"
  by (induction xs) (auto split: if_splits)

lemma filter_distinct_key:
  "distinct (map f xs) \<Longrightarrow> filter (\<lambda>x. f x = k) xs = (case find (\<lambda>x. f x = k) xs of None \<Rightarrow> [] | Some x \<Rightarrow> [x])"
  by (induction xs) (auto simp: filter_empty_iff_not_ex split: option.splits dest!: find_Some_in)

lemma find_filter_conj: "find P (filter Q xs) = find (\<lambda>x. Q x \<and> P x) xs"
  by (induction xs) auto

lemma find_append_one:
  "find P (xs @ [y]) = (case find P xs of None \<Rightarrow> (if P y then Some y else None) | Some x \<Rightarrow> Some x)"
  by (induction xs) auto

lemma find_map_keep: "(\<And>x. P (f x) = P x) \<Longrightarrow> find P (map f xs) = map_option f (find P xs)"
  by (induction xs) auto

end
