(* ===== verification/Timestamp.thy ===== *)
theory Timestamp
  imports Prelude
begin

text \<open>
  The \<open>time\<close> column of \<open>kindle_annotations\<close> is a PostgreSQL
  \<open>timestamp\<close>.  The store writes it from the import record's text
  (\<open>'2020-02-15 01:19:41'\<close>, parsed by the server's timestamp input) and reads
  it back through \<open>TO_CHAR(time, 'yyyy-mm-dd-hh-mi-ss')\<close>
  (\<open>querySelectCols\<close>, \<open>src/models/annotations.js\<close> lines 9--12).
  This theory models both directions: \<open>pg_timestamp_in\<close> for the ISO layout
  \<open>YYYY-MM-DD HH:MM:SS\<close> (or \<open>T\<close> as separator, or a date alone), and
  \<open>to_char\<close> for the template patterns \<open>YYYY MM DD HH HH12 HH24 MI SS\<close>,
  matched case-insensitively, longest first, as PostgreSQL's formatting code does.
\<close>

record timestamp =
  ts_year :: nat
  ts_month :: nat
  ts_day :: nat
  ts_hour :: nat
  ts_minute :: nat
  ts_second :: nat

section \<open>Timestamp input\<close>

definition is_space :: "char \<Rightarrow> bool" where
  "is_space c \<longleftrightarrow> (of_char c :: nat) \<in> {9, 10, 11, 12, 13, 32}"

definition strip_spaces :: "string \<Rightarrow> string" where
  "strip_spaces s = rev (dropWhile is_space (rev (dropWhile is_space s)))"

definition leap_year :: "nat \<Rightarrow> bool" where
  "leap_year y \<longleftrightarrow> 4 dvd y \<and> (\<not> 100 dvd y \<or> 400 dvd y)"

definition days_in_month :: "nat \<Rightarrow> nat \<Rightarrow> nat" where
  "days_in_month y m =
     (if m = 2 then (if leap_year y then 29 else 28)
      else if m \<in> {4, 6, 9, 11} then 30 else 31)"

definition valid_timestamp :: "timestamp \<Rightarrow> bool" where
  "valid_timestamp t \<longleftrightarrow>
     1 \<le> ts_year t \<and> 1 \<le> ts_month t \<and> ts_month t \<le> 12 \<and>
     1 \<le> ts_day t \<and> ts_day t \<le> days_in_month (ts_year t) (ts_month t) \<and>
     ts_hour t \<le> 23 \<and> ts_minute t \<le> 59 \<and> ts_second t \<le> 59"

text \<open>\<open>field t i n\<close>: the \<open>n\<close> characters of \<open>t\<close> from position \<open>i\<close>.\<close>

definition field :: "string \<Rightarrow> nat \<Rightarrow> nat \<Rightarrow> string" where
  "field t i n = take n (drop i t)"

definition digits_at :: "string \<Rightarrow> nat \<Rightarrow> nat \<Rightarrow> bool" where
  "digits_at t i n \<longleftrightarrow> (\<forall>c \<in> set (field t i n). is_digit c)"

definition iso_date_layout :: "string \<Rightarrow> bool" where
  "iso_date_layout t \<longleftrightarrow>
     10 \<le> length t \<and> digits_at t 0 4 \<and> t ! 4 = CHR ''-'' \<and> digits_at t 5 2 \<and>
     t ! 7 = CHR ''-'' \<and> digits_at t 8 2"

definition iso_time_layout :: "string \<Rightarrow> bool" where
  "iso_time_layout t \<longleftrightarrow>
     length t = 19 \<and> iso_date_layout t \<and> (t ! 10 = CHR '' '' \<or> t ! 10 = CHR ''T'') \<and>
     digits_at t 11 2 \<and> t ! 13 = CHR '':'' \<and> digits_at t 14 2 \<and> t ! 16 = CHR '':'' \<and>
     digits_at t 17 2"

definition pg_timestamp_in :: "string \<Rightarrow> failure + timestamp" where
  "pg_timestamp_in s =
     (let t = strip_spaces s in
      if (length t = 10 \<and> iso_date_layout t) \<or> iso_time_layout t then
        (let ts = \<lparr>ts_year = dec_val (field t 0 4), ts_month = dec_val (field t 5 2),
                   ts_day = dec_val (field t 8 2),
                   ts_hour = (if length t = 10 then 0 else dec_val (field t 11 2)),
                   ts_minute = (if length t = 10 then 0 else dec_val (field t 14 2)),
                   ts_second = (if length t = 10 then 0 else dec_val (field t 17 2))\<rparr>
         in if valid_timestamp ts then Inr ts else Inl (DatetimeFieldOverflow s))
      else Inl (InvalidDatetimeFormat s))"

section \<open>TO\_CHAR\<close>

definition lower_ascii :: "char \<Rightarrow> char" where
  "lower_ascii c = (if 65 \<le> (of_char c :: nat) \<and> (of_char c :: nat) \<le> 90 then char_of ((of_char c :: nat) + 32) else c)"

definition has_pattern :: "string \<Rightarrow> string \<Rightarrow> bool" where
  "has_pattern fmt p \<longleftrightarrow> length p \<le> length fmt \<and> map lower_ascii (take (length p) fmt) = p"

text \<open>\<open>HH\<close> and \<open>HH12\<close> are the hour of the 12-hour clock, \<open>01\<close> to \<open>12\<close>.\<close>

definition hour12 :: "nat \<Rightarrow> nat" where
  "hour12 h = (if h mod 12 = 0 then 12 else h mod 12)"

function to_char :: "timestamp \<Rightarrow> string \<Rightarrow> string" where
  "to_char t fmt =
     (if fmt = [] then []
      else if has_pattern fmt ''hh24'' then pad_digits 2 (ts_hour t) @ to_char t (drop 4 fmt)
      else if has_pattern fmt ''hh12'' then pad_digits 2 (hour12 (ts_hour t)) @ to_char t (drop 4 fmt)
      else if has_pattern fmt ''hh'' then pad_digits 2 (hour12 (ts_hour t)) @ to_char t (drop 2 fmt)
      else if has_pattern fmt ''mi'' then pad_digits 2 (ts_minute t) @ to_char t (drop 2 fmt)
      else if has_pattern fmt ''mm'' then pad_digits 2 (ts_month t) @ to_char t (drop 2 fmt)
      else if has_pattern fmt ''ss'' then pad_digits 2 (ts_second t) @ to_char t (drop 2 fmt)
      else if has_pattern fmt ''dd'' then pad_digits 2 (ts_day t) @ to_char t (drop 2 fmt)
      else if has_pattern fmt ''yyyy'' then pad_digits 4 (ts_year t) @ to_char t (drop 4 fmt)
      else hd fmt # to_char t (tl fmt))"
  by pat_completeness auto
termination
  by (relation "measure (\<lambda>(t, fmt). length fmt)") auto

declare to_char.simps [simp del]

text \<open>The template of \<open>querySelectCols\<close>.\<close>

definition store_time_format :: string where
  "store_time_format = ''yyyy-mm-dd-hh-mi-ss''"

section \<open>The time column as the store prints it\<close>

lemma to_char_store_format:
  "to_char t store_time_format =
     pad_digits 4 (ts_year t) @ ''-'' @ pad_digits 2 (ts_month t) @ ''-'' @ pad_digits 2 (ts_day t) @ ''-'' @
     pad_digits 2 (hour12 (ts_hour t)) @ ''-'' @ pad_digits 2 (ts_minute t) @ ''-'' @ pad_digits 2 (ts_second t)"
  unfolding store_time_format_def
  by (simp add: to_char.simps has_pattern_def lower_ascii_def)

lemma days_in_month_le: "days_in_month y m \<le> 31"
  by (simp add: days_in_month_def)

lemma hour12_bounds: "1 \<le> hour12 h \<and> hour12 h \<le> 12"
  by (simp add: hour12_def)

section \<open>Claims\<close>

text \<open>Claim C17.  For a valid timestamp before the year 10000, the text the
  store returns for the \<open>time\<close> column has 19 characters, and its hour field
  (characters 11--12) reads as the hour on the 12-hour clock, between 1 and 12.\<close>

theorem store_time_hour_field:
  assumes "valid_timestamp t" "ts_year t < 10000"
  shows "length (to_char t store_time_format) = 19 \<and>
         dec_val (field (to_char t store_time_format) 11 2) = hour12 (ts_hour t) \<and>
         1 \<le> dec_val (field (to_char t store_time_format) 11 2) \<and> dec_val (field (to_char t store_time_format) 11 2) \<le> 12"
proof -
  have v: "ts_month t < 100" "ts_day t < 100" "ts_minute t < 100" "ts_second t < 100"
    using assms(1) days_in_month_le [of "ts_year t" "ts_month t"] by (auto simp: valid_timestamp_def)
  have "hour12 (ts_hour t) < 100" using hour12_bounds [of "ts_hour t"] by simp
  then have l: "length (pad_digits 4 (ts_year t)) = 4" "length (pad_digits 2 (ts_month t)) = 2"
    "length (pad_digits 2 (ts_day t)) = 2" "length (pad_digits 2 (hour12 (ts_hour t))) = 2"
    "length (pad_digits 2 (ts_minute t)) = 2" "length (pad_digits 2 (ts_second t)) = 2"
    using assms(2) v by (simp_all add: length_pad_digits_exact)
  then show ?thesis
    using hour12_bounds [of "ts_hour t"]
    by (simp add: to_char_store_format field_def)
qed

theorem store_time_hour_field_witness:
  "valid_timestamp \<lparr>ts_year = 2020, ts_month = 2, ts_day = 15, ts_hour = 13, ts_minute = 19, ts_second = 41\<rparr> \<and>
   dec_val (field (to_char \<lparr>ts_year = 2020, ts_month = 2, ts_day = 15, ts_hour = 13, ts_minute = 19, ts_second = 41\<rparr>
                      store_time_format) 11 2) = 1"
proof -
  have v: "valid_timestamp \<lparr>ts_year = 2020, ts_month = 2, ts_day = 15, ts_hour = 13, ts_minute = 19, ts_second = 41\<rparr>"
    by (simp add: valid_timestamp_def days_in_month_def leap_year_def)
  show ?thesis
    using store_time_hour_field [OF v] v by (simp add: hour12_def)
qed

text \<open>Claim C18.  The template of \<open>querySelectCols\<close> prints a morning hour
  and the same hour twelve hours later alike (\<open>hh\<close> is the 12-hour clock with
  no AM/PM marker), so the stored time cannot be read back from the returned
  text.\<close>

theorem store_time_12h_ambiguous:
  "ts_hour t < 12 \<Longrightarrow> to_char (t\<lparr>ts_hour := ts_hour t + 12\<rparr>) store_time_format = to_char t store_time_format"
  by (simp add: to_char_store_format hour12_def)


theorem store_time_12h_ambiguous_witness:
  "pg_timestamp_in ''2020-02-15 13:19:41'' =
     Inr \<lparr>ts_year = 2020, ts_month = 2, ts_day = 15, ts_hour = 13, ts_minute = 19, ts_second = 41\<rparr> \<and>
   pg_timestamp_in ''2020-02-15 01:19:41'' =
     Inr \<lparr>ts_year = 2020, ts_month = 2, ts_day = 15, ts_hour = 1, ts_minute = 19, ts_second = 41\<rparr> \<and>
   to_char \<lparr>ts_year = 2020, ts_month = 2, ts_day = 15, ts_hour = 13, ts_minute = 19, ts_second = 41\<rparr> store_time_format =
   to_char \<lparr>ts_year = 2020, ts_month = 2, ts_day = 15, ts_hour = 1, ts_minute = 19, ts_second = 41\<rparr> store_time_format"
proof -
  have "pg_timestamp_in ''2020-02-15 13:19:41'' =
          Inr \<lparr>ts_year = 2020, ts_month = 2, ts_day = 15, ts_hour = 13, ts_minute = 19, ts_second = 41\<rparr>"
       "pg_timestamp_in ''2020-02-15 01:19:41'' =
          Inr \<lparr>ts_year = 2020, ts_month = 2, ts_day = 15, ts_hour = 1, ts_minute = 19, ts_second = 41\<rparr>"
    by (simp_all add: pg_timestamp_in_def strip_spaces_def is_space_def iso_time_layout_def iso_date_layout_def
        digits_at_def field_def is_digit_def dec_val_def digit_val_def valid_timestamp_def days_in_month_def
        leap_year_def)
  moreover have "to_char \<lparr>ts_year = 2020, ts_month = 2, ts_day = 15, ts_hour = 1 + 12, ts_minute = 19, ts_second = 41\<rparr>
                   store_time_format =
                 to_char \<lparr>ts_year = 2020, ts_month = 2, ts_day = 15, ts_hour = 1, ts_minute = 19, ts_second = 41\<rparr>
                   store_time_format"
    using store_time_12h_ambiguous [of "\<lparr>ts_year = 2020, ts_month = 2, ts_day = 15, ts_hour = 1, ts_minute = 19, ts_second = 41\<rparr>"]
    by simp
  ultimately show ?thesis by simp
qed

end
