(* ===== verification/Values.thy ===== *)
theory Values
  imports Timestamp "HOL-Library.AList"
begin

text \<open>
  Values as the JavaScript side of the program sees them, and their conversion
  at the two boundaries: node-postgres turns a query parameter into the text it
  sends (\<open>prepareValue\<close>), the server reads that text as the column's type
  (\<open>pg_int_in\<close> here, \<open>pg_timestamp_in\<close> in \<open>Timestamp\<close>), and Express
  turns a response value into JSON text (\<open>json_stringify\<close>).  JavaScript
  numbers are modelled as integers: the program only handles ids, offsets and
  page numbers.  JavaScript objects are association lists in property order;
  \<open>js_get\<close> is property access and \<open>js_set\<close> an assignment (or a property
  of an object spread), which keeps the position of an existing key.
\<close>

datatype js_val =
    JUndefined
  | JNull
  | JBool bool
  | JNum int
  | JStr string
  | JDate timestamp
  | JArr "js_val list"
  | JObj "(string \<times> js_val) list"

type_synonym js_obj = "(string \<times> js_val) list"

definition js_get :: "js_obj \<Rightarrow> string \<Rightarrow> js_val" where
  "js_get obj k = (case map_of obj k of None \<Rightarrow> JUndefined | Some v \<Rightarrow> v)"

definition js_set :: "js_obj \<Rightarrow> string \<Rightarrow> js_val \<Rightarrow> js_obj" where
  "js_set obj k v = AList.update k v obj"

text \<open>Truthiness, as in \<open>if (!rows[0])\<close> and \<open>if (highlight)\<close>.\<close>

fun js_truthy :: "js_val \<Rightarrow> bool" where
  "js_truthy JUndefined = False"
| "js_truthy JNull = False"
| "js_truthy (JBool b) = b"
| "js_truthy (JNum n) = (n \<noteq> 0)"
| "js_truthy (JStr s) = (s \<noteq> [])"
| "js_truthy (JDate t) = True"
| "js_truthy (JArr vs) = True"
| "js_truthy (JObj kvs) = True"

text \<open>\<open>rows[0]\<close> of a result array: \<open>undefined\<close> past the end.\<close>

definition js_first :: "js_val list \<Rightarrow> js_val" where
  "js_first vs = (case vs of [] \<Rightarrow> JUndefined | v # _ \<Rightarrow> v)"

text \<open>Property access on a value: \<open>rows[0].id\<close> throws on \<open>undefined\<close> and \<open>null\<close>.\<close>

definition js_prop :: "js_val \<Rightarrow> string \<Rightarrow> failure + js_val" where
  "js_prop v k =
     (case v of JUndefined \<Rightarrow> Inl (TypeError k) | JNull \<Rightarrow> Inl (TypeError k)
      | JObj obj \<Rightarrow> Inr (js_get obj k) | _ \<Rightarrow> Inr JUndefined)"

section \<open>Number to text\<close>

definition int_to_dec :: "int \<Rightarrow> string" where
  "int_to_dec n = (if n < 0 then CHR ''-'' # nat_digits (nat (- n)) else nat_digits (nat n))"

text \<open>\<open>Number.prototype.toString\<close> on an integer: decimal below \<open>10^21\<close>,
  exponential notation from there on (ECMAScript Number::toString, step 7),
  \<open>d.ddde+k\<close> with the significant digits and the exponent \<open>k\<close>.  The
  significant digits are the decimal digits without trailing zeros, which is
  the shortest round-trip form when the number has at most 17 of them.\<close>

definition js_exp_string :: "nat \<Rightarrow> string" where
  "js_exp_string m =
     (let ds = nat_digits m; s = rev (dropWhile (\<lambda>c. c = CHR ''0'') (rev ds)) in
      (case s of [] \<Rightarrow> ''0'' | c # r \<Rightarrow> c # (if r = [] then [] else CHR ''.'' # r))
      @ ''e+'' @ nat_digits (length ds - 1))"

definition js_number_string :: "int \<Rightarrow> string" where
  "js_number_string n =
     (if \<bar>n\<bar> < 10 ^ 21 then int_to_dec n
      else if n < 0 then CHR ''-'' # js_exp_string (nat (- n)) else js_exp_string (nat n))"

section \<open>JSON.stringify\<close>

definition hex_char :: "nat \<Rightarrow> char" where
  "hex_char d = ''0123456789abcdef'' ! d"

definition json_escape_char :: "char \<Rightarrow> string" where
  "json_escape_char c =
     (let n = (of_char c :: nat) in
      if n = 34 then [CHR 0x5C, CHR 0x22]
      else if n = 92 then [CHR 0x5C, CHR 0x5C]
      else if n = 8 then [CHR 0x5C, CHR ''b'']
      else if n = 12 then [CHR 0x5C, CHR ''f'']
      else if n = 10 then [CHR 0x5C, CHR ''n'']
      else if n = 13 then [CHR 0x5C, CHR ''r'']
      else if n = 9 then [CHR 0x5C, CHR ''t'']
      else if n < 32 then [CHR 0x5C, CHR ''u'', CHR ''0'', CHR ''0'', hex_char (n div 16), hex_char (n mod 16)]
      else [c])"

definition json_quote :: "string \<Rightarrow> string" where
  "json_quote s = CHR 0x22 # concat (map json_escape_char s) @ [CHR 0x22]"

text \<open>\<open>Date.prototype.toISOString\<close>, with the server's zone taken as UTC.\<close>

definition iso_date_string :: "timestamp \<Rightarrow> string" where
  "iso_date_string t =
     pad_digits 4 (ts_year t) @ ''-'' @ pad_digits 2 (ts_month t) @ ''-'' @ pad_digits 2 (ts_day t) @
     ''T'' @ pad_digits 2 (ts_hour t) @ '':'' @ pad_digits 2 (ts_minute t) @ '':'' @
     pad_digits 2 (ts_second t) @ ''.000Z''"

text \<open>\<open>None\<close> is \<open>JSON.stringify\<close>'s \<open>undefined\<close>: an \<open>undefined\<close> property is
  left out of an object and printed \<open>null\<close> in an array.\<close>

fun json_stringify :: "js_val \<Rightarrow> string option" where
  "json_stringify JUndefined = None"
| "json_stringify JNull = Some ''null''"
| "json_stringify (JBool b) = Some (if b then ''true'' else ''false'')"
| "json_stringify (JNum n) = Some (js_number_string n)"
| "json_stringify (JStr s) = Some (json_quote s)"
| "json_stringify (JDate t) = Some (json_quote (iso_date_string t))"
| "json_stringify (JArr vs) =
     Some (''['' @ js_join '','' (map (\<lambda>v. case json_stringify v of None \<Rightarrow> ''null'' | Some s \<Rightarrow> s) vs) @ '']'')"
| "json_stringify (JObj kvs) =
     Some (''{'' @ js_join '',''
        (concat (map (\<lambda>kv. case json_stringify (snd kv) of None \<Rightarrow> [] | Some s \<Rightarrow> [json_quote (fst kv) @ '':'' @ s]) kvs))
      @ ''}'')"

section \<open>Query parameters: node-postgres prepareValue\<close>

text \<open>
  \<open>prepareValue\<close> (node-postgres \<open>utils.js\<close>): \<open>null\<close> and \<open>undefined\<close>
  are sent as SQL NULL (\<open>None\<close>), a Date in the local zone with its offset,
  an array as an array literal, any other object as its JSON text, anything else
  by \<open>toString\<close>.
\<close>

definition escape_element :: "string \<Rightarrow> string" where
  "escape_element s =
     CHR 0x22 # concat (map (\<lambda>c. if c = CHR 0x5C then [CHR 0x5C, CHR 0x5C]
                                  else if c = CHR 0x22 then [CHR 0x5C, CHR 0x22] else [c]) s)
     @ [CHR 0x22]"

definition date_to_string :: "timestamp \<Rightarrow> string" where
  "date_to_string t =
     pad_digits 4 (ts_year t) @ ''-'' @ pad_digits 2 (ts_month t) @ ''-'' @ pad_digits 2 (ts_day t) @
     ''T'' @ pad_digits 2 (ts_hour t) @ '':'' @ pad_digits 2 (ts_minute t) @ '':'' @
     pad_digits 2 (ts_second t) @ ''.000+00:00''"

fun prepare_value :: "js_val \<Rightarrow> string option" where
  "prepare_value JUndefined = None"
| "prepare_value JNull = None"
| "prepare_value (JBool b) = Some (if b then ''true'' else ''false'')"
| "prepare_value (JNum n) = Some (js_number_string n)"
| "prepare_value (JStr s) = Some s"
| "prepare_value (JDate t) = Some (date_to_string t)"
| "prepare_value (JArr vs) =
     Some (''{'' @ js_join '',''
        (map (\<lambda>v. case prepare_value v of None \<Rightarrow> ''NULL''
                  | Some s \<Rightarrow> (case v of JArr _ \<Rightarrow> s | _ \<Rightarrow> escape_element s)) vs) @ ''}'')"
| "prepare_value (JObj kvs) = json_stringify (JObj kvs)"

section \<open>PostgreSQL integer input\<close>

text \<open>
  \<open>int4in\<close>/\<open>int8in\<close>: white space around an optional sign and at least one
  decimal digit; a value outside the type's range is an error of its own.
\<close>

definition split_sign :: "string \<Rightarrow> bool \<times> string" where
  "split_sign t =
     (case t of [] \<Rightarrow> (False, [])
      | c # r \<Rightarrow> if c = CHR ''-'' then (True, r) else if c = CHR ''+'' then (False, r) else (False, t))"

definition pg_int_in :: "string \<Rightarrow> int \<Rightarrow> int \<Rightarrow> string \<Rightarrow> failure + int" where
  "pg_int_in ty lo hi s =
     (let (neg, ds) = split_sign (strip_spaces s) in
      if ds \<noteq> [] \<and> (\<forall>c \<in> set ds. is_digit c) then
        (let v = (if neg then - int (dec_val ds) else int (dec_val ds)) in
         if lo \<le> v \<and> v \<le> hi then Inr v else Inl (NumericValueOutOfRange ty))
      else Inl (InvalidTextRepresentation ty s))"

abbreviation int4_min :: int where "int4_min \<equiv> - 2147483648"
abbreviation int4_max :: int where "int4_max \<equiv> 2147483647"
abbreviation int8_min :: int where "int8_min \<equiv> - 9223372036854775808"
abbreviation int8_max :: int where "int8_max \<equiv> 9223372036854775807"

section \<open>Integer text round trip\<close>

lemma is_digit_not_space: "is_digit c \<Longrightarrow> \<not> is_space c"
  by (auto simp: is_digit_def is_space_def)

lemma strip_spaces_id:
  assumes "xs \<noteq> []" "\<not> is_space (hd xs)" "\<not> is_space (last xs)"
  shows "strip_spaces xs = xs"
proof -
  have "dropWhile is_space xs = xs" using assms(1,2) by (cases xs) auto
  moreover have "dropWhile is_space (rev xs) = rev xs"
    using assms(1,3) by (cases "rev xs") (auto simp flip: last_rev)
  ultimately show ?thesis by (simp add: strip_spaces_def)
qed

lemma nat_digits_hd_last: "is_digit (hd (nat_digits n)) \<and> is_digit (last (nat_digits n))"
  using nat_digits_all_digits [of n] nat_digits_not_Nil [of n]
  by (simp add: hd_in_set last_in_set)

lemma strip_spaces_int_to_dec: "strip_spaces (int_to_dec n) = int_to_dec n"
proof (cases "n < 0")
  case True
  have "\<not> is_space (last (nat_digits (nat (- n))))"
    using nat_digits_hd_last [of "nat (- n)"] by (simp add: is_digit_not_space)
  with True show ?thesis
    by (intro strip_spaces_id) (simp_all add: int_to_dec_def is_space_def)
next
  case False
  then show ?thesis
    using nat_digits_hd_last [of "nat n"]
    by (intro strip_spaces_id) (simp_all add: int_to_dec_def is_digit_not_space)
qed

lemma nat_digits_no_sign: "split_sign (nat_digits m) = (False, nat_digits m)"
proof -
  obtain c r where cr: "nat_digits m = c # r"
    by (cases "nat_digits m") auto
  have "is_digit c" using nat_digits_hd_last [of m] cr by simp
  then have "c \<noteq> CHR ''-'' \<and> c \<noteq> CHR ''+''" by (auto simp: is_digit_def)
  with cr show ?thesis by (simp add: split_sign_def)
qed

lemma split_sign_minus: "split_sign (CHR ''-'' # r) = (True, r)"
  by (simp add: split_sign_def)

lemma split_sign_int_to_dec:
  "split_sign (int_to_dec n) = (n < 0, nat_digits (nat \<bar>n\<bar>))"
  by (simp add: int_to_dec_def nat_digits_no_sign split_sign_minus)

theorem pg_int_in_int_to_dec:
  "pg_int_in ty lo hi (int_to_dec n) =
     (if lo \<le> n \<and> n \<le> hi then Inr n else Inl (NumericValueOutOfRange ty))"
  using nat_digits_all_digits [of "nat \<bar>n\<bar>"]
  by (simp add: pg_int_in_def strip_spaces_int_to_dec split_sign_int_to_dec)

lemma js_number_string_small [simp]: "\<bar>n\<bar> < 10 ^ 21 \<Longrightarrow> js_number_string n = int_to_dec n"
  by (simp add: js_number_string_def)

lemma js_exp_string_cons:
  "\<exists>c r. js_exp_string m = c # r @ ''e+'' @ nat_digits (length (nat_digits m) - 1) \<and> is_digit c"
proof (cases "rev (dropWhile (\<lambda>c. c = CHR ''0'') (rev (nat_digits m)))")
  case Nil
  show ?thesis
    by (simp only: js_exp_string_def Let_def Nil list.case) (simp add: is_digit_def)
next
  case (Cons c r)
  then have "c \<in> set (nat_digits m)"
    by (metis list.set_intros(1) set_dropWhileD set_rev)
  then have "is_digit c" using nat_digits_all_digits by blast
  with Cons show ?thesis by (simp add: js_exp_string_def)
qed

text \<open>A number printed in exponential notation is not integer text.\<close>

lemma pg_int_in_exp:
  assumes "is_digit c" and "s = c # r @ ''e+'' @ nat_digits k \<or> s = CHR ''-'' # c # r @ ''e+'' @ nat_digits k"
  shows "pg_int_in ty lo hi s = Inl (InvalidTextRepresentation ty s)"
proof -
  have last: "\<not> is_space (last s)"
    using assms(2) nat_digits_hd_last [of k] by (auto simp: is_digit_not_space)
  have hd: "\<not> is_space (hd s)"
    using assms(2) is_digit_not_space [OF assms(1)] by (auto simp: is_space_def)
  have strip: "strip_spaces s = s"
    using strip_spaces_id [OF _ hd last] assms(2) by auto
  have ne: "\<not> is_digit (CHR ''e'')" by (simp add: is_digit_def)
  have "c \<noteq> CHR ''-'' \<and> c \<noteq> CHR ''+''" using assms(1) by (auto simp: is_digit_def)
  then have "CHR ''e'' \<in> set (snd (split_sign s))"
    using assms(2) by (auto simp: split_sign_def)
  with ne have nd: "\<not> (\<forall>x \<in> set (snd (split_sign s)). is_digit x)" by blast
  obtain neg ds where sp: "split_sign s = (neg, ds)" by (cases "split_sign s")
  with nd show ?thesis by (auto simp: pg_int_in_def strip)
qed

theorem pg_int_in_js_number_string:
  "pg_int_in ty lo hi (js_number_string n) =
     (if 10 ^ 21 \<le> \<bar>n\<bar> then Inl (InvalidTextRepresentation ty (js_number_string n))
      else if lo \<le> n \<and> n \<le> hi then Inr n else Inl (NumericValueOutOfRange ty))"
proof (cases "10 ^ 21 \<le> \<bar>n\<bar>")
  case True
  obtain c r where cr: "js_exp_string (nat \<bar>n\<bar>) = c # r @ ''e+'' @ nat_digits (length (nat_digits (nat \<bar>n\<bar>)) - 1)"
    "is_digit c"
    using js_exp_string_cons by blast
  have "js_number_string n = c # r @ ''e+'' @ nat_digits (length (nat_digits (nat \<bar>n\<bar>)) - 1) \<or>
        js_number_string n = CHR ''-'' # c # r @ ''e+'' @ nat_digits (length (nat_digits (nat \<bar>n\<bar>)) - 1)"
    using True cr(1) by (auto simp: js_number_string_def)
  with True cr(2) show ?thesis by (simp add: pg_int_in_exp)
next
  case False
  then show ?thesis by (simp add: pg_int_in_int_to_dec)
qed

section \<open>Objects\<close>

lemma js_get_set: "js_get (js_set obj k v) k' = (if k' = k then v else js_get obj k')"
  by (simp add: js_get_def js_set_def update_conv')

end
