(* ===== verification/SQL.thy ===== *)
theory SQL
  imports Values
begin

text \<open>
  The SQL the store sends.  Every statement of \<open>src/models/annotations.js\<close>
  is built with \<open>sql-template-strings\<close>: a template literal becomes statement
  text with a placeholder for each \<open>${...}\<close>, and \<open>.append\<close> concatenates
  two such texts (or raw text).  We model the text after the server's lexer has
  read it, as a list of tokens (\<open>tok\<close>), with a placeholder carrying the
  JavaScript value bound to it (\<open>TParam\<close>).  Unquoted identifiers are folded to
  lower case by the lexer; \<open>"end"\<close> is the quoted identifier \<open>end\<close>.
  \<open>parse_stmt\<close> is the grammar of the statements the program uses: SELECT with
  WHERE and LIMIT, UPDATE, INSERT with ON CONFLICT DO UPDATE, DELETE, each with
  RETURNING where the grammar allows it; a token list outside the grammar is a
  syntax error (\<open>None\<close>).  The parsed statement (\<open>stmt\<close>) is executed in
  \<open>Database\<close>.
\<close>

section \<open>SQL values and column types\<close>

datatype sql_val = SNull | SInt int | SText string | SBool bool | STs timestamp

datatype coltype = CInt4 | CInt8 | CText | CBool | CTimestamp

text \<open>\<open>boolin\<close>: a unique prefix of true, false, yes, no, or on, off, 1, 0.\<close>

definition pg_bool_in :: "string \<Rightarrow> failure + bool" where
  "pg_bool_in s =
     (let t = map lower_ascii (strip_spaces s) in
      if t \<in> {''t'', ''tr'', ''tru'', ''true'', ''y'', ''ye'', ''yes'', ''on'', ''1''} then Inr True
      else if t \<in> {''f'', ''fa'', ''fal'', ''fals'', ''false'', ''n'', ''no'', ''off'', ''0''} then Inr False
      else Inl (InvalidTextRepresentation ''boolean'' s))"

text \<open>The server's reading of a parameter's text as a value of the column type
  it infers for the placeholder.\<close>

fun coerce_text :: "coltype \<Rightarrow> string \<Rightarrow> failure + sql_val" where
  "coerce_text CInt4 s = ok_bind (pg_int_in ''integer'' int4_min int4_max s) (\<lambda>n. Inr (SInt n))"
| "coerce_text CInt8 s = ok_bind (pg_int_in ''bigint'' int8_min int8_max s) (\<lambda>n. Inr (SInt n))"
| "coerce_text CText s = Inr (SText s)"
| "coerce_text CBool s = ok_bind (pg_bool_in s) (\<lambda>b. Inr (SBool b))"
| "coerce_text CTimestamp s = ok_bind (pg_timestamp_in s) (\<lambda>t. Inr (STs t))"

definition coerce_param :: "coltype \<Rightarrow> js_val \<Rightarrow> failure + sql_val" where
  "coerce_param ty v = (case prepare_value v of None \<Rightarrow> Inr SNull | Some s \<Rightarrow> coerce_text ty s)"

text \<open>node-postgres's reading of a result column: \<open>bigint\<close> stays text.\<close>

fun js_of_sql :: "coltype \<Rightarrow> sql_val \<Rightarrow> js_val" where
  "js_of_sql ty SNull = JNull"
| "js_of_sql CInt8 (SInt n) = JStr (int_to_dec n)"
| "js_of_sql ty (SInt n) = JNum n"
| "js_of_sql ty (SText s) = JStr s"
| "js_of_sql ty (SBool b) = JBool b"
| "js_of_sql ty (STs t) = JDate t"

text \<open>SQL equality in a WHERE clause: a comparison with NULL is not true.\<close>

fun sql_eq :: "sql_val \<Rightarrow> sql_val \<Rightarrow> bool" where
  "sql_eq SNull v = False"
| "sql_eq v SNull = False"
| "sql_eq v w = (v = w)"

section \<open>Tokens\<close>

datatype kw =
    KSelect | KFrom | KWhere | KAnd | KLimit | KUpdate | KSet | KInsert | KInto | KValues
  | KOn | KConflict | KDo | KReturning | KDelete | KAs | KTrue | KFalse | KNull

text \<open>\<open>TRaw\<close> is text interpolated into the statement that the model does not lex.\<close>

datatype tok =
    TKw kw | TId string | TComma | TLParen | TRParen | TEq | TDot
  | TStr string | TNum int | TParam js_val | TRaw string

section \<open>Statements\<close>

datatype expr = EParam js_val | ENum int | EStr string | EBool bool | ENull | EExcluded string

datatype sel_item = SelCol string | SelToChar string string string

type_synonym assigns = "(string \<times> expr) list"

datatype stmt =
    Select "sel_item list" string assigns "expr option"
  | Update string assigns assigns "sel_item list"
  | Insert string "string list" "expr list" "(string list \<times> assigns) option" "sel_item list"
  | Delete string assigns "sel_item list"

text \<open>In \<open>Select\<close>, \<open>Update\<close> and \<open>Delete\<close> the WHERE clause is the list of
  its equalities, joined by AND; an empty RETURNING list is no RETURNING clause.\<close>

section \<open>Parser\<close>

fun parse_expr :: "tok list \<Rightarrow> (expr \<times> tok list) option" where
  "parse_expr (TParam v # r) = Some (EParam v, r)"
| "parse_expr (TNum n # r) = Some (ENum n, r)"
| "parse_expr (TStr s # r) = Some (EStr s, r)"
| "parse_expr (TKw KTrue # r) = Some (EBool True, r)"
| "parse_expr (TKw KFalse # r) = Some (EBool False, r)"
| "parse_expr (TKw KNull # r) = Some (ENull, r)"
| "parse_expr (TId x # TDot # TId c # r) = (if x = ''excluded'' then Some (EExcluded c, r) else None)"
| "parse_expr ts = None"

text \<open>
  A list of items separated by the token \<open>sep\<close>, each read by \<open>p\<close>.  The
  progress guard \<open>length r < length ts\<close> only stops an item parser that reads
  nothing, which none of the parsers below does.
\<close>

function sep_by :: "(tok list \<Rightarrow> ('a \<times> tok list) option) \<Rightarrow> tok \<Rightarrow> tok list \<Rightarrow> ('a list \<times> tok list) option" where
  "sep_by p sep ts =
     (case p ts of
        None \<Rightarrow> None
      | Some (x, r) \<Rightarrow>
          (case r of
             t # r' \<Rightarrow>
               if t = sep \<and> length r < length ts
               then map_option (\<lambda>(xs, rest). (x # xs, rest)) (sep_by p sep r')
               else Some ([x], r)
           | [] \<Rightarrow> Some ([x], [])))"
  by pat_completeness auto
termination
  by (relation "measure (\<lambda>(p, sep, ts). length ts)") auto

declare sep_by.simps [simp del]

definition eq_item :: "tok list \<Rightarrow> ((string \<times> expr) \<times> tok list) option" where
  "eq_item ts =
     (case ts of TId c # TEq # r \<Rightarrow> map_option (\<lambda>(e, rest). ((c, e), rest)) (parse_expr r) | _ \<Rightarrow> None)"

definition ident_item :: "tok list \<Rightarrow> (string \<times> tok list) option" where
  "ident_item ts = (case ts of TId c # r \<Rightarrow> Some (c, r) | _ \<Rightarrow> None)"

text \<open>A select item: a column, or \<open>to_char(col, 'fmt') AS alias\<close>.\<close>

definition sel_item_at :: "tok list \<Rightarrow> (sel_item \<times> tok list) option" where
  "sel_item_at ts =
     (case ts of
        TId c # r \<Rightarrow>
          (if c = ''to_char'' then
             (case r of
                TLParen # TId x # TComma # TStr fmt # TRParen # TKw KAs # TId a # r' \<Rightarrow>
                  Some (SelToChar x fmt a, r')
              | _ \<Rightarrow> Some (SelCol c, r))
           else Some (SelCol c, r))
      | _ \<Rightarrow> None)"

definition parse_eqs :: "tok \<Rightarrow> tok list \<Rightarrow> (assigns \<times> tok list) option" where
  "parse_eqs sep = sep_by eq_item sep"

definition parse_exprs :: "tok list \<Rightarrow> (expr list \<times> tok list) option" where
  "parse_exprs = sep_by parse_expr TComma"

definition parse_idents :: "tok list \<Rightarrow> (string list \<times> tok list) option" where
  "parse_idents = sep_by ident_item TComma"

definition parse_sel_items :: "tok list \<Rightarrow> (sel_item list \<times> tok list) option" where
  "parse_sel_items = sep_by sel_item_at TComma"

definition parse_where :: "tok list \<Rightarrow> (assigns \<times> tok list) option" where
  "parse_where ts = (case ts of TKw KWhere # r \<Rightarrow> parse_eqs (TKw KAnd) r | _ \<Rightarrow> Some ([], ts))"

definition parse_limit :: "tok list \<Rightarrow> (expr option \<times> tok list) option" where
  "parse_limit ts =
     (case ts of TKw KLimit # r \<Rightarrow> map_option (\<lambda>(e, rest). (Some e, rest)) (parse_expr r)
      | _ \<Rightarrow> Some (None, ts))"

definition parse_returning :: "tok list \<Rightarrow> (sel_item list \<times> tok list) option" where
  "parse_returning ts = (case ts of TKw KReturning # r \<Rightarrow> parse_sel_items r | _ \<Rightarrow> Some ([], ts))"

definition parse_conflict :: "tok list \<Rightarrow> ((string list \<times> assigns) option \<times> tok list) option" where
  "parse_conflict ts =
     (case ts of
        TKw KOn # TKw KConflict # TLParen # r \<Rightarrow>
          (case parse_idents r of
             Some (cs, TRParen # TKw KDo # TKw KUpdate # TKw KSet # r') \<Rightarrow>
               map_option (\<lambda>(as, rest). (Some (cs, as), rest)) (parse_eqs TComma r')
           | _ \<Rightarrow> None)
      | _ \<Rightarrow> Some (None, ts))"

text \<open>A statement is the whole token list: tokens left over are a syntax error.\<close>

definition parse_tail :: "tok list \<Rightarrow> (assigns \<times> sel_item list) option" where
  "parse_tail ts =
     (case parse_where ts of
        None \<Rightarrow> None
      | Some (cs, r) \<Rightarrow> (case parse_returning r of Some (ret, []) \<Rightarrow> Some (cs, ret) | _ \<Rightarrow> None))"

definition parse_select :: "tok list \<Rightarrow> stmt option" where
  "parse_select r =
     (case parse_sel_items r of
        Some (items, TKw KFrom # TId t # r') \<Rightarrow>
          (case parse_where r' of
             Some (cs, r'') \<Rightarrow>
               (case parse_limit r'' of Some (lim, []) \<Rightarrow> Some (Select items t cs lim) | _ \<Rightarrow> None)
           | None \<Rightarrow> None)
      | _ \<Rightarrow> None)"

definition parse_update :: "tok list \<Rightarrow> stmt option" where
  "parse_update r =
     (case r of
        TId t # TKw KSet # r' \<Rightarrow>
          (case parse_eqs TComma r' of
             Some (as, r'') \<Rightarrow> map_option (\<lambda>(cs, ret). Update t as cs ret) (parse_tail r'')
           | None \<Rightarrow> None)
      | _ \<Rightarrow> None)"

definition parse_values :: "string \<Rightarrow> string list \<Rightarrow> tok list \<Rightarrow> stmt option" where
  "parse_values t cols r =
     (case parse_exprs r of
        Some (vals, TRParen # r') \<Rightarrow>
          (case parse_conflict r' of
             Some (oc, r'') \<Rightarrow>
               (case parse_returning r'' of Some (ret, []) \<Rightarrow> Some (Insert t cols vals oc ret) | _ \<Rightarrow> None)
           | None \<Rightarrow> None)
      | _ \<Rightarrow> None)"

definition parse_insert :: "tok list \<Rightarrow> stmt option" where
  "parse_insert r =
     (case r of
        TKw KInto # TId t # TLParen # r' \<Rightarrow>
          (case parse_idents r' of
             Some (cols, TRParen # TKw KValues # TLParen # r'') \<Rightarrow> parse_values t cols r''
           | _ \<Rightarrow> None)
      | _ \<Rightarrow> None)"

definition parse_delete :: "tok list \<Rightarrow> stmt option" where
  "parse_delete r =
     (case r of TKw KFrom # TId t # r' \<Rightarrow> map_option (\<lambda>(cs, ret). Delete t cs ret) (parse_tail r')
      | _ \<Rightarrow> None)"

definition parse_stmt :: "tok list \<Rightarrow> stmt option" where
  "parse_stmt ts =
     (case ts of
        TKw KSelect # r \<Rightarrow> parse_select r
      | TKw KUpdate # r \<Rightarrow> parse_update r
      | TKw KInsert # r \<Rightarrow> parse_insert r
      | TKw KDelete # r \<Rightarrow> parse_delete r
      | _ \<Rightarrow> None)"

text \<open>The token list \<open>r\<close> does not start with the separator \<open>sep\<close>.\<close>

definition not_sep :: "tok \<Rightarrow> tok list \<Rightarrow> bool" where
  "not_sep sep r \<longleftrightarrow> (case r of t # _ \<Rightarrow> t \<noteq> sep | [] \<Rightarrow> True)"

section \<open>Evaluation rules\<close>

text \<open>\<open>sep_by\<close> unfolded one item at a time, for token lists of known shape.\<close>

lemma sep_by_last:
  assumes "p ts = Some (x, r)" "not_sep sep r"
  shows "sep_by p sep ts = Some ([x], r)"
  using assms by (subst sep_by.simps) (auto simp: not_sep_def split: list.splits)

lemma sep_by_more:
  assumes "p ts = Some (x, sep # r)" "Suc (length r) < length ts"
  shows "sep_by p sep ts = map_option (\<lambda>(xs, rest). (x # xs, rest)) (sep_by p sep r)"
  using assms by (subst sep_by.simps) auto

lemma not_sep_simps [simp]:
  "not_sep sep [] = True" "not_sep sep (t # r) \<longleftrightarrow> t \<noteq> sep"
  by (simp_all add: not_sep_def)

lemma sql_eq_SInt [simp]: "sql_eq v (SInt i) \<longleftrightarrow> v = SInt i"
  by (cases v) auto

lemma sql_eq_SText [simp]: "sql_eq v (SText s) \<longleftrightarrow> v = SText s"
  by (cases v) auto

lemma sql_eq_SNull_right [simp]: "\<not> sql_eq v SNull"
  by (cases v) auto

lemma coerce_param_JNum_int4:
  "int4_min \<le> i \<Longrightarrow> i \<le> int4_max \<Longrightarrow> coerce_param CInt4 (JNum i) = Inr (SInt i)"
  by (simp add: coerce_param_def pg_int_in_int_to_dec pg_int_in_js_number_string)

lemma coerce_int4_text: "coerce_param CInt4 (JStr s) = ok_bind (pg_int_in ''integer'' int4_min int4_max s) (\<lambda>n. Inr (SInt n))"
  by (simp add: coerce_param_def)


lemma coerce_param_JStr_text [simp]: "coerce_param CText (JStr s) = Inr (SText s)"
  by (simp add: coerce_param_def)

lemma coerce_param_null [simp]:
  "coerce_param ty JNull = Inr SNull" "coerce_param ty JUndefined = Inr SNull"
  by (simp_all add: coerce_param_def)

lemma sep_by_none: "p ts = None \<Longrightarrow> sep_by p sep ts = None"
  by (subst sep_by.simps) simp

end
