(* ===== verification/Database.thy ===== *)
theory Database
  imports SQL
begin

text \<open>
  The database server as the store sees it: a catalog of tables, each a list of
  rows in storage order, and \<open>db_query\<close>, which is \<open>db.query\<close> of
  \<open>src/models/db\<close> (the node-postgres pool): the statement text is parsed
  (\<open>parse_stmt\<close>), checked against the table's columns, and executed.  A query
  that fails leaves the database as it was (each statement is its own
  transaction).  The result is the rows the statement returns, each a JavaScript
  object with one property per select or RETURNING item, in their order.
  Rows are functions from column names to values; columns a table does not have
  are never read, since every statement is checked against the table's columns
  first.  A serial column takes the table's sequence value when an INSERT does
  not give it.  Unique constraints treat NULLs as distinct, as PostgreSQL does.
  The schema of the repository's tables (\<open>bookmarker.sql\<close>, which is not among
  the sources) is taken from the data model of the specification.
\<close>

section \<open>Tables and the catalog\<close>

type_synonym row = "string \<Rightarrow> sql_val"

datatype col_default = DNull | DSerial | DValue sql_val

record table =
  tbl_cols :: "(string \<times> coltype \<times> col_default) list"
  tbl_unique :: "string list list"
  tbl_seq :: nat
  tbl_rows :: "row list"

record db =
  catalog :: "string \<rightharpoonup> table"

definition col_type :: "table \<Rightarrow> string \<Rightarrow> failure + coltype" where
  "col_type t c = (case map_of (tbl_cols t) c of None \<Rightarrow> Inl (UndefinedColumn c) | Some (ty, _) \<Rightarrow> Inr ty)"

text \<open>The type of a column already checked to exist.\<close>

definition type_of_col :: "table \<Rightarrow> string \<Rightarrow> coltype" where
  "type_of_col t c = (case map_of (tbl_cols t) c of None \<Rightarrow> CText | Some (ty, _) \<Rightarrow> ty)"

section \<open>Expressions, conditions, assignments\<close>

definition int_literal :: "coltype \<Rightarrow> int \<Rightarrow> failure + sql_val" where
  "int_literal ty n =
     (case ty of
        CInt4 \<Rightarrow> if int4_min \<le> n \<and> n \<le> int4_max then Inr (SInt n) else Inl (NumericValueOutOfRange ''integer'')
      | CInt8 \<Rightarrow> if int8_min \<le> n \<and> n \<le> int8_max then Inr (SInt n) else Inl (NumericValueOutOfRange ''bigint'')
      | _ \<Rightarrow> Inl (DatatypeMismatch (int_to_dec n)))"

fun eval_expr :: "coltype \<Rightarrow> expr \<Rightarrow> failure + sql_val" where
  "eval_expr ty (EParam v) = coerce_param ty v"
| "eval_expr ty (ENum n) = int_literal ty n"
| "eval_expr ty (EStr s) = coerce_text ty s"
| "eval_expr ty (EBool b) = (if ty = CBool then Inr (SBool b) else Inl (DatatypeMismatch ''boolean''))"
| "eval_expr ty ENull = Inr SNull"
| "eval_expr ty (EExcluded c) = Inl (UndefinedTable ''excluded'')"

text \<open>Each \<open>col = expr\<close> of a WHERE or SET clause, with the expression read at
  the column's type.\<close>

definition compile_eqs :: "table \<Rightarrow> assigns \<Rightarrow> failure + (string \<times> sql_val) list" where
  "compile_eqs t eqs =
     ok_map (\<lambda>(c, e). ok_bind (col_type t c) (\<lambda>ty. ok_bind (eval_expr ty e) (\<lambda>v. Inr (c, v)))) eqs"

definition row_matches :: "(string \<times> sql_val) list \<Rightarrow> row \<Rightarrow> bool" where
  "row_matches cs r \<longleftrightarrow> list_all (\<lambda>(c, v). sql_eq (r c) v) cs"

definition apply_sets :: "(string \<times> sql_val) list \<Rightarrow> row \<Rightarrow> row" where
  "apply_sets sets r = foldl (\<lambda>r (c, v). r(c := v)) r sets"

section \<open>Result rows\<close>

fun check_sel_item :: "table \<Rightarrow> sel_item \<Rightarrow> failure + unit" where
  "check_sel_item t (SelCol c) = ok_bind (col_type t c) (\<lambda>_. Inr ())"
| "check_sel_item t (SelToChar c fmt a) =
     ok_bind (col_type t c) (\<lambda>ty. if ty = CTimestamp then Inr () else Inl (DatatypeMismatch c))"

definition check_sel :: "table \<Rightarrow> sel_item list \<Rightarrow> failure + unit" where
  "check_sel t items = ok_bind (ok_map (check_sel_item t) items) (\<lambda>_. Inr ())"

fun project_item :: "table \<Rightarrow> row \<Rightarrow> js_obj \<Rightarrow> sel_item \<Rightarrow> js_obj" where
  "project_item t r obj (SelCol c) = js_set obj c (js_of_sql (type_of_col t c) (r c))"
| "project_item t r obj (SelToChar c fmt a) =
     js_set obj a (case r c of STs ts \<Rightarrow> JStr (to_char ts fmt) | _ \<Rightarrow> JNull)"

definition project :: "table \<Rightarrow> sel_item list \<Rightarrow> row \<Rightarrow> js_obj" where
  "project t items r = foldl (project_item t r) [] items"

section \<open>Constraints\<close>

definition unique_ok :: "string list list \<Rightarrow> row list \<Rightarrow> bool" where
  "unique_ok keys rows \<longleftrightarrow>
     list_all (\<lambda>key. distinct (map (\<lambda>r. map r key) (filter (\<lambda>r. list_all (\<lambda>c. r c \<noteq> SNull) key) rows))) keys"

section \<open>Statements\<close>

definition eval_limit :: "expr option \<Rightarrow> failure + nat option" where
  "eval_limit lim =
     (case lim of
        None \<Rightarrow> Inr None
      | Some e \<Rightarrow>
          ok_bind (eval_expr CInt8 e)
            (\<lambda>v. case v of SNull \<Rightarrow> Inr None
                 | SInt n \<Rightarrow> if n < 0 then Inl InvalidRowCountInLimit else Inr (Some (nat n))
                 | _ \<Rightarrow> Inl (DatatypeMismatch ''limit'')))"

definition limit_rows :: "nat option \<Rightarrow> row list \<Rightarrow> row list" where
  "limit_rows l rs = (case l of None \<Rightarrow> rs | Some n \<Rightarrow> take n rs)"

definition put_table :: "db \<Rightarrow> string \<Rightarrow> table \<Rightarrow> db" where
  "put_table d tn t = d\<lparr>catalog := (catalog d)(tn \<mapsto> t)\<rparr>"

definition exec_select :: "sel_item list \<Rightarrow> string \<Rightarrow> assigns \<Rightarrow> expr option \<Rightarrow> db \<Rightarrow> failure + (js_obj list \<times> db)" where
  "exec_select items tn cs lim d =
     (case catalog d tn of
        None \<Rightarrow> Inl (UndefinedTable tn)
      | Some t \<Rightarrow>
          ok_bind (check_sel t items) (\<lambda>_. ok_bind (compile_eqs t cs) (\<lambda>ccs. ok_bind (eval_limit lim) (\<lambda>l.
            Inr (map (project t items) (limit_rows l (filter (row_matches ccs) (tbl_rows t))), d)))))"

definition exec_update :: "string \<Rightarrow> assigns \<Rightarrow> assigns \<Rightarrow> sel_item list \<Rightarrow> db \<Rightarrow> failure + (js_obj list \<times> db)" where
  "exec_update tn as cs ret d =
     (case catalog d tn of
        None \<Rightarrow> Inl (UndefinedTable tn)
      | Some t \<Rightarrow>
          ok_bind (check_sel t ret) (\<lambda>_. ok_bind (compile_eqs t as) (\<lambda>sets.
            if \<not> distinct (map fst sets) then Inl SyntaxError else
            ok_bind (compile_eqs t cs) (\<lambda>ccs.
              let rows' = map (\<lambda>r. if row_matches ccs r then apply_sets sets r else r) (tbl_rows t);
                  hit = map (apply_sets sets) (filter (row_matches ccs) (tbl_rows t))
              in if unique_ok (tbl_unique t) rows'
                 then Inr (map (project t ret) hit, put_table d tn (t\<lparr>tbl_rows := rows'\<rparr>))
                 else Inl (UniqueViolation tn)))))"

text \<open>The row an INSERT proposes: the given values, and each other column's
  default; a serial default takes the sequence value and advances it.  A serial
  column's sequence ends at the largest \<open>integer\<close>, 2147483647.\<close>

definition default_value :: "table \<Rightarrow> string \<Rightarrow> sql_val" where
  "default_value t c =
     (case map_of (tbl_cols t) c of Some (_, DSerial) \<Rightarrow> SInt (int (tbl_seq t))
      | Some (_, DValue v) \<Rightarrow> v | _ \<Rightarrow> SNull)"

definition new_row :: "table \<Rightarrow> (string \<times> sql_val) list \<Rightarrow> row" where
  "new_row t avs = (\<lambda>c. case map_of avs c of Some v \<Rightarrow> v | None \<Rightarrow> default_value t c)"

definition uses_serial :: "table \<Rightarrow> (string \<times> sql_val) list \<Rightarrow> bool" where
  "uses_serial t avs \<longleftrightarrow> list_ex (\<lambda>(c, ty, dflt). dflt = DSerial \<and> map_of avs c = None) (tbl_cols t)"

definition advance_seq :: "table \<Rightarrow> (string \<times> sql_val) list \<Rightarrow> table" where
  "advance_seq t avs = (if uses_serial t avs then t\<lparr>tbl_seq := Suc (tbl_seq t)\<rparr> else t)"

text \<open>ON CONFLICT: an existing row equal to the proposed one on the conflict
  columns, all of them non-NULL, is updated instead; \<open>EXCLUDED.c\<close> is the
  proposed row's value of \<open>c\<close>.\<close>

definition conflicts_with :: "string list \<Rightarrow> row \<Rightarrow> row \<Rightarrow> bool" where
  "conflicts_with key new r \<longleftrightarrow> list_all (\<lambda>c. new c \<noteq> SNull \<and> r c = new c) key"

text \<open>The assignment of a value of column type \<open>ty'\<close> to a column of type
  \<open>ty\<close>: the same type, or an integer into an integer column, range checked at
  the target width.  The server rejects the other pairs when it plans the
  statement; the assignment casts between other types are not modelled.\<close>

definition assign_cast :: "coltype \<Rightarrow> coltype \<Rightarrow> sql_val \<Rightarrow> failure + sql_val" where
  "assign_cast ty' ty v =
     (if ty' = ty then Inr v
      else if ty' \<in> {CInt4, CInt8} \<and> ty \<in> {CInt4, CInt8}
      then (case v of SInt n \<Rightarrow> int_literal ty n | _ \<Rightarrow> Inr v)
      else Inl (DatatypeMismatch ''excluded''))"

fun eval_excluded :: "table \<Rightarrow> row \<Rightarrow> coltype \<Rightarrow> expr \<Rightarrow> failure + sql_val" where
  "eval_excluded t new ty (EExcluded c) = ok_bind (col_type t c) (\<lambda>ty'. assign_cast ty' ty (new c))"
| "eval_excluded t new ty e = eval_expr ty e"

definition compile_conflict_sets :: "table \<Rightarrow> row \<Rightarrow> assigns \<Rightarrow> failure + (string \<times> sql_val) list" where
  "compile_conflict_sets t new as =
     ok_map (\<lambda>(c, e). ok_bind (col_type t c) (\<lambda>ty. ok_bind (eval_excluded t new ty e) (\<lambda>v. Inr (c, v)))) as"

definition insert_plain :: "string \<Rightarrow> table \<Rightarrow> row \<Rightarrow> sel_item list \<Rightarrow> db \<Rightarrow> failure + (js_obj list \<times> db)" where
  "insert_plain tn t new ret d =
     (let rows' = tbl_rows t @ [new] in
      if unique_ok (tbl_unique t) rows'
      then Inr ([project t ret new], put_table d tn (t\<lparr>tbl_rows := rows'\<rparr>))
      else Inl (UniqueViolation tn))"

definition insert_conflict :: "string \<Rightarrow> table \<Rightarrow> row \<Rightarrow> string list \<times> assigns \<Rightarrow> sel_item list \<Rightarrow> db \<Rightarrow> failure + (js_obj list \<times> db)" where
  "insert_conflict tn t new oc ret d =
     (case oc of (key, as) \<Rightarrow>
        if \<not> list_ex (\<lambda>u. set u = set key) (tbl_unique t) then Inl InvalidColumnReference else
        (case first_index (conflicts_with key new) (tbl_rows t) of
           None \<Rightarrow> insert_plain tn t new ret d
         | Some i \<Rightarrow>
             ok_bind (compile_conflict_sets t new as) (\<lambda>sets.
               let upd = apply_sets sets (tbl_rows t ! i);
                   rows' = (tbl_rows t)[i := upd]
               in if unique_ok (tbl_unique t) rows'
                  then Inr ([project t ret upd], put_table d tn (t\<lparr>tbl_rows := rows'\<rparr>))
                  else Inl (UniqueViolation tn))))"

definition exec_insert :: "string \<Rightarrow> string list \<Rightarrow> expr list \<Rightarrow> (string list \<times> assigns) option \<Rightarrow> sel_item list \<Rightarrow> db \<Rightarrow> failure + (js_obj list \<times> db)" where
  "exec_insert tn cols vals oc ret d =
     (case catalog d tn of
        None \<Rightarrow> Inl (UndefinedTable tn)
      | Some t \<Rightarrow>
          if length cols \<noteq> length vals \<or> \<not> distinct cols then Inl SyntaxError else
          ok_bind (check_sel t ret) (\<lambda>_. ok_bind (compile_eqs t (zip cols vals)) (\<lambda>avs.
            if uses_serial t avs \<and> int4_max < int (tbl_seq t) then Inl SequenceLimitExceeded else
            let new = new_row t avs; t' = advance_seq t avs in
            (case oc of None \<Rightarrow> insert_plain tn t' new ret d
             | Some c \<Rightarrow> insert_conflict tn t' new c ret d))))"

definition exec_delete :: "string \<Rightarrow> assigns \<Rightarrow> sel_item list \<Rightarrow> db \<Rightarrow> failure + (js_obj list \<times> db)" where
  "exec_delete tn cs ret d =
     (case catalog d tn of
        None \<Rightarrow> Inl (UndefinedTable tn)
      | Some t \<Rightarrow>
          ok_bind (check_sel t ret) (\<lambda>_. ok_bind (compile_eqs t cs) (\<lambda>ccs.
            Inr (map (project t ret) (filter (row_matches ccs) (tbl_rows t)),
                 put_table d tn (t\<lparr>tbl_rows := filter (\<lambda>r. \<not> row_matches ccs r) (tbl_rows t)\<rparr>)))))"

fun exec_stmt :: "stmt \<Rightarrow> db \<Rightarrow> failure + (js_obj list \<times> db)" where
  "exec_stmt (Select items tn cs lim) = exec_select items tn cs lim"
| "exec_stmt (Update tn as cs ret) = exec_update tn as cs ret"
| "exec_stmt (Insert tn cols vals oc ret) = exec_insert tn cols vals oc ret"
| "exec_stmt (Delete tn cs ret) = exec_delete tn cs ret"

text \<open>\<open>const {rows} = await db.query(query)\<close>.\<close>

definition db_query :: "tok list \<Rightarrow> (failure, db, js_obj list) st" where
  "db_query ts = (case parse_stmt ts of None \<Rightarrow> st_throw SyntaxError | Some s \<Rightarrow> exec_stmt s)"

text \<open>The table a statement names.\<close>

fun stmt_table :: "stmt \<Rightarrow> string" where
  "stmt_table (Select items tn cs lim) = tn"
| "stmt_table (Update tn as cs ret) = tn"
| "stmt_table (Insert tn cols vals oc ret) = tn"
| "stmt_table (Delete tn cs ret) = tn"

section \<open>The repository's schema\<close>

definition kindle_annotations_table :: table where
  "kindle_annotations_table =
     \<lparr>tbl_cols =
        [(''id'', CInt4, DSerial), (''book_id'', CInt4, DNull), (''bookline'', CText, DNull),
         (''title'', CText, DNull), (''author'', CText, DNull), (''language'', CText, DNull),
         (''begin'', CInt4, DNull), (''end'', CInt4, DNull), (''time'', CTimestamp, DNull),
         (''highlight'', CText, DNull), (''note'', CText, DNull), (''statusline'', CText, DNull),
         (''page'', CInt4, DNull), (''ordernr'', CInt4, DNull), (''edited'', CBool, DValue (SBool False))],
      tbl_unique = [[''id'']], tbl_seq = 1, tbl_rows = []\<rparr>"

definition tags_table :: table where
  "tags_table =
     \<lparr>tbl_cols = [(''id'', CInt4, DSerial), (''tag'', CText, DNull)],
      tbl_unique = [[''id''], [''tag'']], tbl_seq = 1, tbl_rows = []\<rparr>"

definition annotations_tags_table :: table where
  "annotations_tags_table =
     \<lparr>tbl_cols = [(''annotation_id'', CInt4, DNull), (''tag_id'', CInt4, DNull)],
      tbl_unique = [[''annotation_id'', ''tag_id'']], tbl_seq = 1, tbl_rows = []\<rparr>"

definition books_table :: table where
  "books_table =
     \<lparr>tbl_cols = [(''id'', CInt4, DSerial), (''title'', CText, DNull)],
      tbl_unique = [[''id'']], tbl_seq = 1, tbl_rows = []\<rparr>"

definition init_db :: db where
  "init_db =
     \<lparr>catalog = [''kindle_annotations'' \<mapsto> kindle_annotations_table, ''tags'' \<mapsto> tags_table,
                ''annotations_tags'' \<mapsto> annotations_tags_table, ''books'' \<mapsto> books_table]\<rparr>"

section \<open>Evaluation rules\<close>

lemma project_same_cols:
  assumes "tbl_cols t = tbl_cols t'"
  shows "project t items = project t' items"
proof -
  have "project_item t r obj i = project_item t' r obj i" for r obj i
    using assms by (cases i) (simp_all add: type_of_col_def)
  then show ?thesis
    unfolding project_def fun_eq_iff by (auto intro: foldl_cong)
qed

lemma col_type_same_cols: "tbl_cols t = tbl_cols t' \<Longrightarrow> col_type t = col_type t'"
  by (simp add: col_type_def fun_eq_iff)

lemma row_matches_single: "row_matches [(c, v)] = (\<lambda>r. sql_eq (r c) v)"
  by (simp add: row_matches_def fun_eq_iff)

lemma db_query_parsed: "parse_stmt ts = Some s \<Longrightarrow> db_query ts = exec_stmt s"
  by (simp add: db_query_def)

lemma db_query_unparsed: "parse_stmt ts = None \<Longrightarrow> db_query ts d = Inl SyntaxError"
  by (simp add: db_query_def)

lemma apply_sets_single: "apply_sets [(c, v)] r = r(c := v)"
  by (simp add: apply_sets_def)

text \<open>A change of rows that keeps every key column keeps the unique constraints.\<close>

lemma unique_ok_map_keep:
  assumes "\<And>r key c. r \<in> set rows \<Longrightarrow> key \<in> set keys \<Longrightarrow> c \<in> set key \<Longrightarrow> f r c = r c"
  shows "unique_ok keys (map f rows) = unique_ok keys rows"
proof -
  have "map (\<lambda>r. map r key) (filter (\<lambda>r. list_all (\<lambda>c. r c \<noteq> SNull) key) (map f rows)) =
        map (\<lambda>r. map r key) (filter (\<lambda>r. list_all (\<lambda>c. r c \<noteq> SNull) key) rows)" if "key \<in> set keys" for key
    using assms that by (induction rows) (auto simp: list_all_iff)
  then show ?thesis
    by (simp add: unique_ok_def list_all_iff)
qed

lemma compile_eqs_keys: "compile_eqs t eqs = Inr avs \<Longrightarrow> map fst avs = map fst eqs"
proof (induction eqs arbitrary: avs)
  case Nil
  then show ?case by (simp add: compile_eqs_def)
next
  case (Cons e eqs)
  then show ?case
    by (cases e) (auto simp: compile_eqs_def ok_bind_eq_Inr)
qed

lemma compile_eqs_map_of:
  "compile_eqs t eqs = Inr avs \<Longrightarrow> map_of eqs c = Some e \<Longrightarrow>
     \<exists>ty v. col_type t c = Inr ty \<and> eval_expr ty e = Inr v \<and> map_of avs c = Some v"
proof (induction eqs arbitrary: avs)
  case Nil
  then show ?case by simp
next
  case (Cons ce eqs)
  then show ?case
    by (cases ce) (auto simp: compile_eqs_def ok_bind_eq_Inr split: if_splits)
qed

lemma unique_ok_single_key:
  "unique_ok [[c]] rows \<longleftrightarrow> distinct (map (\<lambda>r. r c) (filter (\<lambda>r. r c \<noteq> SNull) rows))"
  by (induction rows) (auto simp: unique_ok_def)

text \<open>Appending a row keeps single-column unique constraints when no stored
  row has the new row's non-NULL value in any of those columns.\<close>

lemma unique_ok_append_singles:
  "unique_ok (map (\<lambda>c. [c]) cs) (rows @ [r]) \<longleftrightarrow>
     unique_ok (map (\<lambda>c. [c]) cs) rows \<and> (\<forall>c \<in> set cs. r c \<noteq> SNull \<longrightarrow> (\<forall>r' \<in> set rows. r' c \<noteq> r c))"
  unfolding unique_ok_def list_all_iff by (auto simp: image_iff) metis+

section \<open>What a statement can change\<close>

text \<open>A SELECT leaves the catalog as it is; every other statement replaces at
  most the table it names.\<close>

lemma apply_sets_other: "c \<notin> set (map fst sets) \<Longrightarrow> apply_sets sets r c = r c"
  by (induction sets arbitrary: r) (auto simp: apply_sets_def)

lemma exec_select_same: "exec_select items tn cs lim d = Inr (rs, d') \<Longrightarrow> d' = d"
  by (auto simp: exec_select_def ok_bind_eq_Inr split: option.splits)

lemma exec_update_effect:
  assumes "exec_update tn as cs ret d = Inr (rs, d')" "catalog d tn = Some t"
  shows "\<exists>sets P. map fst sets = map fst as \<and>
           d' = put_table d tn (t\<lparr>tbl_rows := map (\<lambda>r. if P r then apply_sets sets r else r) (tbl_rows t)\<rparr>)"
  using assms compile_eqs_keys
  by (fastforce simp: exec_update_def ok_bind_eq_Inr Let_def split: if_splits)

lemma exec_delete_effect:
  assumes "exec_delete tn cs ret d = Inr (rs, d')" "catalog d tn = Some t"
  shows "\<exists>P. d' = put_table d tn (t\<lparr>tbl_rows := filter P (tbl_rows t)\<rparr>)"
  using assms by (auto simp: exec_delete_def ok_bind_eq_Inr)

lemma exec_insert_effect:
  "exec_insert tn cols vals oc ret d = Inr (rs, d') \<Longrightarrow> \<exists>t'. d' = put_table d tn t'"
  by (auto simp: exec_insert_def ok_bind_eq_Inr Let_def insert_plain_def insert_conflict_def
      split: option.splits if_splits prod.splits)

lemma exec_stmt_effect:
  assumes "exec_stmt s d = Inr (rs, d')"
  shows "d' = d \<or> (\<exists>t'. d' = put_table d (stmt_table s) t')"
  using assms
proof (cases s)
  case (Update tn as cs ret)
  then show ?thesis
    using assms by (auto simp: exec_update_def ok_bind_eq_Inr Let_def split: option.splits if_splits)
next
  case (Delete tn cs ret)
  then show ?thesis
    using assms by (auto simp: exec_delete_def ok_bind_eq_Inr split: option.splits)
qed (auto dest: exec_select_same exec_insert_effect)

lemma exec_stmt_other_table:
  "exec_stmt s d = Inr (rs, d') \<Longrightarrow> tn \<noteq> stmt_table s \<Longrightarrow> catalog d' tn = catalog d tn"
  by (drule exec_stmt_effect) (auto simp: put_table_def)

lemma parse_stmt_select: "parse_stmt (TKw KSelect # r) = Some s \<Longrightarrow> \<exists>items tn cs lim. s = Select items tn cs lim"
  by (auto simp: parse_stmt_def parse_select_def split: option.splits prod.splits list.splits tok.splits kw.splits)

lemma parse_stmt_insert: "parse_stmt (TKw KInsert # TKw KInto # TId tn # r) = Some s \<Longrightarrow> stmt_table s = tn"
  by (auto simp: parse_stmt_def parse_insert_def parse_values_def split: option.splits prod.splits list.splits tok.splits kw.splits)

lemma db_query_select_same: "db_query (TKw KSelect # r) d = Inr (rs, d') \<Longrightarrow> d' = d"
  by (auto simp: db_query_def split: option.splits dest!: parse_stmt_select exec_select_same)

lemma db_query_insert_other:
  "db_query (TKw KInsert # TKw KInto # TId tn # r) d = Inr (rs, d') \<Longrightarrow> tn' \<noteq> tn \<Longrightarrow> catalog d' tn' = catalog d tn'"
  by (auto simp: db_query_def split: option.splits dest: parse_stmt_insert exec_stmt_other_table)

end
