(* ===== verification/Books.thy ===== *)
theory Books
  imports Database
begin

text \<open>
  The Books collaborator (\<open>src/models/books\<close>, required by the store but not
  among the sources), modelled from the specification: \<open>getBookID(title)\<close>
  resolves a title to the id of a book, or \<open>null\<close> when there is none, and
  \<open>insertBook(title)\<close> creates a book and resolves to its new id.  Both are
  written as queries on the \<open>books\<close> table of the catalog, so that the store's
  chains run on one database state.
\<close>

definition getBookID :: "js_val \<Rightarrow> (failure, db, js_val) st" where
  "getBookID title =
     st_bind (db_query [TKw KSelect, TId ''id'', TKw KFrom, TId ''books'', TKw KWhere,
                        TId ''title'', TEq, TParam title])
       (\<lambda>rows. st_return (case rows of [] \<Rightarrow> JNull | r # _ \<Rightarrow> js_get r ''id''))"

definition insertBook :: "js_val \<Rightarrow> (failure, db, js_val) st" where
  "insertBook title =
     st_bind (db_query [TKw KInsert, TKw KInto, TId ''books'', TLParen, TId ''title'', TRParen,
                        TKw KValues, TLParen, TParam title, TRParen, TKw KReturning, TId ''id''])
       (\<lambda>rows. st_of (js_prop (js_first (map JObj rows)) ''id''))"

text \<open>A table with the columns of \<open>books\<close>.\<close>

definition book_cols :: "table \<Rightarrow> bool" where
  "book_cols t \<longleftrightarrow> tbl_cols t = tbl_cols books_table"

section \<open>Lookup by title\<close>

lemma parse_book_query:
  "parse_stmt [TKw KSelect, TId ''id'', TKw KFrom, TId ''books'', TKw KWhere, TId ''title'', TEq, TParam v] =
     Some (Select [SelCol ''id''] ''books'' [(''title'', EParam v)] None)"
  by (simp add: parse_stmt_def parse_select_def parse_sel_items_def sel_item_at_def sep_by_last
      parse_where_def parse_eqs_def eq_item_def parse_limit_def)

lemma parse_insertBook_query:
  "parse_stmt [TKw KInsert, TKw KInto, TId ''books'', TLParen, TId ''title'', TRParen,
               TKw KValues, TLParen, TParam v, TRParen, TKw KReturning, TId ''id''] =
     Some (Insert ''books'' [''title''] [EParam v] None [SelCol ''id''])"
  by (simp add: parse_stmt_def parse_insert_def parse_values_def parse_idents_def ident_item_def sep_by_last
      parse_exprs_def parse_conflict_def parse_returning_def parse_sel_items_def sel_item_at_def)

lemma getBookID_result:
  assumes "catalog d ''books'' = Some t" "book_cols t"
  shows "getBookID (JStr s) d =
           Inr ((case filter (\<lambda>r. r ''title'' = SText s) (tbl_rows t) of
                   [] \<Rightarrow> JNull | r # _ \<Rightarrow> js_of_sql CInt4 (r ''id'')), d)"
proof -
  have ce: "compile_eqs t [(''title'', EParam (JStr s))] = Inr [(''title'', SText s)]"
    using assms by (simp add: book_cols_def compile_eqs_def col_type_def books_table_def)
  have cs: "check_sel t [SelCol ''id''] = Inr ()"
    using assms by (simp add: book_cols_def check_sel_def col_type_def books_table_def)
  have ty: "type_of_col t ''id'' = CInt4"
    using assms by (simp add: book_cols_def type_of_col_def books_table_def)
  show ?thesis
    using assms ce cs ty
    by (auto simp: getBookID_def db_query_parsed [OF parse_book_query] exec_select_def
        eval_limit_def limit_rows_def row_matches_single project_def js_get_def js_set_def
        split: list.splits)
qed

end
