(* ===== verification/Annotations.thy ===== *)
theory Annotations
  imports Books
begin

text \<open>
  The annotation store, \<open>src/models/annotations.js\<close>, one definition per
  function, in the order of the file.  Each \<open>async\<close> function is a chain in the
  state and exception monad of \<open>Prelude\<close> over the database of \<open>Database\<close>;
  each \<open>SQL`...`\<close> template is the token list of its text, \<open>.append\<close> is
  \<open>@\<close>, and \<open>db.query\<close> is \<open>db_query\<close>.  The objects passed in are
  JavaScript objects (\<open>js_obj\<close>), destructured by \<open>js_get\<close>; a row returned
  to the caller is a \<open>JObj\<close>, \<open>null\<close> or \<open>undefined\<close> as in the code.
  \<open>console.log\<close> and the unused \<open>fs\<close>/\<open>tempDataFile\<close> have no effect on
  the results and are left out.
\<close>

section \<open>Column list and base query (lines 9--16)\<close>

definition querySelectCols :: "tok list" where
  "querySelectCols =
     [TId ''id'', TComma, TId ''book_id'', TComma, TId ''bookline'', TComma, TId ''title'', TComma,
      TId ''author'', TComma, TId ''language'', TComma, TId ''begin'', TComma, TId ''end'', TComma,
      TId ''to_char'', TLParen, TId ''time'', TComma, TStr ''yyyy-mm-dd-hh-mi-ss'', TRParen,
      TKw KAs, TId ''time'', TComma, TId ''highlight'', TComma, TId ''note'', TComma, TId ''page'']"

definition annosSelectQuery :: "tok list" where
  "annosSelectQuery = [TKw KSelect] @ querySelectCols @ [TKw KFrom, TId ''kindle_annotations'']"

section \<open>Reads (lines 18--48)\<close>

text \<open>\<open>limit = 50\<close>: the default applies when the argument is \<open>undefined\<close>.\<close>

definition getAllAnnotations :: "js_val \<Rightarrow> (failure, db, js_obj list) st" where
  "getAllAnnotations limit =
     (let limit = (if limit = JUndefined then JNum 50 else limit) in
      st_bind (db_query (annosSelectQuery @ [TKw KLimit, TParam limit])) (\<lambda>rows. st_return rows))"

text \<open>\<open>getBookID\<close> is not bound in the module (only \<open>Books.getBookID\<close> is), so
  the first statement throws a ReferenceError and the promise rejects.\<close>

definition getAnnotationsByBookTitle :: "js_val \<Rightarrow> (failure, db, js_obj list) st" where
  "getAnnotationsByBookTitle title = st_throw (ReferenceError ''getBookID'')"

definition getAnnotationsByBookID :: "js_val \<Rightarrow> (failure, db, js_obj list) st" where
  "getAnnotationsByBookID book_id =
     st_bind (db_query (annosSelectQuery @ [TKw KWhere, TId ''book_id'', TEq, TParam book_id]))
       (\<lambda>rows. st_return rows)"

definition getAnnotationByID :: "js_val \<Rightarrow> (failure, db, js_val) st" where
  "getAnnotationByID annoID =
     st_bind (db_query (annosSelectQuery @ [TKw KWhere, TId ''id'', TEq, TParam annoID]))
       (\<lambda>rows. let r0 = js_first (map JObj rows) in
               if \<not> js_truthy r0 then st_return JNull else st_return r0)"

section \<open>Matching and adding (lines 69--134)\<close>

definition getMatchingAnnotationID :: "js_val \<Rightarrow> js_val \<Rightarrow> (failure, db, js_val) st" where
  "getMatchingAnnotationID book_id end_off =
     st_bind (db_query [TKw KSelect, TId ''id'', TKw KFrom, TId ''kindle_annotations'', TKw KWhere,
                        TId ''book_id'', TEq, TParam book_id, TKw KAnd, TId ''end'', TEq, TParam end_off])
       (\<lambda>rows. let r0 = js_first (map JObj rows) in
               if \<not> js_truthy r0 then st_return JNull else st_of (js_prop r0 ''id''))"

text \<open>\<open>` WHERE id = ${matchID}`\<close> is a plain template literal: the id is
  written into the text and lexed as a number.\<close>

definition raw_text :: "js_val \<Rightarrow> tok list" where
  "raw_text v = (case v of JNum n \<Rightarrow> [TNum n] | _ \<Rightarrow> [TRaw ''''])"

definition update_match_query :: "js_val \<Rightarrow> js_val \<Rightarrow> js_val \<Rightarrow> tok list" where
  "update_match_query highlight note matchID =
     [TKw KUpdate, TId ''kindle_annotations'', TKw KSet]
     @ (if js_truthy highlight then [TId ''highlight'', TEq, TParam highlight] else [])
     @ (if js_truthy note then [TId ''note'', TEq, TParam note] else [])
     @ [TKw KWhere, TId ''id'', TEq] @ raw_text matchID"

definition insert_query :: "js_obj \<Rightarrow> js_val \<Rightarrow> tok list" where
  "insert_query a book_id =
     [TKw KInsert, TKw KInto, TId ''kindle_annotations'', TLParen,
      TId ''book_id'', TComma, TId ''bookline'', TComma, TId ''title'', TComma, TId ''author'', TComma,
      TId ''language'', TComma, TId ''begin'', TComma, TId ''end'', TComma, TId ''time'', TComma,
      TId ''highlight'', TComma, TId ''note'', TComma, TId ''statusline'', TComma, TId ''page'', TComma,
      TId ''ordernr'', TRParen, TKw KValues, TLParen,
      TParam book_id, TComma, TParam (js_get a ''bookline''), TComma, TParam (js_get a ''title''), TComma,
      TParam (js_get a ''author''), TComma, TParam (js_get a ''language''), TComma,
      TParam (js_get a ''begin''), TComma, TParam (js_get a ''end''), TComma,
      TParam (js_get a ''time''), TComma, TParam (js_get a ''highlight''), TComma,
      TParam (js_get a ''note''), TComma, TParam (js_get a ''statusline''), TComma,
      TParam (js_get a ''page''), TComma, TParam (js_get a ''ordernr''), TRParen,
      TKw KOn, TKw KConflict, TLParen, TId ''id'', TRParen, TKw KDo, TKw KUpdate, TKw KSet,
      TId ''statusline'', TEq, TId ''excluded'', TDot, TId ''statusline'', TComma,
      TId ''time'', TEq, TId ''excluded'', TDot, TId ''time'']"

text \<open>Lines 84--88: the book by title, created when there is none.\<close>

definition resolve_book :: "js_val \<Rightarrow> (failure, db, js_val) st" where
  "resolve_book title =
     st_bind (Books.getBookID title) (\<lambda>book_id.
       if \<not> js_truthy book_id then Books.insertBook title else st_return book_id)"

text \<open>Lines 92--116: the statement \<open>addAnnotation\<close> sends after the match query.\<close>

definition add_write_query :: "js_obj \<Rightarrow> js_val \<Rightarrow> js_val \<Rightarrow> tok list" where
  "add_write_query a book_id matchID =
     (if js_truthy matchID
      then update_match_query (js_get a ''highlight'') (js_get a ''note'') matchID
      else insert_query a book_id)
     @ [TKw KReturning] @ querySelectCols"

definition addAnnotation :: "js_obj \<Rightarrow> (failure, db, js_val) st" where
  "addAnnotation a =
     st_bind (resolve_book (js_get a ''title'')) (\<lambda>book_id.
     st_bind (getMatchingAnnotationID book_id (js_get a ''end'')) (\<lambda>matchID.
     st_bind (db_query (add_write_query a book_id matchID)) (\<lambda>rows. st_return (js_first (map JObj rows)))))"

text \<open>Lines 123--131: \<open>{...calibreAnnotation, highlight, note}\<close>, the text put in
  the field that \<open>kind\<close> names and \<open>null\<close> in the other.\<close>

definition calibre_object :: "js_obj \<Rightarrow> js_obj" where
  "calibre_object c =
     (let text = js_get c ''text''; kind = js_get c ''kind'';
          highlight = (if kind = JStr ''highlight'' then text else JNull);
          note = (if kind = JStr ''note'' then text else JNull)
      in js_set (js_set c ''highlight'' highlight) ''note'' note)"

definition addCalibreAnnotation :: "js_obj \<Rightarrow> (failure, db, js_val) st" where
  "addCalibreAnnotation c = addAnnotation (calibre_object c)"

section \<open>Editing and deleting (lines 145--167)\<close>

definition editAnnotation :: "js_obj \<Rightarrow> (failure, db, js_val) st" where
  "editAnnotation a =
     st_bind (db_query ([TKw KUpdate, TId ''kindle_annotations'', TKw KSet,
                         TId ''highlight'', TEq, TParam (js_get a ''highlight''), TComma,
                         TId ''note'', TEq, TParam (js_get a ''note''), TComma,
                         TId ''edited'', TEq, TKw KTrue,
                         TKw KWhere, TId ''id'', TEq, TParam (js_get a ''id''), TKw KReturning]
                        @ querySelectCols))
       (\<lambda>rows. st_return (js_first (map JObj rows)))"

definition deleteAnnotation :: "js_obj \<Rightarrow> (failure, db, js_val) st" where
  "deleteAnnotation a =
     st_bind (db_query ([TKw KDelete, TKw KFrom, TId ''kindle_annotations'', TKw KWhere,
                         TId ''id'', TEq, TParam (js_get a ''id''), TKw KReturning]
                        @ querySelectCols))
       (\<lambda>rows. st_return (js_first (map JObj rows)))"

section \<open>The projection of \<open>querySelectCols\<close>\<close>

text \<open>The select list the server reads from \<open>querySelectCols\<close>, and the object
  it makes of a row: the annotation projection of the specification (section 6).\<close>

definition anno_sel :: "sel_item list" where
  "anno_sel =
     [SelCol ''id'', SelCol ''book_id'', SelCol ''bookline'', SelCol ''title'', SelCol ''author'',
      SelCol ''language'', SelCol ''begin'', SelCol ''end'',
      SelToChar ''time'' ''yyyy-mm-dd-hh-mi-ss'' ''time'', SelCol ''highlight'', SelCol ''note'',
      SelCol ''page'']"

definition anno_json :: "row \<Rightarrow> js_obj" where
  "anno_json r = project kindle_annotations_table anno_sel r"

text \<open>A table with the columns of \<open>kindle_annotations\<close>.\<close>

definition anno_cols :: "table \<Rightarrow> bool" where
  "anno_cols t \<longleftrightarrow> tbl_cols t = tbl_cols kindle_annotations_table"

text \<open>The store's invariant on \<open>kindle_annotations\<close>: the repository's columns,
  the primary key, and ids that are positive, distinct and below the serial
  sequence's next value, which is at most one past the largest \<open>integer\<close>.\<close>

definition valid_id :: "nat \<Rightarrow> sql_val \<Rightarrow> bool" where
  "valid_id seq v = (case v of SInt i \<Rightarrow> 0 < i \<and> i < int seq | _ \<Rightarrow> False)"

definition anno_inv :: "table \<Rightarrow> bool" where
  "anno_inv t \<longleftrightarrow>
     anno_cols t \<and> tbl_unique t = [[''id'']] \<and> 0 < tbl_seq t \<and> int (tbl_seq t) \<le> int4_max + 1 \<and>
     list_all (valid_id (tbl_seq t)) (map (\<lambda>r. r ''id'') (tbl_rows t)) \<and>
     distinct (map (\<lambda>r. r ''id'') (tbl_rows t))"

text \<open>The columns and parameters of the INSERT of \<open>addAnnotation\<close> (lines 104--108),
  and the values the server reads from the parameters at the columns' types.\<close>

definition insert_cols :: "string list" where
  "insert_cols = [''book_id'', ''bookline'', ''title'', ''author'', ''language'', ''begin'', ''end'',
                  ''time'', ''highlight'', ''note'', ''statusline'', ''page'', ''ordernr'']"

definition insert_params :: "js_obj \<Rightarrow> js_val \<Rightarrow> js_val list" where
  "insert_params a b = b # map (js_get a) (tl insert_cols)"

definition stored_fields :: "js_obj \<Rightarrow> js_val \<Rightarrow> failure + (string \<times> sql_val) list" where
  "stored_fields a b = compile_eqs kindle_annotations_table (zip insert_cols (map EParam (insert_params a b)))"

text \<open>A database with one book, \<open>Foo\<close>, and one annotation of it, ending at
  location 20, for the witnesses.\<close>

definition example_row :: row where
  "example_row = (\<lambda>c. SNull)(''id'' := SInt 1, ''book_id'' := SInt 1, ''end'' := SInt 20,
                               ''highlight'' := SText ''hi'', ''edited'' := SBool False)"

definition example_table :: table where
  "example_table = kindle_annotations_table\<lparr>tbl_seq := 2, tbl_rows := [example_row]\<rparr>"

definition example_book :: row where
  "example_book = (\<lambda>c. SNull)(''id'' := SInt 1, ''title'' := SText ''Foo'')"

definition example_db :: db where
  "example_db = put_table (put_table init_db ''kindle_annotations'' example_table) ''books''
                  (books_table\<lparr>tbl_seq := 2, tbl_rows := [example_book]\<rparr>)"

section \<open>Parsing the store's statements\<close>

lemma parse_querySelectCols:
  "not_sep TComma rest \<Longrightarrow> parse_sel_items (querySelectCols @ rest) = Some (anno_sel, rest)"
  unfolding parse_sel_items_def querySelectCols_def anno_sel_def
  by (simp add: sep_by_more sep_by_last sel_item_at_def)

lemma parse_select_where:
  "parse_stmt (annosSelectQuery @ [TKw KWhere, TId c, TEq, TParam v]) =
     Some (Select anno_sel ''kindle_annotations'' [(c, EParam v)] None)"
proof -
  have "parse_sel_items (querySelectCols @ [TKw KFrom, TId ''kindle_annotations'', TKw KWhere, TId c, TEq, TParam v])
        = Some (anno_sel, [TKw KFrom, TId ''kindle_annotations'', TKw KWhere, TId c, TEq, TParam v])"
    by (rule parse_querySelectCols) simp
  then show ?thesis
    by (simp add: parse_stmt_def annosSelectQuery_def parse_select_def parse_where_def parse_eqs_def
        sep_by_last eq_item_def parse_limit_def)
qed

lemma parse_select_limit:
  "parse_stmt (annosSelectQuery @ [TKw KLimit, TParam v]) =
     Some (Select anno_sel ''kindle_annotations'' [] (Some (EParam v)))"
proof -
  have "parse_sel_items (querySelectCols @ [TKw KFrom, TId ''kindle_annotations'', TKw KLimit, TParam v])
        = Some (anno_sel, [TKw KFrom, TId ''kindle_annotations'', TKw KLimit, TParam v])"
    by (rule parse_querySelectCols) simp
  then show ?thesis
    by (simp add: parse_stmt_def annosSelectQuery_def parse_select_def parse_where_def parse_limit_def)
qed

lemma parse_update_tail:
  "parse_tail ([TKw KWhere, TId ''id'', TEq, TNum k, TKw KReturning] @ querySelectCols) =
     Some ([(''id'', ENum k)], anno_sel)"
proof -
  have "parse_sel_items (querySelectCols @ []) = Some (anno_sel, [])"
    by (rule parse_querySelectCols) simp
  then show ?thesis
    by (simp add: parse_tail_def parse_where_def parse_eqs_def sep_by_last eq_item_def parse_returning_def)
qed

text \<open>The UPDATE of \<open>addAnnotation\<close> (lines 95--100 and 116): its SET clause
  is the appended items with no comma between them.\<close>

lemma parse_update_match:
  "parse_stmt (update_match_query h n (JNum k) @ TKw KReturning # querySelectCols) =
     (if js_truthy h = js_truthy n then None
      else if js_truthy h then Some (Update ''kindle_annotations'' [(''highlight'', EParam h)] [(''id'', ENum k)] anno_sel)
      else Some (Update ''kindle_annotations'' [(''note'', EParam n)] [(''id'', ENum k)] anno_sel))"
  using parse_update_tail [of k]
  by (simp add: update_match_query_def raw_text_def parse_stmt_def parse_update_def parse_eqs_def
      sep_by_last sep_by_none eq_item_def parse_tail_def parse_where_def parse_returning_def)

lemma parse_update_match_other:
  assumes "\<forall>k. m \<noteq> JNum k"
  shows "parse_stmt (update_match_query h n m @ TKw KReturning # querySelectCols) = None"
proof -
  have raw: "raw_text m = [TRaw '''']"
    using assms by (cases m) (auto simp: raw_text_def)
  have tl: "parse_tail (TKw KWhere # TId ''id'' # TEq # TRaw '''' # r) = None" for r
    by (simp add: parse_tail_def parse_where_def parse_eqs_def sep_by_none eq_item_def)
  show ?thesis
    using tl
    by (simp add: update_match_query_def raw parse_stmt_def parse_update_def parse_eqs_def sep_by_last
        sep_by_none eq_item_def parse_tail_def parse_where_def parse_returning_def)
qed


lemma parse_match_query:
  "parse_stmt [TKw KSelect, TId ''id'', TKw KFrom, TId ''kindle_annotations'', TKw KWhere,
               TId ''book_id'', TEq, TParam b, TKw KAnd, TId ''end'', TEq, TParam e] =
     Some (Select [SelCol ''id''] ''kindle_annotations'' [(''book_id'', EParam b), (''end'', EParam e)] None)"
  by (simp add: parse_stmt_def parse_select_def parse_sel_items_def sel_item_at_def sep_by_last
      parse_where_def parse_eqs_def eq_item_def sep_by_more parse_limit_def)

lemma parse_insert_query:
  "parse_stmt (insert_query a b @ TKw KReturning # querySelectCols) =
     Some (Insert ''kindle_annotations'' insert_cols (map EParam (insert_params a b))
             (Some ([''id''], [(''statusline'', EExcluded ''statusline''), (''time'', EExcluded ''time'')])) anno_sel)"
proof -
  have "parse_sel_items (querySelectCols @ []) = Some (anno_sel, [])"
    by (rule parse_querySelectCols) simp
  then show ?thesis
    by (simp add: insert_query_def parse_stmt_def parse_insert_def parse_idents_def ident_item_def
        sep_by_more sep_by_last parse_values_def parse_exprs_def parse_conflict_def parse_eqs_def
        eq_item_def parse_returning_def insert_cols_def insert_params_def)
qed

text \<open>The UPDATE of \<open>editAnnotation\<close> (lines 146--152) and the DELETE of
  \<open>deleteAnnotation\<close> (lines 160--164).\<close>

lemma parse_edit_query:
  "parse_stmt ([TKw KUpdate, TId ''kindle_annotations'', TKw KSet,
                TId ''highlight'', TEq, TParam h, TComma, TId ''note'', TEq, TParam n, TComma,
                TId ''edited'', TEq, TKw KTrue, TKw KWhere, TId ''id'', TEq, TParam i, TKw KReturning]
               @ querySelectCols) =
     Some (Update ''kindle_annotations'' [(''highlight'', EParam h), (''note'', EParam n), (''edited'', EBool True)]
             [(''id'', EParam i)] anno_sel)"
proof -
  have "parse_sel_items (querySelectCols @ []) = Some (anno_sel, [])"
    by (rule parse_querySelectCols) simp
  then show ?thesis
    by (simp add: parse_stmt_def parse_update_def parse_eqs_def sep_by_more sep_by_last eq_item_def
        parse_tail_def parse_where_def parse_returning_def)
qed

lemma parse_delete_query:
  "parse_stmt ([TKw KDelete, TKw KFrom, TId ''kindle_annotations'', TKw KWhere,
                TId ''id'', TEq, TParam i, TKw KReturning] @ querySelectCols) =
     Some (Delete ''kindle_annotations'' [(''id'', EParam i)] anno_sel)"
proof -
  have "parse_sel_items (querySelectCols @ []) = Some (anno_sel, [])"
    by (rule parse_querySelectCols) simp
  then show ?thesis
    by (simp add: parse_stmt_def parse_delete_def parse_eqs_def sep_by_last eq_item_def
        parse_tail_def parse_where_def parse_returning_def)
qed

section \<open>Reading the annotation table\<close>

lemma check_sel_anno: "anno_cols t \<Longrightarrow> check_sel t anno_sel = Inr ()"
  by (simp add: anno_cols_def check_sel_def anno_sel_def col_type_def kindle_annotations_table_def)

lemma project_anno: "anno_cols t \<Longrightarrow> project t anno_sel = anno_json"
  unfolding anno_cols_def anno_json_def by (rule project_same_cols)

lemma compile_eqs_anno_int4:
  assumes "anno_cols t" "map_of (tbl_cols kindle_annotations_table) c = Some (CInt4, dflt)"
    "int4_min \<le> i" "i \<le> int4_max"
  shows "compile_eqs t [(c, EParam (JNum i))] = Inr [(c, SInt i)]"
  using assms by (simp add: anno_cols_def compile_eqs_def col_type_def coerce_param_JNum_int4)

lemma select_anno_by_int:
  assumes "catalog d ''kindle_annotations'' = Some t" "anno_cols t"
    "map_of (tbl_cols kindle_annotations_table) c = Some (CInt4, dflt)" "int4_min \<le> i" "i \<le> int4_max"
  shows "db_query (annosSelectQuery @ [TKw KWhere, TId c, TEq, TParam (JNum i)]) d =
           Inr (map anno_json (filter (\<lambda>r. r c = SInt i) (tbl_rows t)), d)"
  using assms
  by (simp add: db_query_parsed [OF parse_select_where] exec_select_def check_sel_anno
      compile_eqs_anno_int4 eval_limit_def limit_rows_def row_matches_single project_anno)

lemma select_anno_by_param:
  assumes "catalog d ''kindle_annotations'' = Some t" "anno_cols t"
    "map_of (tbl_cols kindle_annotations_table) c = Some (ty, dflt)"
  shows "db_query (annosSelectQuery @ [TKw KWhere, TId c, TEq, TParam v]) d =
           (case coerce_param ty v of Inl e \<Rightarrow> Inl e
            | Inr x \<Rightarrow> Inr (map anno_json (filter (\<lambda>r. sql_eq (r c) x) (tbl_rows t)), d))"
  using assms
  by (simp add: db_query_parsed [OF parse_select_where] exec_select_def check_sel_anno anno_cols_def
      compile_eqs_def col_type_def eval_limit_def limit_rows_def row_matches_single project_anno
      split: sum.splits)

lemma getAllAnnotations_default:
  assumes "catalog d ''kindle_annotations'' = Some t" "anno_cols t"
  shows "getAllAnnotations JUndefined d = Inr (map anno_json (take 50 (tbl_rows t)), d)"
  using assms
  by (simp add: getAllAnnotations_def db_query_parsed [OF parse_select_limit] exec_select_def check_sel_anno
      compile_eqs_def eval_limit_def coerce_param_def pg_int_in_int_to_dec pg_int_in_js_number_string limit_rows_def row_matches_def
      project_anno)

lemma getAnnotationByID_text:
  assumes "catalog d ''kindle_annotations'' = Some t" "anno_cols t"
  shows "getAnnotationByID (JStr s) d =
           (case pg_int_in ''integer'' int4_min int4_max s of Inl e \<Rightarrow> Inl e
            | Inr i \<Rightarrow> Inr ((case filter (\<lambda>r. sql_eq (r ''id'') (SInt i)) (tbl_rows t) of
                               [] \<Rightarrow> JNull | r # _ \<Rightarrow> JObj (anno_json r)), d))"
  using assms
  by (auto simp: getAnnotationByID_def select_anno_by_param kindle_annotations_table_def coerce_int4_text
      js_first_def split: sum.splits list.splits)

lemma getMatchingAnnotationID_eval:
  assumes "catalog d ''kindle_annotations'' = Some t" "anno_cols t"
    "int4_min \<le> b" "b \<le> int4_max" "int4_min \<le> e" "e \<le> int4_max"
  shows "getMatchingAnnotationID (JNum b) (JNum e) d =
           Inr ((case filter (\<lambda>r. r ''book_id'' = SInt b \<and> r ''end'' = SInt e) (tbl_rows t) of
                   [] \<Rightarrow> JNull | r # _ \<Rightarrow> js_of_sql CInt4 (r ''id'')), d)"
proof -
  have ce: "compile_eqs t [(''book_id'', EParam (JNum b)), (''end'', EParam (JNum e))] =
              Inr [(''book_id'', SInt b), (''end'', SInt e)]"
    using assms by (simp add: anno_cols_def compile_eqs_def col_type_def coerce_param_JNum_int4
        kindle_annotations_table_def)
  have cs: "check_sel t [SelCol ''id''] = Inr ()"
    using assms by (simp add: anno_cols_def check_sel_def col_type_def kindle_annotations_table_def)
  have rm: "row_matches [(''book_id'', SInt b), (''end'', SInt e)] = (\<lambda>r. r ''book_id'' = SInt b \<and> r ''end'' = SInt e)"
    by (simp add: row_matches_def fun_eq_iff)
  have ty: "type_of_col t ''id'' = CInt4"
    using assms by (simp add: anno_cols_def type_of_col_def kindle_annotations_table_def)
  show ?thesis
    using assms ce cs ty
    by (auto simp: getMatchingAnnotationID_def db_query_parsed [OF parse_match_query] exec_select_def
        eval_limit_def limit_rows_def rm js_first_def project_def js_prop_def js_get_def js_set_def
        split: list.splits)
qed

section \<open>Writing the annotation table\<close>

lemma exec_update_text_by_id:
  assumes t: "catalog d ''kindle_annotations'' = Some t" "anno_cols t" "tbl_unique t = [[''id'']]"
    and u: "unique_ok [[''id'']] (tbl_rows t)"
    and c: "c \<in> {''highlight'', ''note''}"
    and k: "int4_min \<le> k" "k \<le> int4_max"
  shows "exec_update ''kindle_annotations'' [(c, EParam (JStr s))] [(''id'', ENum k)] anno_sel d =
           Inr (map (\<lambda>r. anno_json (r(c := SText s))) (filter (\<lambda>r. r ''id'' = SInt k) (tbl_rows t)),
                put_table d ''kindle_annotations''
                  (t\<lparr>tbl_rows := map (\<lambda>r. if r ''id'' = SInt k then r(c := SText s) else r) (tbl_rows t)\<rparr>))"
proof -
  have ce1: "compile_eqs t [(c, EParam (JStr s))] = Inr [(c, SText s)]"
    using t c by (auto simp: anno_cols_def compile_eqs_def col_type_def kindle_annotations_table_def)
  have ce2: "compile_eqs t [(''id'', ENum k)] = Inr [(''id'', SInt k)]"
    using t k by (simp add: anno_cols_def compile_eqs_def col_type_def kindle_annotations_table_def int_literal_def)
  have keep: "unique_ok [[''id'']] (map (\<lambda>r. if r ''id'' = SInt k then r(c := SText s) else r) (tbl_rows t))"
    using u c by (subst unique_ok_map_keep) auto
  show ?thesis
    using t ce1 ce2 keep
    by (simp add: exec_update_def check_sel_anno row_matches_single apply_sets_single project_anno
        Let_def comp_def cong: if_cong)
qed

lemma anno_inv_unique: "anno_inv t \<Longrightarrow> unique_ok [[''id'']] (tbl_rows t)"
proof -
  assume inv: "anno_inv t"
  then have "filter (\<lambda>r. r ''id'' \<noteq> SNull) (tbl_rows t) = tbl_rows t"
    by (auto simp: anno_inv_def filter_id_conv list_all_iff valid_id_def)
  with inv show ?thesis by (simp add: unique_ok_single_key anno_inv_def)
qed

lemma anno_inv_fresh: "anno_inv t \<Longrightarrow> r \<in> set (tbl_rows t) \<Longrightarrow> r ''id'' \<noteq> SInt (int (tbl_seq t))"
  by (auto simp: anno_inv_def list_all_iff valid_id_def)

lemma anno_inv_same_ids:
  "anno_inv t \<Longrightarrow> map (\<lambda>r. r ''id'') rows = map (\<lambda>r. r ''id'') (tbl_rows t) \<Longrightarrow>
   anno_inv (t\<lparr>tbl_rows := rows\<rparr>)"
  by (simp add: anno_inv_def anno_cols_def)

lemma anno_inv_append:
  assumes "anno_inv t" "int (tbl_seq t) \<le> int4_max" "r ''id'' = SInt (int (tbl_seq t))"
  shows "anno_inv (t\<lparr>tbl_seq := Suc (tbl_seq t), tbl_rows := tbl_rows t @ [r]\<rparr>)"
proof -
  have fresh: "SInt (int (tbl_seq t)) \<notin> (\<lambda>r. r ''id'') ` set (tbl_rows t)"
    using anno_inv_fresh [OF assms(1)] by (metis (no_types, lifting) imageE)
  have old: "list_all (valid_id (Suc (tbl_seq t))) (map (\<lambda>r. r ''id'') (tbl_rows t))"
    using assms(1) by (auto simp: anno_inv_def list_all_iff valid_id_def split: sql_val.splits)
  show ?thesis
    using assms(1,2,3) fresh old by (simp add: anno_inv_def anno_cols_def valid_id_def)
qed

lemma stored_fields_facts:
  assumes cols: "anno_cols t" and f: "stored_fields a b = Inr avs"
  shows "compile_eqs t (zip insert_cols (map EParam (insert_params a b))) = Inr avs"
    "uses_serial t avs" "new_row t avs ''id'' = SInt (int (tbl_seq t))"
proof -
  show ce: "compile_eqs t (zip insert_cols (map EParam (insert_params a b))) = Inr avs"
    using f cols by (simp add: stored_fields_def compile_eqs_def col_type_same_cols [of t kindle_annotations_table] anno_cols_def)
  have "map fst avs = insert_cols"
    using compile_eqs_keys [OF ce] by (simp add: insert_cols_def insert_params_def)
  then have "''id'' \<notin> set (map fst avs)"
    by (simp add: insert_cols_def)
  then have noid: "map_of avs ''id'' = None"
    by (simp add: map_of_eq_None_iff)
  show "uses_serial t avs"
    using cols noid by (simp add: uses_serial_def anno_cols_def kindle_annotations_table_def)
  show "new_row t avs ''id'' = SInt (int (tbl_seq t))"
    using cols noid by (simp add: new_row_def default_value_def anno_cols_def kindle_annotations_table_def)
qed

text \<open>The INSERT of \<open>addAnnotation\<close> on a table that keeps the invariant: the
  proposed row takes the sequence value as id, which no stored row has, so
  ON CONFLICT (id) finds nothing and the row is appended.\<close>

lemma exec_insert_anno:
  assumes t: "catalog d ''kindle_annotations'' = Some t" "anno_inv t" "int (tbl_seq t) \<le> int4_max"
    and f: "stored_fields a b = Inr avs"
  shows "db_query (insert_query a b @ TKw KReturning # querySelectCols) d =
           Inr ([anno_json (new_row t avs)],
                put_table d ''kindle_annotations''
                  (t\<lparr>tbl_seq := Suc (tbl_seq t), tbl_rows := tbl_rows t @ [new_row t avs]\<rparr>))"
proof -
  have cols: "anno_cols t" using t by (simp add: anno_inv_def)
  note facts = stored_fields_facts [OF cols f]
  have ce: "compile_eqs t (zip insert_cols (map EParam (insert_params a b))) = Inr avs"
    and serial: "uses_serial t avs" and newid: "new_row t avs ''id'' = SInt (int (tbl_seq t))"
    using facts by simp_all
  have nocf: "first_index (conflicts_with [''id''] (new_row t avs)) (tbl_rows t) = None"
    using t newid anno_inv_fresh [OF t(2)] by (auto simp: first_index_None conflicts_with_def)
  have fresh: "\<forall>r \<in> set (tbl_rows t). r ''id'' \<noteq> new_row t avs ''id''"
    using anno_inv_fresh [OF t(2)] newid by simp
  have "distinct (map (\<lambda>r. r ''id'') (filter (\<lambda>r. r ''id'' \<noteq> SNull) (tbl_rows t)))"
    using anno_inv_unique [OF t(2)] by (simp add: unique_ok_single_key)
  with fresh newid have uq: "unique_ok [[''id'']] (tbl_rows t @ [new_row t avs])"
    by (auto simp: unique_ok_single_key)
  have pj: "project (t\<lparr>tbl_seq := Suc (tbl_seq t)\<rparr>) anno_sel = anno_json"
    using cols by (simp add: project_anno anno_cols_def)
  have uniq: "tbl_unique t = [[''id'']]"
    using t by (simp add: anno_inv_def)
  show ?thesis
    using t(1,3) cols ce serial nocf uq pj uniq
    by (simp add: db_query_parsed [OF parse_insert_query] exec_insert_def insert_cols_def insert_params_def
        check_sel_anno advance_seq_def insert_conflict_def insert_plain_def Let_def)
qed

text \<open>The INSERT of \<open>addAnnotation\<close> on every input: a field the server
  cannot read at its column's type rejects, an exhausted sequence rejects, and
  otherwise the row is appended.\<close>

lemma insert_query_result:
  assumes t: "catalog d ''kindle_annotations'' = Some t" "anno_inv t"
  shows "db_query (insert_query a b @ TKw KReturning # querySelectCols) d =
           (case stored_fields a b of
              Inl e \<Rightarrow> Inl e
            | Inr avs \<Rightarrow>
                if int4_max < int (tbl_seq t) then Inl SequenceLimitExceeded
                else Inr ([anno_json (new_row t avs)],
                          put_table d ''kindle_annotations''
                            (t\<lparr>tbl_seq := Suc (tbl_seq t), tbl_rows := tbl_rows t @ [new_row t avs]\<rparr>)))"
proof (cases "stored_fields a b")
  case (Inl e)
  have cols: "anno_cols t" using t by (simp add: anno_inv_def)
  have "compile_eqs t (zip insert_cols (map EParam (insert_params a b))) = Inl e"
    using Inl cols by (simp add: stored_fields_def compile_eqs_def col_type_same_cols [of t kindle_annotations_table] anno_cols_def)
  then show ?thesis
    using t(1) cols Inl
    by (simp add: db_query_parsed [OF parse_insert_query] exec_insert_def insert_cols_def insert_params_def check_sel_anno)
next
  case (Inr avs)
  have cols: "anno_cols t" using t by (simp add: anno_inv_def)
  show ?thesis
  proof (cases "int4_max < int (tbl_seq t)")
    case True
    then show ?thesis
      using t(1) cols Inr stored_fields_facts [OF cols Inr]
      by (simp add: db_query_parsed [OF parse_insert_query] exec_insert_def insert_cols_def insert_params_def check_sel_anno)
  next
    case False
    then show ?thesis
      using exec_insert_anno [OF t, of a b avs] Inr by simp
  qed
qed

text \<open>\<open>editAnnotation\<close> with an id in range and text fields: the rows with
  that id updated in place, and the first of them projected.\<close>

lemma editAnnotation_eval:
  assumes t: "catalog d ''kindle_annotations'' = Some t" "anno_cols t" "tbl_unique t = [[''id'']]"
      "unique_ok [[''id'']] (tbl_rows t)"
    and i: "js_get a ''id'' = JNum i" "int4_min \<le> i" "i \<le> int4_max"
    and hn: "coerce_param CText (js_get a ''highlight'') = Inr hv" "coerce_param CText (js_get a ''note'') = Inr nv"
  shows "editAnnotation a d =
           Inr ((case filter (\<lambda>r. r ''id'' = SInt i) (tbl_rows t) of [] \<Rightarrow> JUndefined
                 | r # _ \<Rightarrow> JObj (anno_json (r(''highlight'' := hv, ''note'' := nv, ''edited'' := SBool True)))),
                put_table d ''kindle_annotations''
                  (t\<lparr>tbl_rows := map (\<lambda>r. if r ''id'' = SInt i
                                          then r(''highlight'' := hv, ''note'' := nv, ''edited'' := SBool True) else r)
                                     (tbl_rows t)\<rparr>))"
proof -
  have ce1: "compile_eqs t [(''highlight'', EParam (js_get a ''highlight'')), (''note'', EParam (js_get a ''note'')),
                            (''edited'', EBool True)] = Inr [(''highlight'', hv), (''note'', nv), (''edited'', SBool True)]"
    using t hn by (simp add: anno_cols_def compile_eqs_def col_type_def kindle_annotations_table_def)
  have ce2: "compile_eqs t [(''id'', EParam (JNum i))] = Inr [(''id'', SInt i)]"
    using t i by (simp add: compile_eqs_anno_int4 kindle_annotations_table_def)
  have ap: "apply_sets [(''highlight'', hv), (''note'', nv), (''edited'', SBool True)] r =
            r(''highlight'' := hv, ''note'' := nv, ''edited'' := SBool True)" for r
    by (simp add: apply_sets_def)
  have keep: "unique_ok [[''id'']] (map (\<lambda>r. if r ''id'' = SInt i
                 then r(''highlight'' := hv, ''note'' := nv, ''edited'' := SBool True) else r) (tbl_rows t))"
    using t by (subst unique_ok_map_keep) auto
  show ?thesis
    using t i ce1 ce2 keep unfolding editAnnotation_def db_query_parsed [OF parse_edit_query]
    by (auto simp: exec_update_def check_sel_anno
        row_matches_single ap project_anno Let_def comp_def js_first_def cong: if_cong split: list.splits)
qed

text \<open>\<open>deleteAnnotation\<close> with an id in range: the first deleted row's
  projection (\<open>undefined\<close> when none), and the table without the rows of that id.\<close>

lemma deleteAnnotation_eval:
  assumes t: "catalog d ''kindle_annotations'' = Some t" "anno_cols t"
    and i: "js_get a ''id'' = JNum i" "int4_min \<le> i" "i \<le> int4_max"
  shows "deleteAnnotation a d =
           Inr ((case filter (\<lambda>r. r ''id'' = SInt i) (tbl_rows t) of [] \<Rightarrow> JUndefined | r # _ \<Rightarrow> JObj (anno_json r)),
                put_table d ''kindle_annotations'' (t\<lparr>tbl_rows := filter (\<lambda>r. r ''id'' \<noteq> SInt i) (tbl_rows t)\<rparr>))"
proof -
  have ce: "compile_eqs t [(''id'', EParam (JNum i))] = Inr [(''id'', SInt i)]"
    using t i by (simp add: compile_eqs_anno_int4 kindle_annotations_table_def)
  show ?thesis
    using t i ce unfolding deleteAnnotation_def db_query_parsed [OF parse_delete_query]
    by (auto simp: exec_delete_def check_sel_anno
        row_matches_single project_anno js_first_def split: list.splits)
qed

text \<open>What the projection of an inserted row holds: each field read at its
  column's type, as node-postgres reads it back.\<close>

lemma anno_json_col:
  "c \<in> set [''id'', ''book_id'', ''bookline'', ''title'', ''author'', ''language'', ''begin'', ''end'',
            ''highlight'', ''note'', ''page''] \<Longrightarrow>
   js_get (anno_json r) c = js_of_sql (type_of_col kindle_annotations_table c) (r c)"
  by (auto simp: anno_json_def project_def anno_sel_def js_set_def js_get_def type_of_col_def
      kindle_annotations_table_def)

lemma stored_field:
  assumes "stored_fields a b = Inr avs" "c \<in> set (tl insert_cols)"
  shows "\<exists>v. coerce_param (type_of_col kindle_annotations_table c) (js_get a c) = Inr v \<and> map_of avs c = Some v"
proof -
  have "map_of (zip insert_cols (map EParam (insert_params a b))) c = Some (EParam (js_get a c))"
    using assms(2) by (auto simp: insert_cols_def insert_params_def)
  then show ?thesis
    using compile_eqs_map_of [OF assms(1) [unfolded stored_fields_def]]
    by (force simp: col_type_def type_of_col_def split: option.splits)
qed

lemma stored_field_json:
  assumes "stored_fields a b = Inr avs"
    "c \<in> set (tl insert_cols)" "c \<in> set [''id'', ''book_id'', ''bookline'', ''title'', ''author'', ''language'', ''begin'', ''end'',
            ''highlight'', ''note'', ''page'']"
  shows "map_sum id (js_of_sql (type_of_col kindle_annotations_table c)) (coerce_param (type_of_col kindle_annotations_table c) (js_get a c)) =
           Inr (js_get (anno_json (new_row t avs)) c)"
proof -
  obtain v where "coerce_param (type_of_col kindle_annotations_table c) (js_get a c) = Inr v" "map_of avs c = Some v"
    using stored_field [OF assms(1,2)] by blast
  moreover then have "new_row t avs c = v" by (simp add: new_row_def)
  ultimately show ?thesis using anno_json_col [OF assms(3)] by simp
qed

lemma kindle_col_types:
  "type_of_col kindle_annotations_table ''bookline'' = CText"
  "type_of_col kindle_annotations_table ''title'' = CText"
  "type_of_col kindle_annotations_table ''author'' = CText"
  "type_of_col kindle_annotations_table ''language'' = CText"
  "type_of_col kindle_annotations_table ''highlight'' = CText"
  "type_of_col kindle_annotations_table ''note'' = CText"
  "type_of_col kindle_annotations_table ''begin'' = CInt4"
  "type_of_col kindle_annotations_table ''end'' = CInt4"
  "type_of_col kindle_annotations_table ''page'' = CInt4"
  by (simp_all add: type_of_col_def kindle_annotations_table_def)

lemma stored_json_cols:
  assumes "stored_fields a b = Inr avs"
  shows
  "map_sum id (js_of_sql CText) (coerce_param CText (js_get a ''bookline'')) = Inr (js_get (anno_json (new_row t avs)) ''bookline'')"
  "map_sum id (js_of_sql CText) (coerce_param CText (js_get a ''title'')) = Inr (js_get (anno_json (new_row t avs)) ''title'')"
  "map_sum id (js_of_sql CText) (coerce_param CText (js_get a ''author'')) = Inr (js_get (anno_json (new_row t avs)) ''author'')"
  "map_sum id (js_of_sql CText) (coerce_param CText (js_get a ''language'')) = Inr (js_get (anno_json (new_row t avs)) ''language'')"
  "map_sum id (js_of_sql CText) (coerce_param CText (js_get a ''highlight'')) = Inr (js_get (anno_json (new_row t avs)) ''highlight'')"
  "map_sum id (js_of_sql CText) (coerce_param CText (js_get a ''note'')) = Inr (js_get (anno_json (new_row t avs)) ''note'')"
  "map_sum id (js_of_sql CInt4) (coerce_param CInt4 (js_get a ''begin'')) = Inr (js_get (anno_json (new_row t avs)) ''begin'')"
  "map_sum id (js_of_sql CInt4) (coerce_param CInt4 (js_get a ''end'')) = Inr (js_get (anno_json (new_row t avs)) ''end'')"
  "map_sum id (js_of_sql CInt4) (coerce_param CInt4 (js_get a ''page'')) = Inr (js_get (anno_json (new_row t avs)) ''page'')"
  using stored_field_json [OF assms, of "''bookline''" t] stored_field_json [OF assms, of "''title''" t] stored_field_json [OF assms, of "''author''" t] stored_field_json [OF assms, of "''language''" t] stored_field_json [OF assms, of "''highlight''" t] stored_field_json [OF assms, of "''note''" t] stored_field_json [OF assms, of "''begin''" t] stored_field_json [OF assms, of "''end''" t] stored_field_json [OF assms, of "''page''" t]
  by (simp_all add: kindle_col_types insert_cols_def)

text \<open>The lookups of the examples.\<close>

lemma example_lookups:
  "resolve_book (JStr ''Foo'') example_db = Inr (JNum 1, example_db)"
  "getMatchingAnnotationID (JNum 1) (JNum 20) example_db = Inr (JNum 1, example_db)"
  "getMatchingAnnotationID (JNum 1) (JNum 30) example_db = Inr (JNull, example_db)"
  by (simp_all add: resolve_book_def getBookID_result getMatchingAnnotationID_eval example_db_def
      put_table_def book_cols_def example_book_def anno_cols_def example_table_def example_row_def)

lemma example_table_facts:
  "catalog example_db ''kindle_annotations'' = Some example_table" "anno_cols example_table"
  "tbl_unique example_table = [[''id'']]" "unique_ok [[''id'']] (tbl_rows example_table)"
  "anno_inv example_table"
  by (simp_all add: example_db_def put_table_def anno_cols_def example_table_def
      kindle_annotations_table_def unique_ok_def example_row_def anno_inv_def valid_id_def)

lemma stored_fields_int_cols:
  assumes f: "stored_fields a (JNum bk) = Inr avs" and bk: "int4_min \<le> bk" "bk \<le> int4_max"
    and e: "js_get a ''end'' = JNum en" "int4_min \<le> en" "en \<le> int4_max"
  shows "new_row t avs ''book_id'' = SInt bk" "new_row t avs ''end'' = SInt en"
proof -
  have f': "compile_eqs kindle_annotations_table (zip insert_cols (map EParam (insert_params a (JNum bk)))) = Inr avs"
    using f by (simp add: stored_fields_def)
  have "map_of (zip insert_cols (map EParam (insert_params a (JNum bk)))) ''book_id'' = Some (EParam (JNum bk))"
    "map_of (zip insert_cols (map EParam (insert_params a (JNum bk)))) ''end'' = Some (EParam (JNum en))"
    using e(1) by (simp_all add: insert_cols_def insert_params_def)
  from this [THEN compile_eqs_map_of [OF f']]
  have "map_of avs ''book_id'' = Some (SInt bk)" "map_of avs ''end'' = Some (SInt en)"
    using bk e(2,3) by (auto simp: col_type_def kindle_annotations_table_def coerce_param_JNum_int4)
  then show "new_row t avs ''book_id'' = SInt bk" "new_row t avs ''end'' = SInt en"
    by (simp_all add: new_row_def)
qed

text \<open>The stored fields of a highlight \<open>h\<close> on book \<open>Foo\<close> at location 30.\<close>

abbreviation reimport_fields :: "(string \<times> sql_val) list" where
  "reimport_fields \<equiv> [(''book_id'', SInt 1), (''bookline'', SNull), (''title'', SText ''Foo''), (''author'', SNull),
                      (''language'', SNull), (''begin'', SNull), (''end'', SInt 30), (''time'', SNull),
                      (''highlight'', SText ''h''), (''note'', SNull), (''statusline'', SNull), (''page'', SNull),
                      (''ordernr'', SNull)]"

section \<open>Claims\<close>

text \<open>Claim C1.  When \<open>addAnnotation\<close> has resolved the book and found a stored annotation
  with the same book and end location, and the input has both a highlight and a
  note, the UPDATE it sends has no comma between its two assignments, so the
  server rejects it with a syntax error and the call rejects.\<close>

theorem addAnnotation_match_both_fields_rejected:
  assumes "resolve_book (js_get a ''title'') d = Inr (b, d1)"
    "getMatchingAnnotationID b (js_get a ''end'') d1 = Inr (JNum k, d2)" "k \<noteq> 0"
    "js_truthy (js_get a ''highlight'')" "js_truthy (js_get a ''note'')"
  shows "addAnnotation a d = Inl SyntaxError"
  using assms by (simp add: addAnnotation_def add_write_query_def parse_update_match db_query_unparsed)

theorem addAnnotation_match_both_fields_rejected_witness:
  "addAnnotation [(''title'', JStr ''Foo''), (''end'', JNum 20), (''highlight'', JStr ''hi2''),
                  (''note'', JStr ''n'')] example_db = Inl SyntaxError"
proof -
  let ?a = "[(''title'', JStr ''Foo''), (''end'', JNum 20), (''highlight'', JStr ''hi2''), (''note'', JStr ''n'')]"
  have "resolve_book (js_get ?a ''title'') example_db = Inr (JNum 1, example_db)"
    "getMatchingAnnotationID (JNum 1) (js_get ?a ''end'') example_db = Inr (JNum 1, example_db)"
    using example_lookups by (simp_all add: js_get_def)
  from addAnnotation_match_both_fields_rejected [OF this(1) this(2)]
  show ?thesis by (simp add: js_get_def)
qed

text \<open>Claim C2.  The UPDATE text that \<open>addAnnotation\<close> builds on a match is a
  statement the server accepts exactly when one of highlight and note is truthy:
  with neither, SET is followed by WHERE; with both, the assignments are not
  separated by a comma.\<close>

theorem update_match_query_accepted_iff:
  "parse_stmt (update_match_query h n (JNum k) @ TKw KReturning # querySelectCols) \<noteq> None \<longleftrightarrow>
     js_truthy h \<noteq> js_truthy n"
  by (simp add: parse_update_match)

text \<open>Claim C3.  When \<open>addAnnotation\<close> finds the book and a matching annotation
  with id \<open>k\<close>, and the input has a highlight and no note, the call updates the
  highlight of the rows with id \<open>k\<close> in place, keeps every other row and field,
  and resolves to the projection of the updated row.\<close>

theorem addAnnotation_match_updates_highlight:
  assumes look: "resolve_book (js_get a ''title'') d = Inr (b, d)"
    and match: "getMatchingAnnotationID b (js_get a ''end'') d = Inr (JNum k, d)" "k \<noteq> 0"
      "int4_min \<le> k" "k \<le> int4_max"
    and fields: "js_get a ''highlight'' = JStr s" "s \<noteq> []" "\<not> js_truthy (js_get a ''note'')"
    and t: "catalog d ''kindle_annotations'' = Some t" "anno_cols t" "tbl_unique t = [[''id'']]"
      "unique_ok [[''id'']] (tbl_rows t)"
  shows "addAnnotation a d =
           Inr ((case filter (\<lambda>r. r ''id'' = SInt k) (tbl_rows t) of
                   [] \<Rightarrow> JUndefined | r # _ \<Rightarrow> JObj (anno_json (r(''highlight'' := SText s)))),
                put_table d ''kindle_annotations''
                  (t\<lparr>tbl_rows := map (\<lambda>r. if r ''id'' = SInt k then r(''highlight'' := SText s) else r) (tbl_rows t)\<rparr>))"
  using assms
  by (auto simp: addAnnotation_def add_write_query_def parse_update_match db_query_parsed exec_update_text_by_id
      js_first_def split: list.splits)

theorem addAnnotation_match_updates_highlight_witness:
  "addAnnotation [(''title'', JStr ''Foo''), (''end'', JNum 20), (''highlight'', JStr ''hi2'')] example_db =
     Inr (JObj (anno_json (example_row(''highlight'' := SText ''hi2''))),
          put_table example_db ''kindle_annotations''
            (example_table\<lparr>tbl_rows := [example_row(''highlight'' := SText ''hi2'')]\<rparr>))"
proof -
  let ?a = "[(''title'', JStr ''Foo''), (''end'', JNum 20), (''highlight'', JStr ''hi2'')]"
  have "resolve_book (js_get ?a ''title'') example_db = Inr (JNum 1, example_db)"
    "getMatchingAnnotationID (JNum 1) (js_get ?a ''end'') example_db = Inr (JNum 1, example_db)"
    using example_lookups by (simp_all add: js_get_def)
  from addAnnotation_match_updates_highlight [OF this(1) this(2) _ _ _ _ _ _ example_table_facts(1-4)]
  show ?thesis
    by (simp add: js_get_def example_table_def example_row_def)
qed

text \<open>Claim C4.  \<open>getAnnotationByID\<close> with an id in the range of the
  \<open>integer\<close> column resolves to the projection of the first stored row with that
  id, or to \<open>null\<close> when there is none, and leaves the database unchanged.\<close>

theorem getAnnotationByID_result:
  assumes "catalog d ''kindle_annotations'' = Some t" "anno_cols t" "int4_min \<le> i" "i \<le> int4_max"
  shows "getAnnotationByID (JNum i) d =
           Inr ((case filter (\<lambda>r. r ''id'' = SInt i) (tbl_rows t) of [] \<Rightarrow> JNull | r # _ \<Rightarrow> JObj (anno_json r)), d)"
  using assms
  by (auto simp: getAnnotationByID_def select_anno_by_int kindle_annotations_table_def js_first_def
      split: list.splits)

theorem getAnnotationByID_result_witness:
  "getAnnotationByID (JNum 1) example_db = Inr (JObj (anno_json example_row), example_db)"
  using getAnnotationByID_result [OF example_table_facts(1,2), of 1]
  by (simp add: example_table_def example_row_def)

text \<open>Claim C5.  When \<open>addAnnotation\<close> finds no stored annotation with the
  book and end location of the input, and the server reads every field of the
  input at its column's type, the call appends one row whose id is the serial
  sequence's value, whose other columns hold the values read (the defaults
  elsewhere), advances the sequence, and resolves to the row's projection.\<close>

theorem addAnnotation_no_match_inserts:
  assumes "resolve_book (js_get a ''title'') d = Inr (b, d1)"
    "getMatchingAnnotationID b (js_get a ''end'') d1 = Inr (m, d2)" "\<not> js_truthy m"
    "catalog d2 ''kindle_annotations'' = Some t" "anno_inv t" "int (tbl_seq t) \<le> int4_max"
    "stored_fields a b = Inr avs"
  shows "addAnnotation a d =
           Inr (JObj (anno_json (new_row t avs)),
                put_table d2 ''kindle_annotations''
                  (t\<lparr>tbl_seq := Suc (tbl_seq t), tbl_rows := tbl_rows t @ [new_row t avs]\<rparr>))"
  using assms by (simp add: addAnnotation_def add_write_query_def exec_insert_anno js_first_def)

theorem addAnnotation_no_match_inserts_witness:
  "addAnnotation [(''title'', JStr ''Foo''), (''begin'', JNum 25), (''end'', JNum 30), (''note'', JStr ''n'')] example_db =
     Inr (JObj (anno_json (new_row example_table
                  [(''book_id'', SInt 1), (''bookline'', SNull), (''title'', SText ''Foo''), (''author'', SNull),
                   (''language'', SNull), (''begin'', SInt 25), (''end'', SInt 30), (''time'', SNull),
                   (''highlight'', SNull), (''note'', SText ''n''), (''statusline'', SNull), (''page'', SNull),
                   (''ordernr'', SNull)])),
          put_table example_db ''kindle_annotations''
            (example_table\<lparr>tbl_seq := 3, tbl_rows := [example_row, new_row example_table
                  [(''book_id'', SInt 1), (''bookline'', SNull), (''title'', SText ''Foo''), (''author'', SNull),
                   (''language'', SNull), (''begin'', SInt 25), (''end'', SInt 30), (''time'', SNull),
                   (''highlight'', SNull), (''note'', SText ''n''), (''statusline'', SNull), (''page'', SNull),
                   (''ordernr'', SNull)]]\<rparr>))"
proof -
  let ?a = "[(''title'', JStr ''Foo''), (''begin'', JNum 25), (''end'', JNum 30), (''note'', JStr ''n'')]"
  have "resolve_book (js_get ?a ''title'') example_db = Inr (JNum 1, example_db)"
    "getMatchingAnnotationID (JNum 1) (js_get ?a ''end'') example_db = Inr (JNull, example_db)"
    using example_lookups by (simp_all add: js_get_def)
  moreover have "stored_fields ?a (JNum 1) = Inr
                  [(''book_id'', SInt 1), (''bookline'', SNull), (''title'', SText ''Foo''), (''author'', SNull),
                   (''language'', SNull), (''begin'', SInt 25), (''end'', SInt 30), (''time'', SNull),
                   (''highlight'', SNull), (''note'', SText ''n''), (''statusline'', SNull), (''page'', SNull),
                   (''ordernr'', SNull)]"
    by (simp add: stored_fields_def insert_cols_def insert_params_def compile_eqs_def col_type_def
        kindle_annotations_table_def js_get_def coerce_param_JNum_int4)
  ultimately show ?thesis
    using addAnnotation_no_match_inserts [of ?a example_db "JNum 1" example_db JNull example_db example_table]
      example_table_facts
    by (simp add: example_table_def)
qed

text \<open>Claim C6.  \<open>editAnnotation\<close> with an id in the range of the \<open>integer\<close>
  column, and a highlight and note the server reads as text, sets highlight, note
  and \<open>edited = TRUE\<close> on the rows with that id, leaves every other row as it
  was, and resolves to the projection of the first updated row (\<open>undefined\<close>
  when no row has the id).\<close>

theorem editAnnotation_updates_row:
  assumes t: "catalog d ''kindle_annotations'' = Some t" "anno_cols t" "tbl_unique t = [[''id'']]"
      "unique_ok [[''id'']] (tbl_rows t)"
    and i: "js_get a ''id'' = JNum i" "int4_min \<le> i" "i \<le> int4_max"
    and hn: "coerce_param CText (js_get a ''highlight'') = Inr hv" "coerce_param CText (js_get a ''note'') = Inr nv"
  shows "editAnnotation a d =
           Inr ((case filter (\<lambda>r. r ''id'' = SInt i) (tbl_rows t) of [] \<Rightarrow> JUndefined
                 | r # _ \<Rightarrow> JObj (anno_json (r(''highlight'' := hv, ''note'' := nv, ''edited'' := SBool True)))),
                put_table d ''kindle_annotations''
                  (t\<lparr>tbl_rows := map (\<lambda>r. if r ''id'' = SInt i
                                          then r(''highlight'' := hv, ''note'' := nv, ''edited'' := SBool True) else r)
                                     (tbl_rows t)\<rparr>))"
  using editAnnotation_eval [OF t i hn] .

theorem editAnnotation_updates_row_witness:
  "editAnnotation [(''id'', JNum 1), (''highlight'', JStr ''H''), (''note'', JStr ''N'')] example_db =
     Inr (JObj (anno_json (example_row(''highlight'' := SText ''H'', ''note'' := SText ''N'', ''edited'' := SBool True))),
          put_table example_db ''kindle_annotations''
            (example_table\<lparr>tbl_rows :=
               [example_row(''highlight'' := SText ''H'', ''note'' := SText ''N'', ''edited'' := SBool True)]\<rparr>))"
  using editAnnotation_updates_row [OF example_table_facts(1-4),
      of "[(''id'', JNum 1), (''highlight'', JStr ''H''), (''note'', JStr ''N'')]" 1 "SText ''H''" "SText ''N''"]
  by (simp add: js_get_def example_table_def example_row_def)

text \<open>Claim C7.  After \<open>deleteAnnotation\<close> with an id in the range of the
  \<open>integer\<close> column resolves, \<open>getAnnotationByID\<close> with that id resolves to
  \<open>null\<close>: no row with the id is left.\<close>

theorem deleteAnnotation_then_get_null:
  assumes t: "catalog d ''kindle_annotations'' = Some t" "anno_cols t"
    and i: "js_get a ''id'' = JNum i" "int4_min \<le> i" "i \<le> int4_max"
    and del: "deleteAnnotation a d = Inr (v, d')"
  shows "getAnnotationByID (JNum i) d' = Inr (JNull, d')"
proof -
  let ?t' = "t\<lparr>tbl_rows := filter (\<lambda>r. r ''id'' \<noteq> SInt i) (tbl_rows t)\<rparr>"
  have d': "d' = put_table d ''kindle_annotations'' ?t'"
    using deleteAnnotation_eval [OF t i] del by simp
  have "catalog d' ''kindle_annotations'' = Some ?t'" "anno_cols ?t'"
    using d' t by (simp_all add: put_table_def anno_cols_def)
  moreover have "filter (\<lambda>r. r ''id'' = SInt i) (tbl_rows ?t') = []"
    by (simp add: filter_empty_iff_not_ex)
  ultimately show ?thesis
    using i by (simp add: getAnnotationByID_def select_anno_by_int kindle_annotations_table_def js_first_def)
qed

theorem deleteAnnotation_then_get_null_witness:
  "deleteAnnotation [(''id'', JNum 1)] example_db =
     Inr (JObj (anno_json example_row), put_table example_db ''kindle_annotations'' (example_table\<lparr>tbl_rows := []\<rparr>)) \<and>
   getAnnotationByID (JNum 1) (put_table example_db ''kindle_annotations'' (example_table\<lparr>tbl_rows := []\<rparr>)) =
     Inr (JNull, put_table example_db ''kindle_annotations'' (example_table\<lparr>tbl_rows := []\<rparr>))"
proof -
  have del: "deleteAnnotation [(''id'', JNum 1)] example_db =
     Inr (JObj (anno_json example_row), put_table example_db ''kindle_annotations'' (example_table\<lparr>tbl_rows := []\<rparr>))"
    using deleteAnnotation_eval [OF example_table_facts(1,2), of "[(''id'', JNum 1)]" 1]
    by (simp add: js_get_def example_table_def example_row_def)
  show ?thesis
    using del deleteAnnotation_then_get_null [OF example_table_facts(1,2), of "[(''id'', JNum 1)]" 1, OF _ _ _ del]
    by (simp add: js_get_def)
qed

text \<open>Claim C19.  The row the INSERT of \<open>addAnnotation\<close> proposes, read back
  through \<open>querySelectCols\<close>, returns every text field of the input that is a
  string (bookline, title, author, language, highlight, note) and every integer
  field that is a number (begin, end, page) unchanged.\<close>

theorem insert_fields_roundtrip:
  assumes "stored_fields a b = Inr avs"
  shows "(\<forall>c \<in> set [''bookline'', ''title'', ''author'', ''language'', ''highlight'', ''note''].
            \<forall>s. js_get a c = JStr s \<longrightarrow> js_get (anno_json (new_row t avs)) c = JStr s) \<and>
         (\<forall>c \<in> set [''begin'', ''end'', ''page''].
            \<forall>i. js_get a c = JNum i \<longrightarrow> js_get (anno_json (new_row t avs)) c = JNum i)"
proof -
  have int_case: "coerce_param CInt4 (JNum i) =
      (if int4_min \<le> i \<and> i \<le> int4_max then Inr (SInt i)
       else Inl (if 10 ^ 21 \<le> \<bar>i\<bar> then InvalidTextRepresentation ''integer'' (js_number_string i)
                 else NumericValueOutOfRange ''integer''))" for i
    by (auto simp: coerce_param_def pg_int_in_js_number_string simp del: js_number_string_small)
  note cols = stored_json_cols [OF assms, of t]
  show ?thesis
  proof (intro conjI ballI allI impI)
    fix c s assume "c \<in> set [''bookline'', ''title'', ''author'', ''language'', ''highlight'', ''note'']" "js_get a c = JStr s"
    then show "js_get (anno_json (new_row t avs)) c = JStr s"
      using cols(1-6) by auto
  next
    fix c i assume "c \<in> set [''begin'', ''end'', ''page'']" "js_get a c = JNum i"
    then show "js_get (anno_json (new_row t avs)) c = JNum i"
      using cols(7-9) by (auto simp: int_case split: if_splits)
  qed
qed

theorem insert_fields_roundtrip_witness:
  "stored_fields [(''title'', JStr ''Foo''), (''begin'', JNum 25), (''end'', JNum 30), (''note'', JStr ''n'')] (JNum 1) =
     Inr [(''book_id'', SInt 1), (''bookline'', SNull), (''title'', SText ''Foo''), (''author'', SNull),
          (''language'', SNull), (''begin'', SInt 25), (''end'', SInt 30), (''time'', SNull),
          (''highlight'', SNull), (''note'', SText ''n''), (''statusline'', SNull), (''page'', SNull),
          (''ordernr'', SNull)] \<and>
   js_get (anno_json (new_row example_table
     [(''book_id'', SInt 1), (''bookline'', SNull), (''title'', SText ''Foo''), (''author'', SNull),
      (''language'', SNull), (''begin'', SInt 25), (''end'', SInt 30), (''time'', SNull),
      (''highlight'', SNull), (''note'', SText ''n''), (''statusline'', SNull), (''page'', SNull),
      (''ordernr'', SNull)])) ''begin'' = JNum 25"
proof -
  have f: "stored_fields [(''title'', JStr ''Foo''), (''begin'', JNum 25), (''end'', JNum 30), (''note'', JStr ''n'')] (JNum 1) =
     Inr [(''book_id'', SInt 1), (''bookline'', SNull), (''title'', SText ''Foo''), (''author'', SNull),
          (''language'', SNull), (''begin'', SInt 25), (''end'', SInt 30), (''time'', SNull),
          (''highlight'', SNull), (''note'', SText ''n''), (''statusline'', SNull), (''page'', SNull),
          (''ordernr'', SNull)]"
    by (simp add: stored_fields_def insert_cols_def insert_params_def compile_eqs_def col_type_def
        kindle_annotations_table_def js_get_def coerce_param_JNum_int4)
  show ?thesis
    using f insert_fields_roundtrip [OF f, of example_table] by (simp add: js_get_def)
qed

text \<open>Claim C22.  \<open>addCalibreAnnotation\<close> stores the text of a Calibre
  annotation in the column that its \<open>kind\<close> names: when the call inserts
  (no stored annotation matches the book and end location), the returned row's
  highlight is the text if the kind is \<open>'highlight'\<close> and NULL otherwise,
  and its note is the text if the kind is \<open>'note'\<close> and NULL otherwise,
  whatever highlight or note the input carried.\<close>

theorem addCalibreAnnotation_kind_fields:
  assumes "resolve_book (js_get c ''title'') d = Inr (b, d1)"
    "getMatchingAnnotationID b (js_get c ''end'') d1 = Inr (m, d2)" "\<not> js_truthy m"
    "catalog d2 ''kindle_annotations'' = Some t" "anno_inv t" "int (tbl_seq t) \<le> int4_max"
    "stored_fields (calibre_object c) b = Inr avs" "js_get c ''text'' = JStr s"
  shows "\<exists>obj d'. addCalibreAnnotation c d = Inr (JObj obj, d') \<and>
           js_get obj ''highlight'' = (if js_get c ''kind'' = JStr ''highlight'' then JStr s else JNull) \<and>
           js_get obj ''note'' = (if js_get c ''kind'' = JStr ''note'' then JStr s else JNull)"
proof -
  have get: "js_get (calibre_object c) ''title'' = js_get c ''title''"
    "js_get (calibre_object c) ''end'' = js_get c ''end''"
    "js_get (calibre_object c) ''highlight'' = (if js_get c ''kind'' = JStr ''highlight'' then JStr s else JNull)"
    "js_get (calibre_object c) ''note'' = (if js_get c ''kind'' = JStr ''note'' then JStr s else JNull)"
    using assms(8) by (simp_all add: calibre_object_def Let_def js_get_set)
  have run: "addCalibreAnnotation c d =
      Inr (JObj (anno_json (new_row t avs)),
           put_table d2 ''kindle_annotations''
             (t\<lparr>tbl_seq := Suc (tbl_seq t), tbl_rows := tbl_rows t @ [new_row t avs]\<rparr>))"
    using assms get by (simp add: addCalibreAnnotation_def addAnnotation_def add_write_query_def
        exec_insert_anno js_first_def)
  have "js_get (anno_json (new_row t avs)) ''highlight'' = (if js_get c ''kind'' = JStr ''highlight'' then JStr s else JNull)"
    "js_get (anno_json (new_row t avs)) ''note'' = (if js_get c ''kind'' = JStr ''note'' then JStr s else JNull)"
    using stored_json_cols(5,6) [OF assms(7), of t] get
    by (simp_all add: coerce_param_JStr_text coerce_param_null split: if_splits)
  with run show ?thesis by blast
qed

theorem addCalibreAnnotation_kind_fields_witness:
  "\<exists>obj d'. addCalibreAnnotation [(''title'', JStr ''Foo''), (''end'', JNum 30), (''kind'', JStr ''highlight''),
                                   (''text'', JStr ''t''), (''note'', JStr ''old'')] example_db = Inr (JObj obj, d') \<and>
           js_get obj ''highlight'' = JStr ''t'' \<and> js_get obj ''note'' = JNull"
proof -
  let ?c = "[(''title'', JStr ''Foo''), (''end'', JNum 30), (''kind'', JStr ''highlight''),
             (''text'', JStr ''t''), (''note'', JStr ''old'')]"
  let ?avs = "[(''book_id'', SInt 1), (''bookline'', SNull), (''title'', SText ''Foo''), (''author'', SNull),
               (''language'', SNull), (''begin'', SNull), (''end'', SInt 30), (''time'', SNull),
               (''highlight'', SText ''t''), (''note'', SNull), (''statusline'', SNull), (''page'', SNull),
               (''ordernr'', SNull)]"
  have "resolve_book (js_get ?c ''title'') example_db = Inr (JNum 1, example_db)"
    "getMatchingAnnotationID (JNum 1) (js_get ?c ''end'') example_db = Inr (JNull, example_db)"
    using example_lookups by (simp_all add: js_get_def)
  moreover have "stored_fields (calibre_object ?c) (JNum 1) = Inr ?avs"
    by (simp add: calibre_object_def js_set_def stored_fields_def insert_cols_def insert_params_def compile_eqs_def
        col_type_def kindle_annotations_table_def js_get_def coerce_param_JNum_int4)
  ultimately show ?thesis
    using addCalibreAnnotation_kind_fields [of ?c example_db "JNum 1" example_db JNull example_db example_table ?avs "''t''"]
      example_table_facts
    by (simp add: example_table_def js_get_def)
qed

text \<open>Claim C24.  \<open>getAllAnnotations(limit = 50)\<close> sends the limit as a
  \<open>bigint\<close> parameter: the default replaces only \<open>undefined\<close>, so an explicit
  \<open>null\<close> is \<open>LIMIT NULL\<close> and returns every annotation; a number of at
  least \<open>10^21\<close> is sent in exponential notation, which is not integer text;
  any other number outside the 64-bit range rejects as out of range, a
  negative one rejects with the server's invalid-row-count error, and any
  other number \<open>n\<close> returns the first \<open>n\<close> annotations in storage order.\<close>

theorem getAllAnnotations_limit:
  assumes "catalog d ''kindle_annotations'' = Some t" "anno_cols t"
  shows "getAllAnnotations JNull d = Inr (map anno_json (tbl_rows t), d) \<and>
         getAllAnnotations (JNum n) d =
           (if 10 ^ 21 \<le> \<bar>n\<bar> then Inl (InvalidTextRepresentation ''bigint'' (js_number_string n))
            else if n < int8_min \<or> int8_max < n then Inl (NumericValueOutOfRange ''bigint'')
            else if n < 0 then Inl InvalidRowCountInLimit
            else Inr (map anno_json (take (nat n) (tbl_rows t)), d))"
  using assms
  by (simp add: getAllAnnotations_def db_query_parsed [OF parse_select_limit] exec_select_def check_sel_anno
      compile_eqs_def eval_limit_def coerce_param_def pg_int_in_js_number_string limit_rows_def row_matches_def
      project_anno del: js_number_string_small)

theorem getAllAnnotations_limit_witness:
  "getAllAnnotations JNull example_db = Inr ([anno_json example_row], example_db) \<and>
   getAllAnnotations (JNum (-1)) example_db = Inl InvalidRowCountInLimit \<and>
   getAllAnnotations (JNum 0) example_db = Inr ([], example_db) \<and>
   getAllAnnotations (JNum (10 ^ 21)) example_db = Inl (InvalidTextRepresentation ''bigint'' ''1e+21'')"
proof -
  have "js_number_string (10 ^ 21) = ''1e+21''"
    by (simp add: js_number_string_def js_exp_string_def nat_digits.simps)
  then show ?thesis
    using getAllAnnotations_limit [OF example_table_facts(1,2), of "-1"]
      getAllAnnotations_limit [OF example_table_facts(1,2), of 0]
      getAllAnnotations_limit [OF example_table_facts(1,2), of "10 ^ 21"]
    by (simp add: example_table_def)
qed

text \<open>Claim C26.  At the end of the serial sequence: when the next id would
  pass the largest \<open>integer\<close> (2147483647), an \<open>addAnnotation\<close> that finds no
  match rejects with the sequence's limit error instead of inserting, however
  well-formed its fields; the store invariant allows this state, one past the
  last id.\<close>

theorem addAnnotation_sequence_exhausted:
  assumes "resolve_book (js_get a ''title'') d = Inr (b, d1)"
    "getMatchingAnnotationID b (js_get a ''end'') d1 = Inr (m, d2)" "\<not> js_truthy m"
    "catalog d2 ''kindle_annotations'' = Some t" "anno_inv t" "int4_max < int (tbl_seq t)"
    "stored_fields a b = Inr avs"
  shows "addAnnotation a d = Inl SequenceLimitExceeded"
  using assms insert_query_result [OF assms(4,5), of a b]
  by (simp add: addAnnotation_def add_write_query_def)

theorem addAnnotation_sequence_exhausted_witness:
  "addAnnotation [(''title'', JStr ''Foo''), (''end'', JNum 30)]
     (put_table example_db ''kindle_annotations'' (example_table\<lparr>tbl_seq := 2147483648\<rparr>)) =
   Inl SequenceLimitExceeded"
proof -
  let ?a = "[(''title'', JStr ''Foo''), (''end'', JNum 30)]"
  let ?t = "example_table\<lparr>tbl_seq := 2147483648\<rparr>"
  let ?d = "put_table example_db ''kindle_annotations'' ?t"
  have cat: "catalog ?d ''kindle_annotations'' = Some ?t"
    "catalog ?d ''books'' = Some (books_table\<lparr>tbl_seq := 2, tbl_rows := [example_book]\<rparr>)"
    by (simp_all add: put_table_def example_db_def)
  have inv: "anno_inv ?t"
    using example_table_facts(5) by (simp add: anno_inv_def anno_cols_def example_table_def example_row_def valid_id_def)
  have cols: "anno_cols ?t" using inv by (simp add: anno_inv_def)
  have rb: "resolve_book (js_get ?a ''title'') ?d = Inr (JNum 1, ?d)"
    using getBookID_result [OF cat(2)]
    by (simp add: resolve_book_def js_get_def book_cols_def example_book_def)
  have gm: "getMatchingAnnotationID (JNum 1) (js_get ?a ''end'') ?d = Inr (JNull, ?d)"
    using getMatchingAnnotationID_eval [OF cat(1) cols, of 1 30]
    by (simp add: js_get_def example_table_def example_row_def)
  have sf: "stored_fields ?a (JNum 1) = Inr
              [(''book_id'', SInt 1), (''bookline'', SNull), (''title'', SText ''Foo''), (''author'', SNull),
               (''language'', SNull), (''begin'', SNull), (''end'', SInt 30), (''time'', SNull),
               (''highlight'', SNull), (''note'', SNull), (''statusline'', SNull), (''page'', SNull),
               (''ordernr'', SNull)]"
    by (simp add: stored_fields_def insert_cols_def insert_params_def compile_eqs_def col_type_def
        kindle_annotations_table_def js_get_def coerce_param_JNum_int4)
  show ?thesis
    using addAnnotation_sequence_exhausted [OF rb gm _ cat(1) inv _ sf] by simp
qed


text \<open>Claim C28.  Re-importing an annotation one call after the other does
  not duplicate it: the match query of the second call finds the row the first
  inserted, and the second call updates that row.  For an input with a
  highlight and no note, on an existing book, with an end location where the
  table has no annotation, two calls of \<open>addAnnotation\<close> in sequence leave
  the table with one row more, the first call's row, and that row is the only
  one with the book and end location.\<close>

theorem sequential_reimport_updates:
  assumes books: "catalog d ''books'' = Some bt" "book_cols bt"
    and title: "js_get a ''title'' = JStr ti" "getBookID (JStr ti) d = Inr (JNum bk, d)" "bk \<noteq> 0"
      "int4_min \<le> bk" "bk \<le> int4_max"
    and en: "js_get a ''end'' = JNum e" "int4_min \<le> e" "e \<le> int4_max"
    and hl: "js_get a ''highlight'' = JStr s" "s \<noteq> []" "\<not> js_truthy (js_get a ''note'')"
    and fields: "stored_fields a (JNum bk) = Inr fs"
    and tbl: "catalog d ''kindle_annotations'' = Some t" "anno_inv t" "int (tbl_seq t) \<le> int4_max"
    and none: "filter (\<lambda>r. r ''book_id'' = SInt bk \<and> r ''end'' = SInt e) (tbl_rows t) = []"
  shows "\<exists>v d2 t2. st_bind (addAnnotation a) (\<lambda>_. addAnnotation a) d = Inr (v, d2) \<and>
           catalog d2 ''kindle_annotations'' = Some t2 \<and>
           map (\<lambda>r. r ''id'') (tbl_rows t2) = map (\<lambda>r. r ''id'') (tbl_rows t) @ [SInt (int (tbl_seq t))] \<and>
           filter (\<lambda>r. r ''book_id'' = SInt bk \<and> r ''end'' = SInt e) (tbl_rows t2) =
             [(new_row t fs)(''highlight'' := SText s)]"
proof -
  define t1 where "t1 = t\<lparr>tbl_seq := Suc (tbl_seq t), tbl_rows := tbl_rows t @ [new_row t fs]\<rparr>"
  define d1 where "d1 = put_table d ''kindle_annotations'' t1"
  let ?k = "int (tbl_seq t)"
  let ?upd = "\<lambda>r. if r ''id'' = SInt ?k then r(''highlight'' := SText s) else r"
  define t2 where "t2 = t1\<lparr>tbl_rows := map ?upd (tbl_rows t1)\<rparr>"
  have cols: "anno_cols t" using tbl(2) by (simp add: anno_inv_def)
  have id1: "new_row t fs ''id'' = SInt ?k" using stored_fields_facts(3) [OF cols fields] .
  have inv1: "anno_inv t1" unfolding t1_def by (rule anno_inv_append [OF tbl(2,3), of "new_row t fs", OF id1])
  have nb: "new_row t fs ''book_id'' = SInt bk" "new_row t fs ''end'' = SInt e"
    using stored_fields_int_cols [OF fields title(4,5) en] .
  have fresh: "r ''id'' \<noteq> SInt ?k" if "r \<in> set (tbl_rows t)" for r
    using anno_inv_fresh [OF tbl(2) that] .
  have k: "int4_min \<le> ?k" "?k \<le> int4_max" "?k \<noteq> 0" using tbl(2,3) by (auto simp: anno_inv_def)
  have cat1: "catalog d1 ''kindle_annotations'' = Some t1" "catalog d1 ''books'' = Some bt"
    using books by (simp_all add: d1_def put_table_def)
  have rb: "resolve_book (js_get a ''title'') d = Inr (JNum bk, d)"
    "resolve_book (js_get a ''title'') d1 = Inr (JNum bk, d1)"
    using title getBookID_result [OF books] getBookID_result [OF cat1(2) books(2), of ti]
    by (simp_all add: resolve_book_def)
  have m1: "getMatchingAnnotationID (JNum bk) (js_get a ''end'') d = Inr (JNull, d)"
    using getMatchingAnnotationID_eval [OF tbl(1) cols title(4,5) en(2,3)] none en(1) by simp
  have m2: "getMatchingAnnotationID (JNum bk) (js_get a ''end'') d1 = Inr (JNum ?k, d1)"
    using getMatchingAnnotationID_eval [OF cat1(1) _ title(4,5) en(2,3)] inv1 none en(1) nb id1
    by (simp add: anno_inv_def t1_def)
  have call1: "addAnnotation a d = Inr (JObj (anno_json (new_row t fs)), d1)"
    using rb(1) m1 exec_insert_anno [OF tbl fields]
    by (simp add: addAnnotation_def add_write_query_def js_first_def d1_def t1_def)
  have call2: "addAnnotation a d1 = Inr (JObj (anno_json ((new_row t fs)(''highlight'' := SText s))),
                 put_table d1 ''kindle_annotations'' t2)"
    using rb(2) m2 hl k inv1 cat1(1) id1 fresh
      exec_update_text_by_id [OF cat1(1) _ _ anno_inv_unique [OF inv1], of "''highlight''" ?k s]
    by (simp add: addAnnotation_def add_write_query_def parse_update_match db_query_parsed
        js_first_def anno_inv_def t1_def t2_def filter_empty_conv)
  have "map ?upd (tbl_rows t) = tbl_rows t"
    by (rule map_idI) (simp add: fresh)
  then have rows2: "tbl_rows t2 = tbl_rows t @ [(new_row t fs)(''highlight'' := SText s)]"
    using id1 by (simp add: t2_def t1_def)
  have "catalog (put_table d1 ''kindle_annotations'' t2) ''kindle_annotations'' = Some t2"
    by (simp add: put_table_def)
  moreover have "map (\<lambda>r. r ''id'') (tbl_rows t2) = map (\<lambda>r. r ''id'') (tbl_rows t) @ [SInt ?k]"
    using rows2 id1 by simp
  moreover have "filter (\<lambda>r. r ''book_id'' = SInt bk \<and> r ''end'' = SInt e) (tbl_rows t2) =
                   [(new_row t fs)(''highlight'' := SText s)]"
    using rows2 none nb by simp
  ultimately show ?thesis using call1 call2 by (auto simp: st_bind_def)
qed


theorem sequential_reimport_updates_witness:
  "\<exists>v d2 t2. st_bind (addAnnotation [(''title'', JStr ''Foo''), (''end'', JNum 30), (''highlight'', JStr ''h'')])
                (\<lambda>_. addAnnotation [(''title'', JStr ''Foo''), (''end'', JNum 30), (''highlight'', JStr ''h'')])
                example_db = Inr (v, d2) \<and>
     catalog d2 ''kindle_annotations'' = Some t2 \<and>
     map (\<lambda>r. r ''id'') (tbl_rows t2) = [SInt 1, SInt 2] \<and>
     filter (\<lambda>r. r ''book_id'' = SInt 1 \<and> r ''end'' = SInt 30) (tbl_rows t2) =
       [(new_row example_table reimport_fields)(''highlight'' := SText ''h'')]"
proof -
  let ?a = "[(''title'', JStr ''Foo''), (''end'', JNum 30), (''highlight'', JStr ''h'')]"
  let ?bt = "books_table\<lparr>tbl_seq := 2, tbl_rows := [example_book]\<rparr>"
  have cat: "catalog example_db ''books'' = Some ?bt" by (simp add: example_db_def put_table_def)
  have bc: "book_cols ?bt" by (simp add: book_cols_def)
  have gb: "getBookID (JStr ''Foo'') example_db = Inr (JNum 1, example_db)"
    using getBookID_result [OF cat bc] by (simp add: example_book_def)
  have sf: "stored_fields ?a (JNum 1) = Inr reimport_fields"
    by (simp add: stored_fields_def insert_cols_def insert_params_def compile_eqs_def col_type_def
        kindle_annotations_table_def js_get_def coerce_param_JNum_int4)
  show ?thesis
    using sequential_reimport_updates [OF cat bc _ gb _ _ _ _ _ _ _ _ _ sf example_table_facts(1,5)]
    by (simp add: js_get_def example_table_def example_row_def)
qed

end
