(* ===== verification/Store.thy ===== *)
theory Store
  imports Annotations
begin

text \<open>
  The store as the rest of the program uses it: the functions of
  \<open>module.exports\<close> (\<open>src/models/annotations.js\<close>, lines 214--222) as one
  datatype of operations and one step function \<open>run_op\<close> on the database,
  the states reachable from the empty schema by operations that resolve, and
  the invariant of the \<open>kindle_annotations\<close> table (\<open>anno_inv\<close>: the
  repository's columns, the primary key, ids positive, distinct and below the
  sequence) in every one of them.  A rejected call has no state of its own in
  this model, so \<open>reachable\<close> counts the calls that resolve; the writes that
  the earlier queries of a rejected \<open>addAnnotation\<close> committed (a new book)
  are kept by the phase model of \<open>Concurrency\<close>, where the invariant is
  proved for every interleaving, rejected phases included.
\<close>

section \<open>Operations\<close>

text \<open>The exported functions, in the order of \<open>module.exports\<close>.  A result list
  of rows is returned as a JavaScript array.\<close>

datatype store_op =
    AddCalibreAnnotation js_obj
  | GetAllAnnotations js_val
  | GetAnnotationByID js_val
  | GetAnnotationsByBookID js_val
  | AddAnnotation js_obj
  | EditAnnotation js_obj
  | DeleteAnnotation js_obj

fun run_op :: "store_op \<Rightarrow> (failure, db, js_val) st" where
  "run_op (AddCalibreAnnotation c) = addCalibreAnnotation c"
| "run_op (GetAllAnnotations l) = st_map (\<lambda>rows. JArr (map JObj rows)) (getAllAnnotations l)"
| "run_op (GetAnnotationByID i) = getAnnotationByID i"
| "run_op (GetAnnotationsByBookID b) = st_map (\<lambda>rows. JArr (map JObj rows)) (getAnnotationsByBookID b)"
| "run_op (AddAnnotation a) = addAnnotation a"
| "run_op (EditAnnotation a) = editAnnotation a"
| "run_op (DeleteAnnotation a) = deleteAnnotation a"

inductive reachable :: "db \<Rightarrow> bool" where
  reachable_init: "reachable init_db"
| reachable_step: "reachable d \<Longrightarrow> run_op op d = Inr (v, d') \<Longrightarrow> reachable d'"

text \<open>The invariant of the catalog: the annotation table exists and keeps
  \<open>anno_inv\<close>.\<close>

definition anno_db_inv :: "db \<Rightarrow> bool" where
  "anno_db_inv d = (case catalog d ''kindle_annotations'' of None \<Rightarrow> False | Some t \<Rightarrow> anno_inv t)"

section \<open>Each write keeps the invariant\<close>

text \<open>The three kinds of statement on \<open>kindle_annotations\<close>: an UPDATE that
  assigns no id, a DELETE, and the INSERT of \<open>addAnnotation\<close>.\<close>

lemma anno_db_invE:
  assumes "anno_db_inv d"
  obtains t where "catalog d ''kindle_annotations'' = Some t" "anno_inv t"
  using assms by (auto simp: anno_db_inv_def split: option.splits)

lemma anno_db_inv_put:
  "anno_db_inv (put_table d ''kindle_annotations'' t) = anno_inv t"
  by (simp add: anno_db_inv_def put_table_def)

lemma anno_db_inv_same_table:
  "catalog d' ''kindle_annotations'' = catalog d ''kindle_annotations'' \<Longrightarrow> anno_db_inv d' = anno_db_inv d"
  by (simp add: anno_db_inv_def)

lemma anno_inv_sub:
  assumes "anno_inv t" "tbl_cols t' = tbl_cols t" "tbl_unique t' = tbl_unique t" "tbl_seq t' = tbl_seq t"
    "set (map (\<lambda>r. r ''id'') (tbl_rows t')) \<subseteq> set (map (\<lambda>r. r ''id'') (tbl_rows t))"
    "distinct (map (\<lambda>r. r ''id'') (tbl_rows t'))"
  shows "anno_inv t'"
  using assms by (auto simp: anno_inv_def anno_cols_def list_all_iff)

lemma anno_db_inv_update:
  assumes "anno_db_inv d" "exec_update ''kindle_annotations'' as cs ret d = Inr (rs, d')"
    "''id'' \<notin> set (map fst as)"
  shows "anno_db_inv d'"
proof -
  obtain t where t: "catalog d ''kindle_annotations'' = Some t" "anno_inv t"
    using assms(1) by (rule anno_db_invE)
  obtain sets P where sp: "map fst sets = map fst as"
      "d' = put_table d ''kindle_annotations''
              (t\<lparr>tbl_rows := map (\<lambda>r. if P r then apply_sets sets r else r) (tbl_rows t)\<rparr>)"
    using exec_update_effect [OF assms(2) t(1)] by blast
  have "apply_sets sets r ''id'' = r ''id''" for r
    using assms(3) sp(1) by (simp add: apply_sets_other)
  then have "map (\<lambda>r. r ''id'') (map (\<lambda>r. if P r then apply_sets sets r else r) (tbl_rows t)) =
             map (\<lambda>r. r ''id'') (tbl_rows t)"
    by simp
  then show ?thesis
    using sp(2) anno_inv_same_ids [OF t(2)] by (simp add: anno_db_inv_put)
qed

lemma anno_db_inv_delete:
  assumes "anno_db_inv d" "exec_delete ''kindle_annotations'' cs ret d = Inr (rs, d')"
  shows "anno_db_inv d'"
proof -
  obtain t where t: "catalog d ''kindle_annotations'' = Some t" "anno_inv t"
    using assms(1) by (rule anno_db_invE)
  obtain P where p: "d' = put_table d ''kindle_annotations'' (t\<lparr>tbl_rows := filter P (tbl_rows t)\<rparr>)"
    using exec_delete_effect [OF assms(2) t(1)] by blast
  have "distinct (map (\<lambda>r. r ''id'') (filter P (tbl_rows t)))"
    using t(2) by (simp add: anno_inv_def distinct_map_filter)
  then show ?thesis
    using p anno_inv_sub [OF t(2), of "t\<lparr>tbl_rows := filter P (tbl_rows t)\<rparr>"]
    by (auto simp: anno_db_inv_put)
qed


lemma insert_query_inv:
  assumes "anno_db_inv d" "db_query (insert_query a b @ TKw KReturning # querySelectCols) d = Inr (rs, d')"
  shows "anno_db_inv d'"
proof -
  obtain t where t: "catalog d ''kindle_annotations'' = Some t" "anno_inv t"
    using assms(1) by (rule anno_db_invE)
  obtain avs where f: "stored_fields a b = Inr avs" and lim: "int (tbl_seq t) \<le> int4_max"
    and d': "d' = put_table d ''kindle_annotations''
                 (t\<lparr>tbl_seq := Suc (tbl_seq t), tbl_rows := tbl_rows t @ [new_row t avs]\<rparr>)"
    using assms(2) insert_query_result [OF t, of a b]
    by (auto split: sum.splits if_splits)
  have cols: "anno_cols t" using t by (simp add: anno_inv_def)
  show ?thesis
    using d' anno_inv_append [OF t(2) lim, of "new_row t avs"] stored_fields_facts(3) [OF cols f]
    by (simp add: anno_db_inv_put)
qed


lemma getBookID_same: "getBookID title d = Inr (v, d') \<Longrightarrow> d' = d"
  by (auto simp: getBookID_def st_bind_Inr simp del: st_bind_apply dest: db_query_select_same)

lemma insertBook_keeps_annotations:
  assumes "insertBook title d = Inr (v, d')"
  shows "catalog d' ''kindle_annotations'' = catalog d ''kindle_annotations''"
proof -
  obtain rs d1 where q: "db_query [TKw KInsert, TKw KInto, TId ''books'', TLParen, TId ''title'', TRParen,
                           TKw KValues, TLParen, TParam title, TRParen, TKw KReturning, TId ''id''] d = Inr (rs, d1)"
    and r: "st_of (js_prop (js_first (map JObj rs)) ''id'') d1 = Inr (v, d')"
    using assms by (auto simp: insertBook_def st_bind_Inr simp del: st_bind_apply)
  have "d' = d1" using r by (rule st_of_Inr_state)
  then show ?thesis
    using db_query_insert_other [OF q, of "''kindle_annotations''"] by simp
qed

lemma resolve_book_inv:
  "anno_db_inv d \<Longrightarrow> resolve_book title d = Inr (b, d') \<Longrightarrow> anno_db_inv d'"
  by (auto simp: resolve_book_def st_bind_Inr anno_db_inv_same_table [OF insertBook_keeps_annotations]
      simp del: st_bind_apply split: if_splits dest: getBookID_same)

lemma getMatchingAnnotationID_same: "getMatchingAnnotationID b e d = Inr (m, d') \<Longrightarrow> d' = d"
  by (auto simp: getMatchingAnnotationID_def st_bind_Inr Let_def simp del: st_bind_apply split: if_splits
      dest!: st_of_Inr_state dest: db_query_select_same)

lemma add_write_inv:
  assumes inv: "anno_db_inv d" and q: "db_query (add_write_query a b m) d = Inr (rows, d')"
  shows "anno_db_inv d'"
proof (cases "js_truthy m")
  case True
  let ?q = "update_match_query (js_get a ''highlight'') (js_get a ''note'') m @ TKw KReturning # querySelectCols"
  obtain s where ps: "parse_stmt ?q = Some s" and ex: "exec_stmt s d = Inr (rows, d')"
    using q True by (auto simp: add_write_query_def db_query_def split: option.splits)
  obtain k where k: "m = JNum k"
    using ps parse_update_match_other [of m "js_get a ''highlight''" "js_get a ''note''"] by fastforce
  have "\<exists>as. s = Update ''kindle_annotations'' as [(''id'', ENum k)] anno_sel \<and> ''id'' \<notin> set (map fst as)"
    using ps parse_update_match k by (auto split: if_splits)
  then show ?thesis
    using ex anno_db_inv_update [OF inv] by auto
next
  case False
  then show ?thesis
    using q insert_query_inv [OF inv] by (simp add: add_write_query_def)
qed

lemma addAnnotation_inv:
  assumes "anno_db_inv d" "addAnnotation a d = Inr (v, d')"
  shows "anno_db_inv d'"
proof -
  obtain b d1 m d2 rows where
    rb: "resolve_book (js_get a ''title'') d = Inr (b, d1)" and
    gm: "getMatchingAnnotationID b (js_get a ''end'') d1 = Inr (m, d2)" and
    q: "db_query (add_write_query a b m) d2 = Inr (rows, d')"
    using assms(2) by (auto simp: addAnnotation_def st_bind_Inr simp del: st_bind_apply)
  have "anno_db_inv d2"
    using resolve_book_inv [OF assms(1) rb] getMatchingAnnotationID_same [OF gm] by simp
  then show ?thesis using add_write_inv q by blast
qed

lemma editAnnotation_inv:
  assumes "anno_db_inv d" "editAnnotation a d = Inr (v, d')"
  shows "anno_db_inv d'"
  using assms(2) anno_db_inv_update [OF assms(1)]
  unfolding editAnnotation_def db_query_parsed [OF parse_edit_query]
  by (auto simp: st_bind_Inr simp del: st_bind_apply)

lemma deleteAnnotation_inv:
  assumes "anno_db_inv d" "deleteAnnotation a d = Inr (v, d')"
  shows "anno_db_inv d'"
  using assms(2) anno_db_inv_delete [OF assms(1)]
  unfolding deleteAnnotation_def db_query_parsed [OF parse_delete_query]
  by (auto simp: st_bind_Inr simp del: st_bind_apply)

lemma reads_same:
  "getAllAnnotations l d = Inr (rs, d') \<Longrightarrow> d' = d"
  "getAnnotationsByBookID b d = Inr (rs, d') \<Longrightarrow> d' = d"
  "getAnnotationByID i d = Inr (v, d') \<Longrightarrow> d' = d"
  by (auto simp: getAllAnnotations_def getAnnotationsByBookID_def getAnnotationByID_def annosSelectQuery_def
      st_bind_Inr Let_def simp del: st_bind_apply split: if_splits dest: db_query_select_same)

lemma run_op_inv:
  assumes "anno_db_inv d" "run_op op d = Inr (v, d')"
  shows "anno_db_inv d'"
  using assms
proof (cases op)
qed (auto simp: addCalibreAnnotation_def Let_def split: sum.splits
      dest: addAnnotation_inv editAnnotation_inv deleteAnnotation_inv reads_same)

lemma init_db_inv: "anno_db_inv init_db"
  by (simp add: anno_db_inv_def init_db_def anno_inv_def anno_cols_def kindle_annotations_table_def)

section \<open>Claims\<close>

text \<open>Claim C8.  In every database reachable from the empty schema by store
  operations that resolve, the annotation table has the repository's columns and
  primary key, and its ids are positive, pairwise distinct and below the
  sequence's next value.\<close>

theorem reachable_anno_db_inv: "reachable d \<Longrightarrow> anno_db_inv d"
  by (induction rule: reachable.induct) (auto intro: init_db_inv run_op_inv)

theorem reachable_anno_db_inv_witness: "reachable init_db \<and> anno_db_inv init_db"
  using reachable_anno_db_inv [OF reachable_init] reachable_init by simp

end
