(* ===== verification/StoreView.thy ===== *)
theory StoreView
  imports Store
begin

text \<open>
  An abstract specification of the annotation table: a finite map from ids to
  rows (\<open>anno_view\<close>, the row a lookup by id finds), in the style of a map
  ADT with \<open>lookup\<close>, \<open>update\<close> and \<open>delete\<close>.  Under the store invariant
  \<open>anno_db_inv\<close> (ids distinct), the writes of
  \<open>src/models/annotations.js\<close> implement map operations:
  \<open>deleteAnnotation\<close> deletes the key and returns its row, and the INSERT of
  \<open>addAnnotation\<close> adds a row at a key that was free.
\<close>

definition anno_view :: "db \<Rightarrow> int \<rightharpoonup> row" where
  "anno_view d i =
     (case catalog d ''kindle_annotations'' of None \<Rightarrow> None | Some t \<Rightarrow> find (\<lambda>r. r ''id'' = SInt i) (tbl_rows t))"

section \<open>The view of a table\<close>

lemma anno_view_table:
  "catalog d ''kindle_annotations'' = Some t \<Longrightarrow> anno_view d = (\<lambda>i. find (\<lambda>r. r ''id'' = SInt i) (tbl_rows t))"
  by (simp add: anno_view_def fun_eq_iff)

lemma anno_view_put: "anno_view (put_table d ''kindle_annotations'' t) = (\<lambda>i. find (\<lambda>r. r ''id'' = SInt i) (tbl_rows t))"
  by (simp add: anno_view_def put_table_def fun_eq_iff)

lemma anno_inv_filter_id:
  "anno_inv t \<Longrightarrow> filter (\<lambda>r. r ''id'' = SInt i) (tbl_rows t) =
     (case find (\<lambda>r. r ''id'' = SInt i) (tbl_rows t) of None \<Rightarrow> [] | Some r \<Rightarrow> [r])"
  by (rule filter_distinct_key) (simp add: anno_inv_def)

text \<open>The example database: one annotation, at id 1.\<close>

lemma example_db_inv: "anno_db_inv example_db"
  using example_table_facts(1,5) by (simp add: anno_db_inv_def)

lemma example_view: "anno_view example_db = [1 \<mapsto> example_row]"
  by (simp add: anno_view_table [OF example_table_facts(1)] example_table_def example_row_def fun_eq_iff)

section \<open>Claims\<close>

text \<open>Claim C15.  On a database that keeps the store invariant,
  \<open>deleteAnnotation\<close> with an id in range resolves to the row at that key
  (\<open>undefined\<close> when there is none) and deletes the key from the map.\<close>

theorem deleteAnnotation_refines:
  assumes inv: "anno_db_inv d" and i: "js_get a ''id'' = JNum i" "int4_min \<le> i" "i \<le> int4_max"
  shows "\<exists>d'. deleteAnnotation a d = Inr ((case anno_view d i of None \<Rightarrow> JUndefined | Some r \<Rightarrow> JObj (anno_json r)), d')
              \<and> anno_view d' = (anno_view d)(i := None)"
proof -
  obtain t where t: "catalog d ''kindle_annotations'' = Some t" "anno_inv t"
    using inv by (rule anno_db_invE)
  have cols: "anno_cols t" using t(2) by (simp add: anno_inv_def)
  have "find (\<lambda>r. r ''id'' = SInt j) (filter (\<lambda>r. r ''id'' \<noteq> SInt i) (tbl_rows t)) =
        (if j = i then None else find (\<lambda>r. r ''id'' = SInt j) (tbl_rows t))" for j
  proof (cases "j = i")
    case False
    then have "(\<lambda>r. r ''id'' \<noteq> SInt i \<and> r ''id'' = SInt j) = (\<lambda>r. r ''id'' = SInt j)" by auto
    with False show ?thesis by (simp add: find_filter_conj)
  qed (simp add: find_filter_conj find_None_iff)
  then show ?thesis
    using deleteAnnotation_eval [OF t(1) cols i] t(2)
    by (simp add: anno_view_put anno_view_table [OF t(1)] anno_inv_filter_id fun_eq_iff split: option.splits)
qed

theorem deleteAnnotation_refines_witness:
  "\<exists>d'. deleteAnnotation [(''id'', JNum 1)] example_db = Inr (JObj (anno_json example_row), d') \<and>
        anno_view d' = Map.empty"
  using deleteAnnotation_refines [OF example_db_inv, of "[(''id'', JNum 1)]" 1]
  by (simp add: example_view js_get_def)

text \<open>Claim C16.  On a database that keeps the store invariant, the INSERT of
  \<open>addAnnotation\<close>, when it resolves, adds one row to the map at a key that was
  free, and returns that row.\<close>

theorem insert_query_refines:
  assumes inv: "anno_db_inv d" and q: "db_query (insert_query a b @ TKw KReturning # querySelectCols) d = Inr (rs, d')"
  shows "\<exists>k r. anno_view d k = None \<and> anno_view d' = (anno_view d)(k \<mapsto> r) \<and> rs = [anno_json r]"
proof -
  obtain t where t: "catalog d ''kindle_annotations'' = Some t" "anno_inv t"
    using inv by (rule anno_db_invE)
  obtain avs where f: "stored_fields a b = Inr avs" and lim: "int (tbl_seq t) \<le> int4_max"
    and d': "d' = put_table d ''kindle_annotations''
                 (t\<lparr>tbl_seq := Suc (tbl_seq t), tbl_rows := tbl_rows t @ [new_row t avs]\<rparr>)"
    and rs: "rs = [anno_json (new_row t avs)]"
    using q insert_query_result [OF t, of a b] by (auto split: sum.splits if_splits)
  have cols: "anno_cols t" using t by (simp add: anno_inv_def)
  have newid: "new_row t avs ''id'' = SInt (int (tbl_seq t))"
    using stored_fields_facts(3) [OF cols f] .
  have fresh: "find (\<lambda>r. r ''id'' = SInt (int (tbl_seq t))) (tbl_rows t) = None"
    using anno_inv_fresh [OF t(2)] by (simp add: find_None_iff)
  have "anno_view d' = (anno_view d)(int (tbl_seq t) \<mapsto> new_row t avs)"
    using fresh newid by (auto simp: d' anno_view_put anno_view_table [OF t(1)] find_append_one fun_eq_iff
        split: option.splits)
  then show ?thesis
    using fresh rs by (auto simp: anno_view_table [OF t(1)])
qed


theorem insert_query_refines_witness:
  "\<exists>rs d'. db_query (insert_query [(''end'', JNum 30)] (JNum 1) @ TKw KReturning # querySelectCols) example_db = Inr (rs, d') \<and>
     (\<exists>k r. anno_view example_db k = None \<and> anno_view d' = (anno_view example_db)(k \<mapsto> r) \<and> rs = [anno_json r])"
proof -
  let ?avs = "[(''book_id'', SInt 1), (''bookline'', SNull), (''title'', SNull), (''author'', SNull),
               (''language'', SNull), (''begin'', SNull), (''end'', SInt 30), (''time'', SNull),
               (''highlight'', SNull), (''note'', SNull), (''statusline'', SNull), (''page'', SNull),
               (''ordernr'', SNull)]"
  have f: "stored_fields [(''end'', JNum 30)] (JNum 1) = Inr ?avs"
    by (simp add: stored_fields_def insert_cols_def insert_params_def compile_eqs_def col_type_def
        kindle_annotations_table_def js_get_def coerce_param_JNum_int4)
  have lim: "int (tbl_seq example_table) \<le> int4_max"
    by (simp add: example_table_def)
  obtain rs d' where q: "db_query (insert_query [(''end'', JNum 30)] (JNum 1) @ TKw KReturning # querySelectCols) example_db = Inr (rs, d')"
    using exec_insert_anno [OF example_table_facts(1,5) lim f] by blast
  show ?thesis
    using q insert_query_refines [OF example_db_inv q] by blast
qed

end
