(* ===== verification/Concurrency.thy ===== *)
theory Concurrency
  imports StoreView
begin

text \<open>
  Two requests to the store at once.  Node runs each \<open>addAnnotation\<close> call
  as a chain of awaited queries (\<open>src/models/annotations.js\<close> lines 84--119):
  the book lookup, the book's creation when the lookup finds none, the match
  query, and the write.  Another request's queries
  may run between any two of them, since the chain holds no lock and no
  transaction.  A request is modelled as the state of its chain (\<open>req\<close>), one
  awaited phase as \<open>req_step\<close>, and two requests sharing one database as the
  step relation \<open>conc_step\<close>, which advances either of them.  A rejected phase
  ends the request (\<open>ReqFailed\<close>) and leaves the database as the previous
  phases left it: their queries were committed.
\<close>

datatype req =
    ReqStart js_obj
  | ReqLooked js_obj js_val
  | ReqResolved js_obj js_val
  | ReqMatched js_obj js_val js_val
  | ReqDone js_val
  | ReqFailed failure

fun req_step :: "req \<Rightarrow> (failure, db, req) st" where
  "req_step (ReqStart a) = st_map (ReqLooked a) (Books.getBookID (js_get a ''title''))"
| "req_step (ReqLooked a b0) =
     (if \<not> js_truthy b0 then st_map (ReqResolved a) (Books.insertBook (js_get a ''title''))
      else st_return (ReqResolved a b0))"
| "req_step (ReqResolved a b) = st_map (ReqMatched a b) (getMatchingAnnotationID b (js_get a ''end''))"
| "req_step (ReqMatched a b m) =
     st_map (\<lambda>rows. ReqDone (js_first (map JObj rows))) (db_query (add_write_query a b m))"
| "req_step (ReqDone v) = st_return (ReqDone v)"
| "req_step (ReqFailed e) = st_throw e"

fun req_active :: "req \<Rightarrow> bool" where
  "req_active (ReqDone v) = False"
| "req_active (ReqFailed e) = False"
| "req_active r = True"

definition req_next :: "req \<Rightarrow> db \<Rightarrow> req \<times> db" where
  "req_next r d = (case req_step r d of Inl e \<Rightarrow> (ReqFailed e, d) | Inr (r', d') \<Rightarrow> (r', d'))"

inductive conc_step :: "req \<times> req \<times> db \<Rightarrow> req \<times> req \<times> db \<Rightarrow> bool" where
  conc_left: "req_active r1 \<Longrightarrow> req_next r1 d = (r1', d') \<Longrightarrow> conc_step (r1, r2, d) (r1', r2, d')"
| conc_right: "req_active r2 \<Longrightarrow> req_next r2 d = (r2', d') \<Longrightarrow> conc_step (r1, r2, d) (r1, r2', d')"

text \<open>The input of the two racing requests: one note on book \<open>Foo\<close> at
  location 30, where the example database has no annotation.\<close>

definition race_input :: js_obj where
  "race_input = [(''title'', JStr ''Foo''), (''end'', JNum 30), (''note'', JStr ''n'')]"

text \<open>A request for a book the example database does not have, whose end
  location the server cannot read as an integer.\<close>

definition failing_input :: js_obj where
  "failing_input = [(''title'', JStr ''Bar''), (''end'', JStr ''abc'')]"

text \<open>An import of a note on the book \<open>Bar\<close>, which the example database does
  not have.\<close>

definition new_book_input :: js_obj where
  "new_book_input = [(''title'', JStr ''Bar''), (''end'', JNum 30), (''note'', JStr ''n'')]"

section \<open>Phases\<close>

lemma addAnnotation_phases:
  "addAnnotation a d =
     (case resolve_book (js_get a ''title'') d of Inl e \<Rightarrow> Inl e
      | Inr (b, d1) \<Rightarrow>
          (case getMatchingAnnotationID b (js_get a ''end'') d1 of Inl e \<Rightarrow> Inl e
           | Inr (m, d2) \<Rightarrow>
               (case db_query (add_write_query a b m) d2 of Inl e \<Rightarrow> Inl e
                | Inr (rows, d3) \<Rightarrow> Inr (js_first (map JObj rows), d3))))"
  by (simp add: addAnnotation_def split: sum.splits prod.splits)

lemma resolve_book_phases:
  "resolve_book t d =
     (case getBookID t d of Inl e \<Rightarrow> Inl e
      | Inr (b0, d0) \<Rightarrow> if \<not> js_truthy b0 then insertBook t d0 else Inr (b0, d0))"
  by (simp add: resolve_book_def split: sum.splits prod.splits)

lemma req_next_phases:
  "req_next (ReqStart a) d =
     (case getBookID (js_get a ''title'') d of Inl e \<Rightarrow> (ReqFailed e, d) | Inr (b0, d0) \<Rightarrow> (ReqLooked a b0, d0))"
  "req_next (ReqLooked a b0) d =
     (if \<not> js_truthy b0
      then (case insertBook (js_get a ''title'') d of Inl e \<Rightarrow> (ReqFailed e, d) | Inr (b, d1) \<Rightarrow> (ReqResolved a b, d1))
      else (ReqResolved a b0, d))"
  "req_next (ReqResolved a b) d =
     (case getMatchingAnnotationID b (js_get a ''end'') d of Inl e \<Rightarrow> (ReqFailed e, d) | Inr (m, d1) \<Rightarrow> (ReqMatched a b m, d1))"
  "req_next (ReqMatched a b m) d =
     (case db_query (add_write_query a b m) d of Inl e \<Rightarrow> (ReqFailed e, d)
      | Inr (rows, d1) \<Rightarrow> (ReqDone (js_first (map JObj rows)), d1))"
  by (simp_all add: req_next_def split: sum.splits prod.splits)

lemma req_next_inv: "anno_db_inv d \<Longrightarrow> req_next r d = (r', d') \<Longrightarrow> anno_db_inv d'"
  by (cases r) (auto simp: req_next_def anno_db_inv_same_table [OF insertBook_keeps_annotations]
      split: sum.splits if_splits dest: getBookID_same getMatchingAnnotationID_same add_write_inv)

section \<open>Schedules\<close>

lemma conc_run_right:
  assumes "req_active r2" "req_next r2 d = (r2', d')" "conc_step\<^sup>*\<^sup>* (r1, r2', d') s"
  shows "conc_step\<^sup>*\<^sup>* (r1, r2, d) s"
proof -
  have "conc_step (r1, r2, d) (r1, r2', d')"
    using assms(1,2) by (rule conc_right)
  then show ?thesis using assms(3) by (rule converse_rtranclp_into_rtranclp)
qed

lemma conc_run_left:
  assumes "req_active r1" "req_next r1 d = (r1', d')" "conc_step\<^sup>*\<^sup>* (r1', r2, d') s"
  shows "conc_step\<^sup>*\<^sup>* (r1, r2, d) s"
proof -
  have "conc_step (r1, r2, d) (r1', r2, d')"
    using assms(1,2) by (rule conc_left)
  then show ?thesis using assms(3) by (rule converse_rtranclp_into_rtranclp)
qed

text \<open>A property of the database that every phase keeps, whether the phase
  resolves or rejects, holds after every interleaving.\<close>

lemma conc_star_keeps:
  assumes keep: "\<And>r d r' d'. P d \<Longrightarrow> req_next r d = (r', d') \<Longrightarrow> P d'"
  shows "conc_step\<^sup>*\<^sup>* (r1, r2, d) (r1', r2', d') \<Longrightarrow> P d \<Longrightarrow> P d'"
proof (induction "(r1', r2', d')" arbitrary: r1' r2' d' rule: rtranclp_induct)
  case base
  then show ?case by simp
next
  case (step s)
  then show ?case
    by (cases s) (auto elim!: conc_step.cases intro: keep)
qed

section \<open>Races\<close>

text \<open>A row appended by an INSERT differs from one appended after it only
  in the serial id.\<close>

lemma new_row_other_col:
  assumes "anno_cols t" "c \<noteq> ''id''"
  shows "new_row (t\<lparr>tbl_seq := n, tbl_rows := rs\<rparr>) avs c = new_row t avs c"
  using assms by (simp add: new_row_def default_value_def anno_cols_def kindle_annotations_table_def
      split: option.splits)

text \<open>The match-then-write race: both requests find the book, both run the
  match query on the database as it was, and only then do both write.\<close>

lemma match_race_run:
  assumes book: "getBookID (js_get a ''title'') d = Inr (b, d)" "js_truthy b"
    and match: "getMatchingAnnotationID b (js_get a ''end'') d = Inr (m, d)"
    and q1: "db_query (add_write_query a b m) d = Inr (rows1, d1)"
    and q2: "db_query (add_write_query a b m) d1 = Inr (rows2, d2)"
  shows "conc_step\<^sup>*\<^sup>* (ReqStart a, ReqStart a, d)
           (ReqDone (js_first (map JObj rows1)), ReqDone (js_first (map JObj rows2)), d2)"
  by (rule conc_run_left [where r1' = "ReqLooked a b" and d' = d], simp, simp add: req_next_phases book,
      rule conc_run_right [where r2' = "ReqLooked a b" and d' = d], simp, simp add: req_next_phases book,
      rule conc_run_left [where r1' = "ReqResolved a b" and d' = d], simp, simp add: req_next_phases book,
      rule conc_run_right [where r2' = "ReqResolved a b" and d' = d], simp, simp add: req_next_phases book,
      rule conc_run_left [where r1' = "ReqMatched a b m" and d' = d], simp, simp add: req_next_phases match,
      rule conc_run_right [where r2' = "ReqMatched a b m" and d' = d], simp, simp add: req_next_phases match,
      rule conc_run_left [where r1' = "ReqDone (js_first (map JObj rows1))" and d' = d1], simp,
      simp add: req_next_phases q1,
      rule conc_run_right [where r2' = "ReqDone (js_first (map JObj rows2))" and d' = d2], simp,
      simp add: req_next_phases q2,
      rule rtranclp.rtrancl_refl)

section \<open>The race on the example database\<close>

abbreviation race_fields :: "(string \<times> sql_val) list" where
  "race_fields \<equiv> [(''book_id'', SInt 1), (''bookline'', SNull), (''title'', SText ''Foo''), (''author'', SNull),
                  (''language'', SNull), (''begin'', SNull), (''end'', SInt 30), (''time'', SNull),
                  (''highlight'', SNull), (''note'', SText ''n''), (''statusline'', SNull), (''page'', SNull),
                  (''ordernr'', SNull)]"

abbreviation race_t1 :: table where
  "race_t1 \<equiv> example_table\<lparr>tbl_seq := Suc (tbl_seq example_table),
                             tbl_rows := tbl_rows example_table @ [new_row example_table race_fields]\<rparr>"

abbreviation race_t2 :: table where
  "race_t2 \<equiv> race_t1\<lparr>tbl_seq := Suc (tbl_seq race_t1), tbl_rows := tbl_rows race_t1 @ [new_row race_t1 race_fields]\<rparr>"

lemma race_stored_fields: "stored_fields race_input (JNum 1) = Inr race_fields"
  by (simp add: race_input_def stored_fields_def insert_cols_def insert_params_def compile_eqs_def col_type_def
      kindle_annotations_table_def js_get_def coerce_param_JNum_int4)

lemma race_facts:
  "resolve_book (js_get race_input ''title'') example_db = Inr (JNum 1, example_db)"
  "getMatchingAnnotationID (JNum 1) (js_get race_input ''end'') example_db = Inr (JNull, example_db)"
  "db_query (add_write_query race_input (JNum 1) JNull) example_db =
     Inr ([anno_json (new_row example_table race_fields)], put_table example_db ''kindle_annotations'' race_t1)"
  "db_query (add_write_query race_input (JNum 1) JNull) (put_table example_db ''kindle_annotations'' race_t1) =
     Inr ([anno_json (new_row race_t1 race_fields)],
          put_table (put_table example_db ''kindle_annotations'' race_t1) ''kindle_annotations'' race_t2)"
  "getBookID (js_get race_input ''title'') example_db = Inr (JNum 1, example_db)"
proof -
  note f = race_stored_fields
  have lim0: "int (tbl_seq example_table) \<le> int4_max" by (simp add: example_table_def)
  have inv1: "anno_inv race_t1"
    using anno_inv_append [OF example_table_facts(5) lim0, of "new_row example_table race_fields"]
      stored_fields_facts(3) [OF example_table_facts(2) f] by simp
  have cat1: "catalog (put_table example_db ''kindle_annotations'' race_t1) ''kindle_annotations'' = Some race_t1"
    by (simp add: put_table_def)
  have lim1: "int (tbl_seq race_t1) \<le> int4_max" by (simp add: example_table_def)
  show "resolve_book (js_get race_input ''title'') example_db = Inr (JNum 1, example_db)"
    "getMatchingAnnotationID (JNum 1) (js_get race_input ''end'') example_db = Inr (JNull, example_db)"
    using example_lookups(1,3) by (simp_all add: race_input_def js_get_def)
  show "db_query (add_write_query race_input (JNum 1) JNull) example_db =
     Inr ([anno_json (new_row example_table race_fields)], put_table example_db ''kindle_annotations'' race_t1)"
    using exec_insert_anno [OF example_table_facts(1,5) lim0 f] by (simp add: add_write_query_def)
  show "db_query (add_write_query race_input (JNum 1) JNull) (put_table example_db ''kindle_annotations'' race_t1) =
     Inr ([anno_json (new_row race_t1 race_fields)],
          put_table (put_table example_db ''kindle_annotations'' race_t1) ''kindle_annotations'' race_t2)"
    using exec_insert_anno [OF cat1 inv1 lim1 f] by (simp add: add_write_query_def)
  have "catalog example_db ''books'' = Some (books_table\<lparr>tbl_seq := 2, tbl_rows := [example_book]\<rparr>)"
    by (simp add: example_db_def put_table_def)
  then show "getBookID (js_get race_input ''title'') example_db = Inr (JNum 1, example_db)"
    using getBookID_result by (simp add: race_input_def js_get_def book_cols_def example_book_def)
qed

text \<open>Both requests resolve the book, both run the match query and find
  nothing, then both insert.\<close>

lemma race_schedule:
  "conc_step\<^sup>*\<^sup>* (ReqStart race_input, ReqStart race_input, example_db)
     (ReqDone (JObj (anno_json (new_row example_table race_fields))), ReqDone (JObj (anno_json (new_row race_t1 race_fields))),
      put_table (put_table example_db ''kindle_annotations'' race_t1) ''kindle_annotations'' race_t2)"
  using match_race_run [OF race_facts(5) _ race_facts(2) race_facts(3,4)] by (simp add: js_first_def)

section \<open>A rejected request on the example database\<close>

abbreviation bar_books :: table where
  "bar_books \<equiv> books_table\<lparr>tbl_seq := 3, tbl_rows := [example_book,
     new_row (books_table\<lparr>tbl_seq := 2, tbl_rows := [example_book]\<rparr>) [(''title'', SText ''Bar'')]]\<rparr>"

lemma pg_int_in_abc: "pg_int_in ''integer'' int4_min int4_max ''abc'' = Inl (InvalidTextRepresentation ''integer'' ''abc'')"
  by (simp add: pg_int_in_def split_sign_def strip_spaces_def is_space_def is_digit_def)

lemma failing_facts:
  "resolve_book (JStr ''Bar'') example_db = Inr (JNum 2, put_table example_db ''books'' bar_books)"
  "getMatchingAnnotationID (JNum 2) (JStr ''abc'') (put_table example_db ''books'' bar_books) =
     Inl (InvalidTextRepresentation ''integer'' ''abc'')"
  "getBookID (JStr ''Bar'') (put_table example_db ''books'' bar_books) =
     Inr (JNum 2, put_table example_db ''books'' bar_books)"
  "getBookID (JStr ''Bar'') example_db = Inr (JNull, example_db)"
  "insertBook (JStr ''Bar'') example_db = Inr (JNum 2, put_table example_db ''books'' bar_books)"
proof -
  have cat: "catalog example_db ''books'' = Some (books_table\<lparr>tbl_seq := 2, tbl_rows := [example_book]\<rparr>)"
    "catalog (put_table example_db ''books'' bar_books) ''books'' = Some bar_books"
    "catalog (put_table example_db ''books'' bar_books) ''kindle_annotations'' = Some example_table"
    by (simp_all add: example_db_def put_table_def)
  show gb: "getBookID (JStr ''Bar'') example_db = Inr (JNull, example_db)"
    using getBookID_result [OF cat(1)] by (simp add: book_cols_def example_book_def)
  show ib: "insertBook (JStr ''Bar'') example_db = Inr (JNum 2, put_table example_db ''books'' bar_books)"
    using cat(1)
    by (simp add: insertBook_def db_query_parsed [OF parse_insertBook_query] exec_insert_def check_sel_def
        compile_eqs_def col_type_def books_table_def coerce_param_JStr_text uses_serial_def advance_seq_def
        insert_plain_def unique_ok_def new_row_def default_value_def example_book_def project_def
        type_of_col_def js_set_def js_first_def js_prop_def js_get_def Let_def image_iff)
  show "resolve_book (JStr ''Bar'') example_db = Inr (JNum 2, put_table example_db ''books'' bar_books)"
    by (simp add: resolve_book_def gb ib)
  show "getMatchingAnnotationID (JNum 2) (JStr ''abc'') (put_table example_db ''books'' bar_books) =
     Inl (InvalidTextRepresentation ''integer'' ''abc'')"
    using cat(3) example_table_facts(2)
    by (simp add: getMatchingAnnotationID_def db_query_parsed [OF parse_match_query] exec_select_def
        anno_cols_def check_sel_def compile_eqs_def col_type_def kindle_annotations_table_def
        coerce_param_JNum_int4 coerce_int4_text pg_int_in_abc)
  show "getBookID (JStr ''Bar'') (put_table example_db ''books'' bar_books) =
     Inr (JNum 2, put_table example_db ''books'' bar_books)"
    using getBookID_result [OF cat(2)]
    by (simp add: book_cols_def example_book_def new_row_def default_value_def books_table_def)
qed

lemma failing_input_fields: "js_get failing_input ''title'' = JStr ''Bar''" "js_get failing_input ''end'' = JStr ''abc''"
  by (simp_all add: failing_input_def js_get_def)

section \<open>Two requests creating the same book\<close>

abbreviation bar_books2 :: table where
  "bar_books2 \<equiv> bar_books\<lparr>tbl_seq := 4, tbl_rows := tbl_rows bar_books @ [new_row bar_books [(''title'', SText ''Bar'')]]\<rparr>"

lemma new_book_facts:
  "js_get new_book_input ''title'' = JStr ''Bar''"
  "insertBook (JStr ''Bar'') (put_table example_db ''books'' bar_books) =
     Inr (JNum 3, put_table (put_table example_db ''books'' bar_books) ''books'' bar_books2)"
proof -
  show "js_get new_book_input ''title'' = JStr ''Bar''" by (simp add: new_book_input_def js_get_def)
  have "catalog (put_table example_db ''books'' bar_books) ''books'' = Some bar_books"
    by (simp add: put_table_def)
  then show "insertBook (JStr ''Bar'') (put_table example_db ''books'' bar_books) =
     Inr (JNum 3, put_table (put_table example_db ''books'' bar_books) ''books'' bar_books2)"
    by (simp add: insertBook_def db_query_parsed [OF parse_insertBook_query] exec_insert_def check_sel_def
        compile_eqs_def col_type_def books_table_def coerce_param_JStr_text uses_serial_def advance_seq_def
        insert_plain_def unique_ok_single_key new_row_def default_value_def example_book_def project_def
        type_of_col_def js_set_def js_first_def js_prop_def js_get_def Let_def)
qed

section \<open>Claims\<close>

text \<open>Claim C20.  However the book lookups, match queries and writes of two
  requests interleave, every database they pass through keeps the store
  invariant \<open>anno_db_inv\<close>: ids stay distinct, positive and below the
  sequence.\<close>

theorem interleaving_keeps_inv:
  "conc_step\<^sup>*\<^sup>* (r1, r2, d) (r1', r2', d') \<Longrightarrow> anno_db_inv d \<Longrightarrow> anno_db_inv d'"
  by (rule conc_star_keeps [OF req_next_inv])

theorem interleaving_keeps_inv_witness:
  "anno_db_inv (put_table (put_table example_db ''kindle_annotations'' race_t1) ''kindle_annotations'' race_t2)"
  using interleaving_keeps_inv [OF race_schedule example_db_inv] .

text \<open>Claim C21.  The match-then-insert of \<open>addAnnotation\<close> is not atomic.
  For any input and any database where the book exists, the match query finds
  no annotation, every field is readable at its column's type and the
  sequence has two more ids: two requests for that input, interleaved so that
  both run their match query before either writes, both insert.  The table
  ends with its rows followed by two new rows with the same book and end
  location and different ids, where one request after the other would have
  found the first row and updated it.\<close>

theorem concurrent_adds_duplicate:
  assumes book: "getBookID (js_get a ''title'') d = Inr (b, d)" "js_truthy b"
    and nomatch: "getMatchingAnnotationID b (js_get a ''end'') d = Inr (m, d)" "\<not> js_truthy m"
    and fields: "stored_fields a b = Inr fs"
    and tbl: "catalog d ''kindle_annotations'' = Some t" "anno_inv t" "int (tbl_seq t) < int4_max"
  shows "\<exists>v1 v2 d' t'. conc_step\<^sup>*\<^sup>* (ReqStart a, ReqStart a, d) (ReqDone v1, ReqDone v2, d') \<and>
           catalog d' ''kindle_annotations'' = Some t' \<and>
           (\<exists>r1 r2. tbl_rows t' = tbl_rows t @ [r1, r2] \<and> r1 ''book_id'' = r2 ''book_id'' \<and>
              r1 ''end'' = r2 ''end'' \<and> r1 ''id'' \<noteq> r2 ''id'')"
proof -
  define t1 where "t1 = t\<lparr>tbl_seq := Suc (tbl_seq t), tbl_rows := tbl_rows t @ [new_row t fs]\<rparr>"
  define t2 where "t2 = t1\<lparr>tbl_seq := Suc (tbl_seq t1), tbl_rows := tbl_rows t1 @ [new_row t1 fs]\<rparr>"
  define d1 where "d1 = put_table d ''kindle_annotations'' t1"
  define d2 where "d2 = put_table d1 ''kindle_annotations'' t2"
  have cols: "anno_cols t" using tbl(2) by (simp add: anno_inv_def)
  have id1: "new_row t fs ''id'' = SInt (int (tbl_seq t))"
    using stored_fields_facts(3) [OF cols fields] .
  have lim: "int (tbl_seq t) \<le> int4_max" using tbl(3) by simp
  have inv1: "anno_inv t1"
    unfolding t1_def by (rule anno_inv_append [OF tbl(2) lim, of "new_row t fs", OF id1])
  have cols1: "anno_cols t1" using inv1 by (simp add: anno_inv_def)
  have id2: "new_row t1 fs ''id'' = SInt (int (tbl_seq t1))"
    using stored_fields_facts(3) [OF cols1 fields] .
  have q1: "db_query (add_write_query a b m) d = Inr ([anno_json (new_row t fs)], d1)"
    using exec_insert_anno [OF tbl(1,2) lim fields] nomatch(2)
    by (simp add: add_write_query_def d1_def t1_def)
  have cat1: "catalog d1 ''kindle_annotations'' = Some t1" by (simp add: d1_def put_table_def)
  have q2: "db_query (add_write_query a b m) d1 = Inr ([anno_json (new_row t1 fs)], d2)"
    using exec_insert_anno [OF cat1 inv1 _ fields] tbl(3) nomatch(2)
    by (simp add: add_write_query_def d2_def t2_def t1_def)
  have run: "conc_step\<^sup>*\<^sup>* (ReqStart a, ReqStart a, d)
      (ReqDone (JObj (anno_json (new_row t fs))), ReqDone (JObj (anno_json (new_row t1 fs))), d2)"
    using match_race_run [OF book nomatch(1) q1 q2] by (simp add: js_first_def)
  have cat2: "catalog d2 ''kindle_annotations'' = Some t2" by (simp add: d2_def put_table_def)
  have rows: "tbl_rows t2 = tbl_rows t @ [new_row t fs, new_row t1 fs]" by (simp add: t2_def t1_def)
  have same: "new_row t fs ''book_id'' = new_row t1 fs ''book_id''" "new_row t fs ''end'' = new_row t1 fs ''end''"
    using new_row_other_col [OF cols] by (simp_all add: t1_def)
  have ids: "new_row t fs ''id'' \<noteq> new_row t1 fs ''id''" using id1 id2 by (simp add: t1_def)
  show ?thesis using run cat2 rows same ids by blast
qed

theorem concurrent_adds_duplicate_witness:
  "\<exists>v1 v2 d' t'. conc_step\<^sup>*\<^sup>* (ReqStart race_input, ReqStart race_input, example_db) (ReqDone v1, ReqDone v2, d') \<and>
     catalog d' ''kindle_annotations'' = Some t' \<and>
     (\<exists>r1 r2. tbl_rows t' = tbl_rows example_table @ [r1, r2] \<and> r1 ''book_id'' = r2 ''book_id'' \<and>
        r1 ''end'' = r2 ''end'' \<and> r1 ''id'' \<noteq> r2 ''id'')"
  by (rule concurrent_adds_duplicate [OF race_facts(5) _ race_facts(2) _ race_stored_fields
        example_table_facts(1) example_table_facts(5)]) (simp_all add: example_table_def)

text \<open>Claim C23.  A rejected \<open>addAnnotation\<close> is not rolled back: its
  queries are committed one by one.  For any input and database where the
  book lookup finds nothing, \<open>Books.insertBook\<close> creates the book and the
  match query then rejects, \<open>addAnnotation\<close> rejects with that error, and the
  run of its phases that ends in the rejection ends in the database the
  book's creation left, whatever the other request is.\<close>

theorem failed_add_keeps_book:
  assumes look: "getBookID (js_get a ''title'') d = Inr (b0, d0)" "\<not> js_truthy b0"
    and ins: "insertBook (js_get a ''title'') d0 = Inr (b, d1)"
    and err: "getMatchingAnnotationID b (js_get a ''end'') d1 = Inl e"
  shows "addAnnotation a d = Inl e \<and>
         conc_step\<^sup>*\<^sup>* (ReqStart a, r2, d) (ReqFailed e, r2, d1)"
proof
  show "addAnnotation a d = Inl e"
    using look ins err by (simp add: addAnnotation_phases resolve_book_phases)
  show "conc_step\<^sup>*\<^sup>* (ReqStart a, r2, d) (ReqFailed e, r2, d1)"
    by (rule conc_run_left [where r1' = "ReqLooked a b0" and d' = d0], simp, simp add: req_next_phases look,
        rule conc_run_left [where r1' = "ReqResolved a b" and d' = d1], simp, simp add: req_next_phases look ins,
        rule conc_run_left [where r1' = "ReqFailed e" and d' = d1], simp, simp add: req_next_phases err,
        rule rtranclp.rtrancl_refl)
qed

theorem failed_add_keeps_book_witness:
  "getBookID (JStr ''Bar'') example_db = Inr (JNull, example_db) \<and>
   addAnnotation failing_input example_db = Inl (InvalidTextRepresentation ''integer'' ''abc'') \<and>
   conc_step\<^sup>*\<^sup>* (ReqStart failing_input, ReqDone JNull, example_db)
     (ReqFailed (InvalidTextRepresentation ''integer'' ''abc''), ReqDone JNull, put_table example_db ''books'' bar_books) \<and>
   getBookID (JStr ''Bar'') (put_table example_db ''books'' bar_books) = Inr (JNum 2, put_table example_db ''books'' bar_books)"
  using failed_add_keeps_book [of failing_input example_db JNull example_db "JNum 2"
      "put_table example_db ''books'' bar_books" "InvalidTextRepresentation ''integer'' ''abc''" "ReqDone JNull"]
    failing_facts failing_input_fields
  by simp

text \<open>Claim C27.  Finding or creating the book is not atomic either: the
  lookup and the creation are two awaited calls.  For any input and
  database, and whatever \<open>Books.getBookID\<close> and \<open>Books.insertBook\<close> do,
  when both requests' lookups miss, interleaved before either creates the
  book, both requests call \<open>insertBook\<close> for the title, one after the other,
  and go on with the two ids it returned.  On the example database the books
  table then holds two books titled \<open>Bar\<close>.\<close>

theorem concurrent_new_book_duplicate:
  assumes look1: "getBookID (js_get a ''title'') d = Inr (b0, d0)" "\<not> js_truthy b0"
    and look2: "getBookID (js_get a ''title'') d0 = Inr (b0', d0')" "\<not> js_truthy b0'"
    and ins1: "insertBook (js_get a ''title'') d0' = Inr (b1, d1)"
    and ins2: "insertBook (js_get a ''title'') d1 = Inr (b2, d2)"
  shows "conc_step\<^sup>*\<^sup>* (ReqStart a, ReqStart a, d) (ReqResolved a b1, ReqResolved a b2, d2)"
  by (rule conc_run_left [where r1' = "ReqLooked a b0" and d' = d0], simp, simp add: req_next_phases look1,
      rule conc_run_right [where r2' = "ReqLooked a b0'" and d' = d0'], simp, simp add: req_next_phases look2,
      rule conc_run_left [where r1' = "ReqResolved a b1" and d' = d1], simp, simp add: req_next_phases look1 ins1,
      rule conc_run_right [where r2' = "ReqResolved a b2" and d' = d2], simp, simp add: req_next_phases look2 ins2,
      rule rtranclp.rtrancl_refl)

theorem concurrent_new_book_duplicate_witness:
  "conc_step\<^sup>*\<^sup>* (ReqStart new_book_input, ReqStart new_book_input, example_db)
     (ReqResolved new_book_input (JNum 2), ReqResolved new_book_input (JNum 3),
      put_table (put_table example_db ''books'' bar_books) ''books'' bar_books2) \<and>
   catalog (put_table (put_table example_db ''books'' bar_books) ''books'' bar_books2) ''books'' = Some bar_books2 \<and>
   map (\<lambda>r. r ''id'') (filter (\<lambda>r. r ''title'' = SText ''Bar'') (tbl_rows bar_books2)) = [SInt 2, SInt 3]"
proof -
  have "map (\<lambda>r. r ''id'') (filter (\<lambda>r. r ''title'' = SText ''Bar'') (tbl_rows bar_books2)) = [SInt 2, SInt 3]"
    by (simp add: example_book_def new_row_def default_value_def books_table_def)
  moreover have "catalog (put_table (put_table example_db ''books'' bar_books) ''books'' bar_books2) ''books'' = Some bar_books2"
    by (simp add: put_table_def)
  moreover have "conc_step\<^sup>*\<^sup>* (ReqStart new_book_input, ReqStart new_book_input, example_db)
     (ReqResolved new_book_input (JNum 2), ReqResolved new_book_input (JNum 3),
      put_table (put_table example_db ''books'' bar_books) ''books'' bar_books2)"
    using concurrent_new_book_duplicate [of new_book_input example_db JNull example_db JNull example_db
        "JNum 2" "put_table example_db ''books'' bar_books" "JNum 3"]
      new_book_facts failing_facts(4,5) by simp
  ultimately show ?thesis by blast
qed

end
