(* ===== verification/Tags.thy ===== *)
theory Tags
  imports Database
begin

text \<open>
  The tag helpers of \<open>src/models/annotations.js\<close> (lines 169--210), which
  the module defines but does not export.  \<open>findTagID\<close> sends a SELECT
  with a RETURNING clause, which is not SQL: the server rejects it whatever the
  tag and the data, so the two helpers that start with it always reject, and
  only \<open>createTag\<close> can change the database.  The callees come first.
\<close>

section \<open>The helpers\<close>

text \<open>Lines 204--210.\<close>

definition findTagID :: "js_val \<Rightarrow> (failure, db, js_val) st" where
  "findTagID tag =
     st_bind (db_query [TKw KSelect, TId ''id'', TComma, TId ''tag'', TKw KFrom, TId ''tags'',
                        TKw KWhere, TId ''tag'', TEq, TParam tag, TKw KReturning, TId ''id''])
       (\<lambda>rows. let r0 = js_first (map JObj rows) in
               if \<not> js_truthy r0 then st_return JNull else st_of (js_prop r0 ''id''))"

text \<open>Lines 196--202.\<close>

definition createTag :: "js_val \<Rightarrow> (failure, db, js_val) st" where
  "createTag tag =
     st_bind (db_query [TKw KInsert, TKw KInto, TId ''tags'', TLParen, TId ''tag'', TRParen,
                        TKw KValues, TLParen, TParam tag, TRParen,
                        TKw KReturning, TId ''id'', TComma, TId ''tag''])
       (\<lambda>rows. st_return (js_first (map JObj rows)))"

text \<open>Lines 169--182: \<open>tagID = newTag.id\<close> throws when \<open>newTag\<close> is
  \<open>undefined\<close>.\<close>

definition addTagToAnnotation :: "js_val \<Rightarrow> js_val \<Rightarrow> (failure, db, js_val) st" where
  "addTagToAnnotation annoID tag =
     st_bind (findTagID tag) (\<lambda>tagID.
     st_bind (if \<not> js_truthy tagID then st_bind (createTag tag) (\<lambda>newTag. st_of (js_prop newTag ''id''))
              else st_return tagID) (\<lambda>tagID.
     st_bind (db_query [TKw KInsert, TKw KInto, TId ''annotations_tags'', TLParen,
                        TId ''annotation_id'', TComma, TId ''tag_id'', TRParen, TKw KValues, TLParen,
                        TParam annoID, TComma, TParam tagID, TRParen,
                        TKw KReturning, TId ''annotation_id'', TComma, TId ''tag_id''])
       (\<lambda>rows. st_return (js_first (map JObj rows)))))"

text \<open>Lines 184--194.\<close>

definition removeTagFromAnnotation :: "js_val \<Rightarrow> js_val \<Rightarrow> (failure, db, js_val) st" where
  "removeTagFromAnnotation annoID tag =
     st_bind (findTagID tag) (\<lambda>tagID.
     st_bind (db_query [TKw KDelete, TKw KFrom, TId ''annotations_tags'', TKw KWhere,
                        TId ''annotation_id'', TEq, TParam annoID, TKw KAnd, TId ''tag_id'', TEq, TParam tagID,
                        TKw KReturning, TId ''annotation_id'', TComma, TId ''tag_id''])
       (\<lambda>rows. st_return (js_first (map JObj rows))))"

text \<open>A table with the columns and keys of \<open>tags\<close>.\<close>

definition tag_cols :: "table \<Rightarrow> bool" where
  "tag_cols t \<longleftrightarrow> tbl_cols t = tbl_cols tags_table \<and> tbl_unique t = tbl_unique tags_table"

section \<open>Parsing\<close>

lemma parse_findTag_query:
  "parse_stmt [TKw KSelect, TId ''id'', TComma, TId ''tag'', TKw KFrom, TId ''tags'',
               TKw KWhere, TId ''tag'', TEq, TParam v, TKw KReturning, TId ''id''] = None"
  by (simp add: parse_stmt_def parse_select_def parse_sel_items_def sel_item_at_def sep_by_more sep_by_last
      parse_where_def parse_eqs_def eq_item_def parse_limit_def)

lemma parse_createTag_query:
  "parse_stmt [TKw KInsert, TKw KInto, TId ''tags'', TLParen, TId ''tag'', TRParen,
               TKw KValues, TLParen, TParam v, TRParen, TKw KReturning, TId ''id'', TComma, TId ''tag''] =
     Some (Insert ''tags'' [''tag''] [EParam v] None [SelCol ''id'', SelCol ''tag''])"
  by (simp add: parse_stmt_def parse_insert_def parse_idents_def ident_item_def sep_by_last sep_by_more
      parse_values_def parse_exprs_def parse_conflict_def parse_returning_def parse_sel_items_def sel_item_at_def)

lemma findTagID_rejects: "findTagID tag d = Inl SyntaxError"
  by (simp add: findTagID_def db_query_unparsed [OF parse_findTag_query])


lemma tag_cols_facts:
  assumes "tag_cols t"
  shows "check_sel t [SelCol ''id'', SelCol ''tag''] = Inr ()"
    "compile_eqs t [(''tag'', EParam (JStr s))] = Inr [(''tag'', SText s)]"
    "uses_serial t [(''tag'', SText s)]"
    "new_row t [(''tag'', SText s)] ''id'' = SInt (int (tbl_seq t))"
    "new_row t [(''tag'', SText s)] ''tag'' = SText s"
    "project t [SelCol ''id'', SelCol ''tag''] (new_row t [(''tag'', SText s)]) =
       [(''id'', JNum (int (tbl_seq t))), (''tag'', JStr s)]"
    "tbl_unique t = [[''id''], [''tag'']]"
  using assms
  by (simp_all add: tag_cols_def tags_table_def check_sel_def col_type_def compile_eqs_def uses_serial_def
      new_row_def default_value_def project_def type_of_col_def js_set_def)

section \<open>Claims\<close>

text \<open>Claim C9.  \<open>addTagToAnnotation\<close> and \<open>removeTagFromAnnotation\<close> reject with
  a syntax error for every annotation id, tag and database: the SELECT of
  \<open>findTagID\<close>, which both send first, ends in a RETURNING clause.\<close>

theorem tag_helpers_reject:
  "addTagToAnnotation annoID tag d = Inl SyntaxError \<and> removeTagFromAnnotation annoID tag d = Inl SyntaxError"
  by (simp add: addTagToAnnotation_def removeTagFromAnnotation_def findTagID_rejects)

text \<open>Claim C10.  \<open>createTag\<close> on a \<open>tags\<close> table with the repository's columns
  and keys, whose rows keep the keys and do not hold the sequence's next value,
  appends a row with that id and the tag and resolves to \<open>{id, tag}\<close>; a tag
  already stored rejects with a unique violation.\<close>

theorem createTag_result:
  assumes t: "catalog d ''tags'' = Some t" "tag_cols t" "unique_ok (tbl_unique t) (tbl_rows t)"
    and fresh: "\<forall>r \<in> set (tbl_rows t). r ''id'' \<noteq> SInt (int (tbl_seq t))"
    and lim: "int (tbl_seq t) \<le> int4_max"
  shows "createTag (JStr s) d =
           (if \<exists>r \<in> set (tbl_rows t). r ''tag'' = SText s then Inl (UniqueViolation ''tags'')
            else Inr (JObj [(''id'', JNum (int (tbl_seq t))), (''tag'', JStr s)],
                      put_table d ''tags''
                        (t\<lparr>tbl_seq := Suc (tbl_seq t), tbl_rows := tbl_rows t @ [new_row t [(''tag'', SText s)]]\<rparr>)))"
proof -
  note f = tag_cols_facts [OF t(2)]
  have pj: "project (t\<lparr>tbl_seq := Suc (tbl_seq t)\<rparr>) = project t"
    by (rule ext, rule project_same_cols) simp
  have uq: "unique_ok (tbl_unique t) (tbl_rows t @ [new_row t [(''tag'', SText s)]]) \<longleftrightarrow>
            \<not> (\<exists>r \<in> set (tbl_rows t). r ''tag'' = SText s)"
    using t(3) fresh f(4,5,7) by (simp add: unique_ok_append_singles [of "[''id'', ''tag'']", simplified])
  show ?thesis
    using t(1) f uq lim pj
    by (simp add: createTag_def db_query_parsed [OF parse_createTag_query] exec_insert_def advance_seq_def
        insert_plain_def Let_def js_first_def)
qed

theorem createTag_result_witness:
  "createTag (JStr ''kindle'') init_db =
     Inr (JObj [(''id'', JNum 1), (''tag'', JStr ''kindle'')],
          put_table init_db ''tags''
            (tags_table\<lparr>tbl_seq := 2, tbl_rows := [new_row tags_table [(''tag'', SText ''kindle'')]]\<rparr>))"
proof -
  have t: "catalog init_db ''tags'' = Some tags_table" "tag_cols tags_table"
      "unique_ok (tbl_unique tags_table) (tbl_rows tags_table)"
      "\<forall>r \<in> set (tbl_rows tags_table). r ''id'' \<noteq> SInt (int (tbl_seq tags_table))"
      "int (tbl_seq tags_table) \<le> int4_max"
    by (simp_all add: init_db_def tag_cols_def unique_ok_def tags_table_def)
  have "tbl_seq tags_table = 1" "tbl_rows tags_table = []"
    by (simp_all add: tags_table_def)
  then show ?thesis
    using createTag_result [OF t, of "''kindle''"] by (simp add: numeral_2_eq_2)
qed

end
