(* ===== verification/Router.thy ===== *)
theory Router
  imports Annotations
begin

text \<open>
  The HTTP facade, \<open>src/routes/api/annotations.js\<close>: an Express router with
  three GET routes, each a promise chain \<open>.then(res.json)\<close> with a
  \<open>.catch\<close> that answers 404 with a fixed JSON object.  A request path is
  matched against the routes in registration order with the regular expressions
  Express (path-to-regexp, non-strict, case-insensitive) compiles from them; the
  matched parameter is percent-decoded before the handler sees it, and a
  malformed escape is a 400 of the framework.  The database state is threaded
  through the handler.
\<close>

section \<open>Responses\<close>

record http_resp =
  resp_status :: nat
  resp_body :: string

text \<open>\<open>res.status(st).json(v)\<close>: the body is \<open>JSON.stringify(v)\<close>, empty when
  that is \<open>undefined\<close>; \<open>res.json(v)\<close> is status 200.\<close>

definition res_status_json :: "nat \<Rightarrow> js_val \<Rightarrow> http_resp" where
  "res_status_json st v = \<lparr>resp_status = st, resp_body = (case json_stringify v of None \<Rightarrow> [] | Some s \<Rightarrow> s)\<rparr>"

definition res_json :: "js_val \<Rightarrow> http_resp" where
  "res_json v = res_status_json 200 v"

text \<open>\<open>promise.then(ok).catch(err)\<close> on a store call: a rejection answers with
  \<open>err\<close> and leaves the database as it was.\<close>

definition then_catch :: "(failure, db, 'a) st \<Rightarrow> ('a \<Rightarrow> http_resp) \<Rightarrow> (failure \<Rightarrow> http_resp) \<Rightarrow> db \<Rightarrow> http_resp \<times> db" where
  "then_catch m ok err d = (case m d of Inl e \<Rightarrow> (err e, d) | Inr (v, d') \<Rightarrow> (ok v, d'))"

text \<open>What the router does with a request: a response of one of its handlers,
  no matching route (the framework's 404), or a parameter that does not decode
  (the framework's 400).\<close>

datatype http_result = Handled http_resp | NoRoute | BadParam

section \<open>Route matching\<close>

text \<open>One optional trailing slash is accepted (non-strict routing).\<close>

definition strip_trailing_slash :: "string \<Rightarrow> string" where
  "strip_trailing_slash p = (if p \<noteq> [] \<and> last p = CHR ''/'' then butlast p else p)"

text \<open>\<open>'/'\<close> compiles to \<open>^\/?$\<close>.\<close>

definition match_root :: "string \<Rightarrow> bool" where
  "match_root path \<longleftrightarrow> path = [] \<or> path = ''/''"

text \<open>\<open>'/:id'\<close> compiles to \<open>^\/([^\/]+?)\/?$\<close>: one non-empty segment.\<close>

definition match_param :: "string \<Rightarrow> string option" where
  "match_param path =
     (case path of
        c # p \<Rightarrow> (let q = strip_trailing_slash p in
                  if c = CHR ''/'' \<and> q \<noteq> [] \<and> CHR ''/'' \<notin> set q then Some q else None)
      | [] \<Rightarrow> None)"

text \<open>\<open>'/bookID/:id'\<close> compiles to \<open>^\/bookID\/([^\/]+?)\/?$\<close>, matched without
  regard to case.\<close>

definition match_book :: "string \<Rightarrow> string option" where
  "match_book path = (if map lower_ascii (take 8 path) = ''/bookid/'' then match_param (drop 7 path) else None)"

section \<open>Parameter decoding\<close>

text \<open>\<open>decodeURIComponent\<close>, with strings read as their UTF-8 bytes: an escape
  \<open>%XX\<close> is the byte \<open>XX\<close>; a \<open>%\<close> not followed by two hex digits is an
  error.\<close>

definition hex_val :: "char \<Rightarrow> nat option" where
  "hex_val c =
     (let n = (of_char c :: nat) in
      if 48 \<le> n \<and> n \<le> 57 then Some (n - 48)
      else if 65 \<le> n \<and> n \<le> 70 then Some (n - 55)
      else if 97 \<le> n \<and> n \<le> 102 then Some (n - 87) else None)"

fun decode_uri_component :: "string \<Rightarrow> string option" where
  "decode_uri_component [] = Some []"
| "decode_uri_component (c # cs) =
     (if c = CHR ''%'' then
        (case cs of
           h1 # h2 # r \<Rightarrow>
             (case (hex_val h1, hex_val h2) of
                (Some a, Some b) \<Rightarrow> map_option (\<lambda>t. char_of (16 * a + b) # t) (decode_uri_component r)
              | _ \<Rightarrow> None)
         | _ \<Rightarrow> None)
      else map_option (Cons c) (decode_uri_component cs))"

section \<open>The routes\<close>

text \<open>Lines 8--15.\<close>

definition get_root :: "db \<Rightarrow> http_resp \<times> db" where
  "get_root =
     then_catch (getAllAnnotations JUndefined) (\<lambda>annoResponse. res_json (JArr (map JObj annoResponse)))
       (\<lambda>err. res_status_json 404 (JObj [(''noAnnotationsFound'', JStr ''No Annotations Found'')]))"

text \<open>Lines 17--23.\<close>

definition get_id :: "string \<Rightarrow> db \<Rightarrow> http_resp \<times> db" where
  "get_id param_id =
     then_catch (getAnnotationByID (JStr param_id)) res_json
       (\<lambda>err. res_status_json 404 (JObj [(''noAnnotationFound'', JStr ''No Annotation with ID Found'')]))"

text \<open>Lines 25--31.\<close>

definition get_book_id :: "string \<Rightarrow> db \<Rightarrow> http_resp \<times> db" where
  "get_book_id param_id =
     then_catch (getAnnotationsByBookID (JStr param_id)) (\<lambda>annos. res_json (JArr (map JObj annos)))
       (\<lambda>err. res_status_json 404
                (JObj [(''noAnnotationsFound'', JStr ''No Annotations Associated with Book ID found'')]))"

definition run_handler :: "(db \<Rightarrow> http_resp \<times> db) \<Rightarrow> db \<Rightarrow> http_result \<times> db" where
  "run_handler h d = (case h d of (r, d') \<Rightarrow> (Handled r, d'))"

definition with_param :: "string \<Rightarrow> (string \<Rightarrow> db \<Rightarrow> http_resp \<times> db) \<Rightarrow> db \<Rightarrow> http_result \<times> db" where
  "with_param raw h d = (case decode_uri_component raw of None \<Rightarrow> (BadParam, d) | Some v \<Rightarrow> run_handler (h v) d)"

text \<open>The routes in registration order; the first that matches handles the
  request.\<close>

definition dispatch :: "string \<Rightarrow> db \<Rightarrow> http_result \<times> db" where
  "dispatch path d =
     (if match_root path then run_handler get_root d
      else case match_param path of
        Some raw \<Rightarrow> with_param raw get_id d
      | None \<Rightarrow>
          (case match_book path of
             Some raw \<Rightarrow> with_param raw get_book_id d
           | None \<Rightarrow> (NoRoute, d)))"


section \<open>Paths and parameters\<close>

lemma decode_no_escape: "CHR ''%'' \<notin> set s \<Longrightarrow> decode_uri_component s = Some s"
  by (induction s) auto

lemma match_param_segment:
  assumes "s \<noteq> []" "CHR ''/'' \<notin> set s"
  shows "match_param (CHR ''/'' # s) = Some s"
proof -
  have "last s \<in> set s" using assms(1) by simp
  then have "last s \<noteq> CHR ''/''" using assms(2) by auto
  then show ?thesis using assms by (simp add: match_param_def strip_trailing_slash_def)
qed

lemma int_to_dec_chars: "c \<in> set (int_to_dec n) \<Longrightarrow> is_digit c \<or> c = CHR ''-''"
  using nat_digits_all_digits by (auto simp: int_to_dec_def split: if_splits)

lemma int_to_dec_segment:
  "int_to_dec n \<noteq> [] \<and> CHR ''/'' \<notin> set (int_to_dec n) \<and> CHR ''%'' \<notin> set (int_to_dec n)"
proof -
  have "CHR ''/'' \<notin> set (int_to_dec n)" "CHR ''%'' \<notin> set (int_to_dec n)"
    using int_to_dec_chars [of "CHR ''/''" n] int_to_dec_chars [of "CHR ''%''" n] by (auto simp: is_digit_def)
  moreover have "int_to_dec n \<noteq> []"
    using nat_digits_not_Nil by (simp add: int_to_dec_def)
  ultimately show ?thesis by simp
qed

lemma dispatch_segment:
  assumes "s \<noteq> []" "CHR ''/'' \<notin> set s" "CHR ''%'' \<notin> set s"
  shows "dispatch (CHR ''/'' # s) d = run_handler (get_id s) d"
  using assms by (simp add: dispatch_def match_root_def match_param_segment with_param_def decode_no_escape)

lemma lower_bookID: "map lower_ascii ''/bookID/'' = ''/bookid/''"
  by code_simp

text \<open>\<open>GET /n\<close> for the decimal text of an \<open>integer\<close>: the rows with id \<open>n\<close>.\<close>

lemma dispatch_get_int:
  assumes t: "catalog d ''kindle_annotations'' = Some t" "anno_cols t"
    and i: "int4_min \<le> i" "i \<le> int4_max"
  shows "dispatch (CHR ''/'' # int_to_dec i) d =
           (Handled (res_json (case filter (\<lambda>r. r ''id'' = SInt i) (tbl_rows t) of
                                 [] \<Rightarrow> JNull | r # _ \<Rightarrow> JObj (anno_json r))), d)"
proof -
  have "filter (\<lambda>r. sql_eq (r ''id'') (SInt i)) (tbl_rows t) = filter (\<lambda>r. r ''id'' = SInt i) (tbl_rows t)"
    by (simp add: sql_eq_SInt)
  then show ?thesis
    using int_to_dec_segment [of i] i
    by (simp add: dispatch_segment run_handler_def get_id_def then_catch_def getAnnotationByID_text [OF t]
        pg_int_in_int_to_dec)
qed

text \<open>A handler whose store call does not change the database does not
  either, whether the call resolves or rejects.\<close>

lemma then_catch_same: "(\<And>v d'. m d = Inr (v, d') \<Longrightarrow> d' = d) \<Longrightarrow> snd (then_catch m ok err d) = d"
  by (auto simp: then_catch_def split: sum.splits)

lemma run_handler_snd: "snd (run_handler h d) = snd (h d)"
  by (simp add: run_handler_def split: prod.splits)

section \<open>Claims\<close>

text \<open>Claim C11.  \<open>GET /n\<close>, for the decimal text of an \<open>integer\<close>, answers 200
  with the JSON of the first stored annotation with id \<open>n\<close>, and with the body
  \<open>null\<close> when there is none (where the specification asks for 404).\<close>

theorem get_id_route_integer:
  assumes t: "catalog d ''kindle_annotations'' = Some t" "anno_cols t"
    and i: "int4_min \<le> i" "i \<le> int4_max"
  shows "dispatch (CHR ''/'' # int_to_dec i) d =
           (Handled (res_json (case filter (\<lambda>r. r ''id'' = SInt i) (tbl_rows t) of
                                 [] \<Rightarrow> JNull | r # _ \<Rightarrow> JObj (anno_json r))), d)"
  using dispatch_get_int [OF t i] .

theorem get_id_route_integer_witness:
  "dispatch ''/1'' example_db = (Handled (res_json (JObj (anno_json example_row))), example_db) \<and>
   dispatch ''/2'' example_db = (Handled \<lparr>resp_status = 200, resp_body = ''null''\<rparr>, example_db)"
proof -
  have "int_to_dec 1 = ''1''" "int_to_dec 2 = ''2''"
    by (simp_all add: int_to_dec_def nat_digits.simps)
  then show ?thesis
    using get_id_route_integer [OF example_table_facts(1,2), of 1] get_id_route_integer [OF example_table_facts(1,2), of 2]
    by (simp add: example_table_def example_row_def res_json_def res_status_json_def)
qed


text \<open>Claim C12.  \<open>GET /s\<close>, for a segment \<open>s\<close> the server cannot read as an
  \<open>integer\<close> (such as \<open>abc\<close>, or \<open>bookID\<close> without an id), answers 404 with
  \<open>{"noAnnotationFound": "No Annotation with ID Found"}\<close> and changes nothing.\<close>

theorem get_id_route_unreadable:
  assumes t: "catalog d ''kindle_annotations'' = Some t" "anno_cols t"
    and s: "s \<noteq> []" "CHR ''/'' \<notin> set s" "CHR ''%'' \<notin> set s"
    and bad: "pg_int_in ''integer'' int4_min int4_max s = Inl e"
  shows "dispatch (CHR ''/'' # s) d =
           (Handled \<lparr>resp_status = 404,
                     resp_body = ''{\"noAnnotationFound\":\"No Annotation with ID Found\"}''\<rparr>, d)"
  using s bad
  by (simp add: dispatch_segment run_handler_def get_id_def then_catch_def getAnnotationByID_text [OF t]
      res_status_json_def json_quote_def json_escape_char_def js_join.simps)

theorem get_id_route_unreadable_witness:
  "dispatch ''/abc'' example_db =
     (Handled \<lparr>resp_status = 404, resp_body = ''{\"noAnnotationFound\":\"No Annotation with ID Found\"}''\<rparr>,
      example_db)"
proof -
  have "pg_int_in ''integer'' int4_min int4_max ''abc'' = Inl (InvalidTextRepresentation ''integer'' ''abc'')"
    by (simp add: pg_int_in_def strip_spaces_def is_space_def split_sign_def is_digit_def)
  then show ?thesis
    using get_id_route_unreadable [OF example_table_facts(1,2), of "''abc''"] by simp
qed

text \<open>Claim C13.  \<open>GET /\<close> answers 200 with the JSON array of the first 50
  stored annotations, in storage order.\<close>

theorem get_root_route:
  assumes t: "catalog d ''kindle_annotations'' = Some t" "anno_cols t"
  shows "dispatch ''/'' d = (Handled (res_json (JArr (map (JObj \<circ> anno_json) (take 50 (tbl_rows t))))), d)"
  by (simp add: dispatch_def match_root_def run_handler_def get_root_def then_catch_def
      getAllAnnotations_default [OF t])

theorem get_root_route_witness:
  "dispatch ''/'' example_db = (Handled (res_json (JArr [JObj (anno_json example_row)])), example_db)"
  using get_root_route [OF example_table_facts(1,2)] by (simp add: example_table_def)

text \<open>Claim C14.  \<open>GET /bookID/n\<close>, for the decimal text of an \<open>integer\<close>,
  answers 200 with the JSON array of the stored annotations of book \<open>n\<close>.\<close>

theorem get_book_route:
  assumes t: "catalog d ''kindle_annotations'' = Some t" "anno_cols t"
    and i: "int4_min \<le> i" "i \<le> int4_max"
  shows "dispatch (''/bookID/'' @ int_to_dec i) d =
           (Handled (res_json (JArr (map (JObj \<circ> anno_json) (filter (\<lambda>r. r ''book_id'' = SInt i) (tbl_rows t))))), d)"
proof -
  have seg: "int_to_dec i \<noteq> []" "CHR ''/'' \<notin> set (int_to_dec i)" "CHR ''%'' \<notin> set (int_to_dec i)"
    using int_to_dec_segment [of i] by simp_all
  have "match_param (''/bookID/'' @ int_to_dec i) = None"
    using seg by (simp add: match_param_def strip_trailing_slash_def)
  moreover have "match_book (''/bookID/'' @ int_to_dec i) = Some (int_to_dec i)"
    using seg lower_bookID by (simp add: match_book_def match_param_segment)
  moreover have "getAnnotationsByBookID (JStr (int_to_dec i)) d =
                   Inr (map anno_json (filter (\<lambda>r. r ''book_id'' = SInt i) (tbl_rows t)), d)"
    using i by (simp add: getAnnotationsByBookID_def select_anno_by_param [OF t] kindle_annotations_table_def
        coerce_int4_text pg_int_in_int_to_dec)
  ultimately show ?thesis
    using seg by (simp add: dispatch_def match_root_def with_param_def decode_no_escape run_handler_def
        get_book_id_def then_catch_def comp_def)
qed

theorem get_book_route_witness:
  "dispatch ''/bookID/1'' example_db = (Handled (res_json (JArr [JObj (anno_json example_row)])), example_db)"
proof -
  have "int_to_dec 1 = ''1''" by (simp add: int_to_dec_def nat_digits.simps)
  then show ?thesis
    using get_book_route [OF example_table_facts(1,2), of 1] by (simp add: example_table_def example_row_def)
qed

end
