(* ===== verification/Spec2Isabelle.thy ===== *)
theory Spec2Isabelle
  imports Concurrency Tags Router
begin

text \<open>
  \<^bold>\<open>A verification development of bookmark-express.\<close>

  The repository is a data-access module for Kindle/Calibre annotations
  (\<open>src/models/annotations.js\<close>) and an Express router exposing three of its
  reads (\<open>src/routes/api/annotations.js\<close>).  Every store function builds SQL
  text with \<open>sql-template-strings\<close>, sends it through the node-postgres pool
  (\<open>db.query\<close>) and maps the returned rows; the behaviour therefore depends on
  the text the code builds, on how the server reads parameters and executes the
  statement, and on how node-postgres and Express convert values.  The
  development models all three layers, so that the program's behaviour, its
  bugs included, follows from the code rather than from a summary of it.

  \<^bold>\<open>Theories, in import order.\<close>
  \<^item> \<open>Prelude\<close>: the failures (PostgreSQL error conditions and JavaScript
    exceptions), decimal digits, the state and exception monad \<open>st_bind\<close>/
    \<open>st_return\<close>/\<open>st_throw\<close> that models an \<open>async\<close> chain (a rejected
    await rejects the chain), the sum-type combinators \<open>ok_bind\<close>/\<open>ok_map\<close>,
    and shared list lemmas.
  \<^item> \<open>Timestamp\<close>: the \<open>timestamp\<close> record, PostgreSQL timestamp input for the
    ISO layout (\<open>pg_timestamp_in\<close>), and \<open>to_char\<close> for the template patterns
    used by \<open>querySelectCols\<close> (line 11).
  \<^item> \<open>Values\<close>: JavaScript values and objects (\<open>js_val\<close>, property access
    \<open>js_get\<close>, assignment \<open>js_set\<close>, truthiness \<open>js_truthy\<close>),
    \<open>Number#toString\<close> (\<open>js_number_string\<close>: decimal below \<open>10^21\<close>,
    exponential notation above), \<open>JSON.stringify\<close>, node-postgres
    \<open>prepareValue\<close> and PostgreSQL integer input, with the round trip of
    integer text and the rejection of a number printed in exponential notation.
  \<^item> \<open>SQL\<close>: SQL values and column types, the server's reading of a parameter
    at a column type, the lexer's tokens, the statements, and the parser
    \<open>parse_stmt\<close> for the SELECT/UPDATE/INSERT/DELETE forms the program sends.
  \<^item> \<open>Database\<close>: tables (record \<open>table\<close>: columns, unique constraints,
    sequence, rows in storage order), the catalog (record \<open>db\<close>), execution of
    each statement (\<open>exec_select\<close>, \<open>exec_update\<close>, \<open>exec_insert\<close> with ON
    CONFLICT, \<open>exec_delete\<close>), \<open>db_query\<close>, and the schema of the four tables.
  \<^item> \<open>Books\<close>: the Books collaborator (not among the sources), from the
    specification: \<open>getBookID\<close> and \<open>insertBook\<close> on the \<open>books\<close> table.
  \<^item> \<open>Annotations\<close>: the store, one definition per function of
    \<open>src/models/annotations.js\<close> in file order (\<open>querySelectCols\<close>,
    \<open>annosSelectQuery\<close>, \<open>getAllAnnotations\<close>, \<open>getAnnotationsByBookTitle\<close>,
    \<open>getAnnotationsByBookID\<close>, \<open>getAnnotationByID\<close>,
    \<open>getMatchingAnnotationID\<close>, \<open>addAnnotation\<close> with its book lookup
    \<open>resolve_book\<close> and its two statement builders \<open>update_match_query\<close> and
    \<open>insert_query\<close>, \<open>addCalibreAnnotation\<close> with the object it builds
    \<open>calibre_object\<close>, \<open>editAnnotation\<close>,
    \<open>deleteAnnotation\<close>), the table invariant \<open>anno_inv\<close>, the parse and
    execution lemmas for each statement, and the claims about them.
  \<^item> \<open>Tags\<close>: the four unexported tag helpers (lines 169--210).
  \<^item> \<open>Store\<close>: \<open>module.exports\<close> as a datatype of operations \<open>store_op\<close>
    with the step \<open>run_op\<close>, the states \<open>reachable\<close> from the empty schema,
    and the invariant \<open>anno_db_inv\<close> of every one of them.
  \<^item> \<open>StoreView\<close>: the abstract specification of the annotation table, a
    map from ids to rows (\<open>anno_view\<close>), and the refinement of each store
    operation to a map operation.
  \<^item> \<open>Concurrency\<close>: \<open>addAnnotation\<close> as four awaited phases
    (\<open>req_step\<close>: \<open>Books.getBookID\<close>, \<open>Books.insertBook\<close> when the
    lookup finds none, the match query, \<open>add_write_query\<close>) and two
    requests interleaving on one database (\<open>conc_step\<close>).
  \<^item> \<open>Router\<close>: the Express router of \<open>src/routes/api/annotations.js\<close>:
    \<open>dispatch\<close> tries the patterns \<open>match_root\<close>, \<open>match_param\<close>,
    \<open>match_book\<close> in registration order, percent-decodes the parameter
    (\<open>decode_uri_component\<close>) and runs the handler \<open>get_root\<close>, \<open>get_id\<close>
    or \<open>get_book_id\<close>, each a \<open>then_catch\<close> of a store call with
    \<open>res_json\<close> or a 404 \<open>res_status_json\<close>.

  \<^bold>\<open>Correspondence.\<close>  A store function \<open>f(x)\<close> is a HOL function from its
  arguments to \<open>db \<Rightarrow> failure + (result \<times> db)\<close>; \<open>await\<close> is \<open>st_bind\<close>,
  \<open>return\<close> is \<open>st_return\<close>, a thrown exception or a rejected query is \<open>Inl\<close>.
  An \<open>SQL`...`\<close> template is the token list of its text, a \<open>${v}\<close> in it the
  token \<open>TParam v\<close>, \<open>.append\<close> is list append; raw text interpolated
  (\<open>WHERE id = ${matchID}\<close>, line 100) is lexed as a number.  \<open>rows[0]\<close> is
  \<open>js_first\<close> (\<open>undefined\<close> past the end), \<open>if (!x)\<close> is \<open>js_truthy\<close>.

  \<^bold>\<open>What is proved.\<close>
  \<^item> \<open>Annotations\<close>: the UPDATE branch of \<open>addAnnotation\<close> is valid SQL
    exactly when one of highlight and note is present (C2), so a matched
    annotation submitted with both rejects (C1, a bug: the appended assignments
    have no comma), while one with a highlight only is updated in place (C3);
    with no match the INSERT appends a row with the next serial id and the
    ON CONFLICT (id) clause never fires (C5); \<open>getAnnotationByID\<close> returns
    the projection of the row with that id or \<open>null\<close> (C4);
    \<open>editAnnotation\<close> sets highlight, note and \<open>edited\<close> on the row (C6);
    after \<open>deleteAnnotation\<close> a read of the id gives \<open>null\<close> (C7); the
    string and integer fields of an inserted annotation come back unchanged
    through \<open>querySelectCols\<close> (C19); \<open>addCalibreAnnotation\<close> stores the
    Calibre text as the highlight or the note that \<open>kind\<close> names and NULL in
    the other (C22); \<open>getAllAnnotations\<close> with a \<open>null\<close> limit returns
    every row, with a number of \<open>10^21\<close> or more rejects because
    \<open>Number#toString\<close> sends exponential notation, with a negative one
    rejects, and with \<open>n\<close> returns the first \<open>n\<close> (C24); once the serial
    sequence has passed 2147483647, an \<open>addAnnotation\<close> that finds no match
    rejects with the sequence's limit error (C26); and two imports of one
    highlight run one after the other leave one row, which the second updates,
    since its match query finds the row the first inserted (C28), the
    sequential contrast of the race C21.
  \<^item> \<open>Store\<close>: every reachable database keeps \<open>anno_inv\<close> (C8), by rule
    induction over \<open>reachable\<close> with one preservation lemma per operation,
    built on what each kind of statement can change (\<open>Database\<close>:
    \<open>exec_update_effect\<close>, \<open>exec_delete_effect\<close>, \<open>exec_stmt_other_table\<close>)
    and on the complete characterisation of the INSERT, errors included
    (\<open>insert_query_result\<close>).
  \<^item> \<open>Tags\<close>: both helpers that call \<open>findTagID\<close> always reject with a
    syntax error (C9); \<open>createTag\<close> appends a tag or reports the duplicate
    (C10).
  \<^item> \<open>Router\<close>: \<open>GET /n\<close> answers 200 with the annotation, or 200 \<open>null\<close>
    when there is none, where the specification asks for 404 (C11); an id the
    server cannot read answers 404 (C12); \<open>GET /\<close> gives the first 50
    annotations, and so 200 \<open>[]\<close> on an empty table, where the specification
    describes a 404 (C13); \<open>GET /bookID/n\<close> the annotations of book \<open>n\<close>
    (C14).  This theory: the HTTP facade never changes the database, whatever
    the path (C25).
  \<^item> \<open>StoreView\<close>: under the store invariant \<open>deleteAnnotation\<close> returns the
    row at the key and removes only that key (C15), and the INSERT adds a row
    at a key that was free (C16).  The reads are \<open>find\<close> over the same rows,
    so their refinement adds nothing to C4 and C11 and is not stated.
  \<^item> \<open>Timestamp\<close>: the time text has 19 characters and an hour field between
    1 and 12 (C17); a morning hour and the hour twelve hours later print alike,
    so the time cannot be read back (C18).
  \<^item> \<open>Concurrency\<close>: every interleaving of two requests keeps the store
    invariant (C20).  The three races are stated for any input and database,
    with the results of the queries as hypotheses: two requests for an
    existing book and an end location with no annotation can both miss the
    match and append two rows with the same (book, end) (C21); a rejected
    \<open>addAnnotation\<close> is not rolled back, the run of its phases ends in the
    database the book's creation left (C23); and when both lookups of a title
    miss, both requests call \<open>Books.insertBook\<close> (C27), which on the example
    database creates two books of one title.
  Supporting lemmas: the integer text round trip (\<open>pg_int_in_int_to_dec\<close>,
  \<open>pg_int_in_js_number_string\<close>), used wherever a number crosses
  node-postgres, the parse of every statement the program sends, and the
  general schedule of the match race (\<open>match_race_run\<close>).

  \<^bold>\<open>Bounds.\<close>  Ids and offsets are \<open>integer\<close> columns: a parameter is read
  with \<open>pg_int_in\<close> at \<open>[-2147483648, 2147483647]\<close>, and the claims state
  their ids in that range.  The serial sequence is bounded by the same maximum
  (\<open>SequenceLimitExceeded\<close> past it, C26), which the invariant keeps
  (\<open>tbl_seq \<le> int4_max + 1\<close>); the match race (C21) needs two more ids
  below it.  No loop of the program needs fuel: the SQL parser's list
  combinator \<open>sep_by\<close> terminates by a measure on the tokens, and each
  request of \<open>Concurrency\<close> has four phases.

  \<^bold>\<open>Plan.\<close>  The tag helpers' effects on \<open>annotations_tags\<close> once
  \<open>findTagID\<close> is repaired (as written it always rejects, C9).

  \<^bold>\<open>Not modelled.\<close>  Connection pooling and connection failures (a
  failure is one more \<open>Inl\<close> the facade catches); \<open>console.log\<close> (lines 21
  and 86 only write to the console and change no result) and the unused
  \<open>fs\<close>/\<open>path\<close>/\<open>tempDataFile\<close> bindings (lines 2, 6, 7: required, never
  read); the server bootstrap that mounts the router, which is not among the
  sources (the router module only exports \<open>router\<close>); the order of rows
  a SELECT without ORDER BY returns, which PostgreSQL leaves open and the model
  takes to be storage order (C13, C24 speak of the first rows in that order);
  SQL beyond the forms the program sends; NOT NULL constraints and foreign keys of \<open>bookmarker.sql\<close>, which is
  not among the sources (the schema follows the specification's data model);
  JavaScript numbers other than integers, and the shortest round-trip
  digits of \<open>Number#toString\<close> for integers of more than 17 significant
  digits (the model prints all of them; either way the text is not integer
  text); time zones (UTC is assumed); the
  sequence value consumed by an INSERT that fails (a failed statement leaves
  the database as it was); the framework's own 404 and 400 pages (\<open>NoRoute\<close>,
  \<open>BadParam\<close>); percent escapes that are not well-formed UTF-8, which
  \<open>decodeURIComponent\<close> rejects and the model decodes bytewise; the
  assignment casts of ON CONFLICT ... SET between column types other than
  two integer types, which the model rejects (\<open>assign_cast\<close>; the program
  assigns each column its own \<open>EXCLUDED\<close> value).
\<close>

section \<open>Across components\<close>

text \<open>Each route's store call is a read, so no handler changes the database.\<close>

lemma handlers_same: "snd (get_root d) = d" "snd (get_id s d) = d" "snd (get_book_id s d) = d"
  unfolding get_root_def get_id_def get_book_id_def by (rule then_catch_same, rule reads_same, assumption)+

text \<open>Claim C25.  The HTTP facade is read-only: whatever path is requested,
  matched or not, with a parameter that decodes or not, and whether the store
  call resolves or rejects, the database after the request is the one before.\<close>

theorem dispatch_read_only: "snd (dispatch path d) = d"
  by (simp add: dispatch_def with_param_def run_handler_snd handlers_same split: option.splits)

end
